theory Spec2Isabelle
  imports
    Main
    "HOL-Library.AList"
    "HOL-Library.Char_ord"
    "HOL-Library.List_Lexorder"
    "HOL-Library.Sublist"
begin

section \<open>Values, errors and the small string library\<close>

text \<open>
  The configuration engine reads YAML documents into Python values and walks them with
  \<^verbatim>\<open>isinstance\<close> checks. A document is modelled by the datatype \<open>yaml\<close>: null, booleans,
  integers, strings, sequences and mappings with string keys. A mapping is an association
  list in the document's key order (a Python dict keeps insertion order); \<open>map_of\<close> is the
  lookup. Strings are \<open>char list\<close> over single-byte characters.

  Every \<^verbatim>\<open>raise\<close> of the source is a value \<open>Inl e\<close> of the result type. The source's own
  exception class is \<open>ValidationError\<close> and carries the rendered message; the other
  constructors are the Python run-time exceptions a path of the source can end in.
\<close>

datatype yaml =
    YNull
  | YBool bool
  | YInt int
  | YStr string
  | YList "yaml list"
  | YMap "(string \<times> yaml) list"

datatype error =
    ValidationError string
  | YAMLError
  | KeyError string
  | IndexError
  | TypeError
  | AttributeError

type_synonym 'a result = "error + 'a"

definition ebind :: "'a result \<Rightarrow> ('a \<Rightarrow> 'b result) \<Rightarrow> 'b result" where
  "ebind m f = (case m of Inl e \<Rightarrow> Inl e | Inr x \<Rightarrow> f x)"

text \<open>\<^verbatim>\<open>_die(path, msg)\<close> raises \<^verbatim>\<open>ValidationError(f"{path}: {msg}")\<close>.\<close>

definition die :: "string \<Rightarrow> string \<Rightarrow> 'a result" where
  "die path msg = Inl (ValidationError (path @ '': '' @ msg))"

text \<open>A loop whose body may raise: the first failing element ends it.\<close>

fun emap :: "('a \<Rightarrow> 'b result) \<Rightarrow> 'a list \<Rightarrow> 'b list result" where
  "emap f [] = Inr []"
| "emap f (x # xs) = ebind (f x) (\<lambda>y. ebind (emap f xs) (\<lambda>ys. Inr (y # ys)))"

text \<open>The same loop over \<^verbatim>\<open>enumerate(xs)\<close>, the index starting at \<open>i\<close>.\<close>

fun emap_idx :: "(nat \<Rightarrow> 'a \<Rightarrow> 'b result) \<Rightarrow> nat \<Rightarrow> 'a list \<Rightarrow> 'b list result" where
  "emap_idx f i [] = Inr []"
| "emap_idx f i (x # xs) =
     ebind (f i x) (\<lambda>y. ebind (emap_idx f (Suc i) xs) (\<lambda>ys. Inr (y # ys)))"

text \<open>A list comprehension with a condition that may raise.\<close>

fun efilter :: "('a \<Rightarrow> bool result) \<Rightarrow> 'a list \<Rightarrow> 'a list result" where
  "efilter p [] = Inr []"
| "efilter p (x # xs) =
     ebind (p x) (\<lambda>b. ebind (efilter p xs) (\<lambda>ys. Inr (if b then x # ys else ys)))"

subsection \<open>Strings\<close>

text \<open>\<^verbatim>\<open>sep.join(xs)\<close>\<close>

fun join :: "string \<Rightarrow> string list \<Rightarrow> string" where
  "join sep [] = []"
| "join sep [x] = x"
| "join sep (x # y # ys) = x @ sep @ join sep (y # ys)"

text \<open>A value between single quotes, as the messages render it: \<^verbatim>\<open>f"'{s}'"\<close>.\<close>

definition quoted :: "string \<Rightarrow> string" where
  "quoted s = [CHR 0x27] @ s @ [CHR 0x27]"

text \<open>\<^verbatim>\<open>s.startswith(p)\<close>, \<^verbatim>\<open>s.endswith(p)\<close> and the substring test \<^verbatim>\<open>p in s\<close>.\<close>

fun startswith :: "string \<Rightarrow> string \<Rightarrow> bool" where
  "startswith s [] = True"
| "startswith [] (p # ps) = False"
| "startswith (c # cs) (p # ps) = (c = p \<and> startswith cs ps)"

definition endswith :: "string \<Rightarrow> string \<Rightarrow> bool" where
  "endswith s p = startswith (rev s) (rev p)"

fun str_in :: "string \<Rightarrow> string \<Rightarrow> bool" where
  "str_in p [] = (p = [])"
| "str_in p (c # cs) = (startswith (c # cs) p \<or> str_in p cs)"

text \<open>
  \<^verbatim>\<open>s.split("_", 1)\<close>: the part before the first underscore, and the part after it when
  there is one. Index 1 of the split raises \<^verbatim>\<open>IndexError\<close> on a string with no underscore.
\<close>

definition has_underscore :: "string \<Rightarrow> bool" where
  "has_underscore s = (CHR ''_'' \<in> set s)"

definition split_head :: "string \<Rightarrow> string" where
  "split_head s = takeWhile (\<lambda>c. c \<noteq> CHR ''_'') s"

definition split_tail :: "string \<Rightarrow> string result" where
  "split_tail s =
     (if has_underscore s then Inr (tl (dropWhile (\<lambda>c. c \<noteq> CHR ''_'') s))
      else Inl IndexError)"

text \<open>
  \<^verbatim>\<open>not s.strip()\<close>: the string is empty or all whitespace. A character of a string is
  a code point from 0 to 255; the whitespace \<^verbatim>\<open>str.strip()\<close> removes is, among these, what
  \<^verbatim>\<open>str.isspace\<close> accepts: tab, line feed, vertical tab, form feed, carriage return, the
  four separators 28 to 31, space, next line (133) and no-break space (160).
\<close>

definition isspace :: "char \<Rightarrow> bool" where
  "isspace c = (c \<in> set [CHR 0x09, CHR 0x0A, CHR 0x0B, CHR 0x0C, CHR 0x0D,
                          CHR 0x1C, CHR 0x1D, CHR 0x1E, CHR 0x1F, CHR 0x20,
                          CHR 0x85, CHR 0xA0])"

definition strip_empty :: "string \<Rightarrow> bool" where
  "strip_empty s = list_all isspace s"

text \<open>\<^verbatim>\<open>str(n)\<close> for a list index and for an integer.\<close>

fun show_nat :: "nat \<Rightarrow> string" where
  "show_nat n =
     (if n < 10 then [char_of (48 + n)]
      else show_nat (n div 10) @ [char_of (48 + n mod 10)])"

declare show_nat.simps [simp del]

definition show_int :: "int \<Rightarrow> string" where
  "show_int i = (if i < 0 then ''-'' @ show_nat (nat (- i)) else show_nat (nat i))"

subsection \<open>Python values\<close>

text \<open>Truthiness, \<^verbatim>\<open>x or y\<close>, \<^verbatim>\<open>d.get(k)\<close> and \<^verbatim>\<open>d[k]\<close>.\<close>

fun truthy :: "yaml \<Rightarrow> bool" where
  "truthy YNull = False"
| "truthy (YBool b) = b"
| "truthy (YInt n) = (n \<noteq> 0)"
| "truthy (YStr s) = (s \<noteq> [])"
| "truthy (YList xs) = (xs \<noteq> [])"
| "truthy (YMap m) = (m \<noteq> [])"

definition py_or :: "yaml \<Rightarrow> yaml \<Rightarrow> yaml" where
  "py_or x y = (if truthy x then x else y)"

definition dict_get :: "(string \<times> yaml) list \<Rightarrow> string \<Rightarrow> yaml" where
  "dict_get d k = (case map_of d k of Some v \<Rightarrow> v | None \<Rightarrow> YNull)"

definition dict_index :: "(string \<times> 'a) list \<Rightarrow> string \<Rightarrow> 'a result" where
  "dict_index d k = (case map_of d k of Some v \<Rightarrow> Inr v | None \<Rightarrow> Inl (KeyError k))"

definition keys :: "(string \<times> 'a) list \<Rightarrow> string list" where
  "keys d = map fst d"

text \<open>\<^verbatim>\<open>out = dict(base); out.update(override)\<close>\<close>

definition merge_dict :: "(string \<times> 'a) list \<Rightarrow> (string \<times> 'a) list \<Rightarrow> (string \<times> 'a) list" where
  "merge_dict base override = fold (\<lambda>(k, v). AList.update k v) override base"

section \<open>Dispatch flag filtering\<close>

text \<open>
  \<^verbatim>\<open>_apply_dispatch_flag_filters(stages, flags)\<close> of \<^verbatim>\<open>config_resolve.py\<close>. Each of its three
  statements is a step: the list comprehension runs when the flag is \<^verbatim>\<open>False\<close> (absent or
  \<^verbatim>\<open>True\<close> leaves the list alone). The role of a stage is \<^verbatim>\<open>s.split("_", 1)[1]\<close>.
\<close>

definition flag_is_false :: "(string \<times> bool) list \<Rightarrow> string \<Rightarrow> bool" where
  "flag_is_false flags k = (map_of flags k = Some False)"

definition role_lacks :: "string \<Rightarrow> string \<Rightarrow> bool result" where
  "role_lacks w s = ebind (split_tail s) (\<lambda>role. Inr (\<not> str_in w role))"

definition step_brief :: "(string \<times> bool) list \<Rightarrow> string list \<Rightarrow> string list result" where
  "step_brief flags out =
     (if flag_is_false flags ''enable_brief''
      then Inr (filter (\<lambda>s. \<not> endswith s ''_brief'') out)
      else Inr out)"

definition step_verify :: "(string \<times> bool) list \<Rightarrow> string list \<Rightarrow> string list result" where
  "step_verify flags out =
     (if flag_is_false flags ''enable_verify''
      then efilter (role_lacks ''verify'') out
      else Inr out)"

definition step_review :: "(string \<times> bool) list \<Rightarrow> string list \<Rightarrow> string list result" where
  "step_review flags out =
     (if flag_is_false flags ''enable_review''
      then efilter (role_lacks ''review'') out
      else Inr out)"

definition apply_dispatch_flag_filters ::
  "string list \<Rightarrow> (string \<times> bool) list \<Rightarrow> string list result" where
  "apply_dispatch_flag_filters stages flags =
     ebind (step_brief flags stages) (\<lambda>out1.
     ebind (step_verify flags out1) (\<lambda>out2.
     step_review flags out2))"


section \<open>Config V1: the validated configuration\<close>

text \<open>
  \<^verbatim>\<open>validate_runtime_config_dict\<close> returns the dict it was given once every check has
  passed. The embedding returns the validated dict read into records: the fields are the
  dict's keys, and each holds what the validator has established the value to be (a
  string after \<^verbatim>\<open>isinstance(v, str)\<close>, the list \<^verbatim>\<open>_expect_str_set\<close> returns, the mapping
  left by \<^verbatim>\<open>node.get(k) or {}\<close>). The resolvers of \<^verbatim>\<open>config_resolve.py\<close> run on these
  records, as \<^verbatim>\<open>_main\<close> runs them on the validator's result. Wrapper defaults stay raw
  values, since the resolver tests their types again.
\<close>

record servant =
  default_model :: string
  allowed_models :: "string list"
  wrapper_defaults :: "(string \<times> yaml) list"
  purpose_models :: "(string \<times> string) list"
  purpose_efforts :: "(string \<times> string) list"

record profile =
  stages :: "string list"
  flags :: "(string \<times> bool) list"
  options :: "(string \<times> string) list"
  stage_models :: "(string \<times> string) list"
  stage_efforts :: "(string \<times> string) list"

record pipeline =
  default_profile :: string
  profiles :: "(string \<times> profile) list"

record cfg =
  servants :: "(string \<times> servant) list"
  pipelines :: "(string \<times> pipeline) list"

subsection \<open>Constant tables of \<^verbatim>\<open>config_validate.py\<close>\<close>

definition SERVANT_NAMES :: "string list" where
  "SERVANT_NAMES = [''codex'', ''gemini'', ''copilot'']"

definition PIPELINE_FLAGS :: "(string \<times> string list) list" where
  "PIPELINE_FLAGS =
     [(''impl'', [''enable_brief'', ''enable_verify'', ''enable_review'']),
      (''review'', [''enable_verify'', ''enable_review'']),
      (''plan'', [''enable_stage2_codex'', ''enable_stage2_gemini'',
                  ''enable_stage3_cross_review''])]"

definition PIPELINE_OPTIONS :: "(string \<times> (string \<times> string list) list) list" where
  "PIPELINE_OPTIONS =
     [(''impl'', [(''impl_mode'', [''safe'', ''one_shot'']),
                  (''timeout_mode'', [''enforce'', ''wait_done''])]),
      (''review'', [(''review_mode'', [''codex_only'', ''cross'']),
                    (''timeout_mode'', [''enforce'', ''wait_done''])]),
      (''plan'', [(''consolidate_mode'', [''standard'']),
                  (''timeout_mode'', [''enforce'', ''wait_done''])])]"

definition WRAPPER_DEFAULT_KEYS :: "(string \<times> string list) list" where
  "WRAPPER_DEFAULT_KEYS =
     [(''codex'', [''effort'', ''timeout_ms'', ''timeout_mode'']),
      (''gemini'', [''approval_mode'', ''sandbox'', ''timeout_ms'', ''timeout_mode'']),
      (''copilot'', [''timeout_ms'', ''timeout_mode''])]"

definition CODEX_EFFORT_VALUES :: "string list" where
  "CODEX_EFFORT_VALUES = [''low'', ''medium'', ''high'', ''xhigh'']"

definition GEMINI_APPROVAL_VALUES :: "string list" where
  "GEMINI_APPROVAL_VALUES = [''default'', ''auto_edit'', ''yolo'']"

definition TIMEOUT_MODE_VALUES :: "string list" where
  "TIMEOUT_MODE_VALUES = [''enforce'', ''wait_done'']"

definition PLAN_STAGE_TOOL :: "(string \<times> string) list" where
  "PLAN_STAGE_TOOL =
     [(''stage1'', ''copilot''), (''stage2_codex'', ''codex''),
      (''stage2_gemini'', ''gemini''), (''stage3_codex_review'', ''codex''),
      (''stage3_gemini_review'', ''gemini''), (''stage4'', ''copilot'')]"

definition PURPOSE_KEYS :: "string list" where
  "PURPOSE_KEYS = [''impl'', ''review'', ''verify'', ''plan'', ''one_shot'']"

subsection \<open>Checking helpers\<close>

text \<open>
  \<^verbatim>\<open>_ensure_keys\<close>: the keys outside the allowed set, sorted, are reported.
  \<^verbatim>\<open>_expect_type\<close> with \<^verbatim>\<open>dict\<close> and with \<^verbatim>\<open>list\<close>; the value comes back at its type.
\<close>

definition ensure_keys :: "(string \<times> 'a) list \<Rightarrow> string list \<Rightarrow> string \<Rightarrow> unit result" where
  "ensure_keys mapping allowed path =
     (let unknown = sort (remdups (filter (\<lambda>k. k \<notin> set allowed) (keys mapping)))
      in if unknown \<noteq> [] then die path (''unknown keys: '' @ join '', '' unknown)
         else Inr ())"

definition expect_dict :: "yaml \<Rightarrow> string \<Rightarrow> (string \<times> yaml) list result" where
  "expect_dict v path = (case v of YMap m \<Rightarrow> Inr m | _ \<Rightarrow> die path ''must be dict'')"

definition expect_list :: "yaml \<Rightarrow> string \<Rightarrow> yaml list result" where
  "expect_list v path = (case v of YList xs \<Rightarrow> Inr xs | _ \<Rightarrow> die path ''must be list'')"

text \<open>\<^verbatim>\<open>isinstance(v, str) and v.strip()\<close>: the string, when the test holds.\<close>

definition as_nonempty_str :: "yaml \<Rightarrow> string option" where
  "as_nonempty_str v =
     (case v of YStr s \<Rightarrow> if strip_empty s then None else Some s | _ \<Rightarrow> None)"

text \<open>\<^verbatim>\<open>isinstance(v, str) and v in values\<close>\<close>

definition str_member :: "yaml \<Rightarrow> string list \<Rightarrow> bool" where
  "str_member v vals = (case v of YStr s \<Rightarrow> s \<in> set vals | _ \<Rightarrow> False)"

text \<open>
  \<^verbatim>\<open>isinstance(v, int) and v >= 0\<close>: a Python \<^verbatim>\<open>bool\<close> is an \<^verbatim>\<open>int\<close> (0 or 1), so both
  booleans pass.
\<close>

definition nonneg_int :: "yaml \<Rightarrow> bool" where
  "nonneg_int v = (case v of YInt n \<Rightarrow> 0 \<le> n | YBool b \<Rightarrow> True | _ \<Rightarrow> False)"

text \<open>\<^verbatim>\<open>v == n\<close> for an integer constant \<open>n\<close>: \<^verbatim>\<open>True == 1\<close> and \<^verbatim>\<open>False == 0\<close> hold.\<close>

definition eq_int :: "yaml \<Rightarrow> int \<Rightarrow> bool" where
  "eq_int v n = (case v of YInt k \<Rightarrow> k = n | YBool b \<Rightarrow> (if b then 1 else 0) = n | _ \<Rightarrow> False)"

definition expect_str_set :: "yaml \<Rightarrow> string \<Rightarrow> string list result" where
  "expect_str_set v path =
     ebind (expect_list v path) (\<lambda>items.
     emap_idx (\<lambda>i item.
        case as_nonempty_str item of
          Some s \<Rightarrow> Inr s
        | None \<Rightarrow> die (path @ ''['' @ show_nat i @ '']'') ''must be a non-empty string'')
       0 items)"

definition stage_to_tool :: "string \<Rightarrow> string \<Rightarrow> string option" where
  "stage_to_tool stage pipeline_name =
     (if pipeline_name = ''plan'' then map_of PLAN_STAGE_TOOL stage
      else if \<not> has_underscore stage then None
      else let tool = split_head stage
           in if tool \<in> set SERVANT_NAMES then Some tool else None)"


subsection \<open>\<^verbatim>\<open>validate_runtime_config_dict\<close>: the servants\<close>

text \<open>
  The body of the loop \<^verbatim>\<open>for servant in SERVANT_NAMES\<close>, in the order of the source:
  the node and its keys, \<^verbatim>\<open>default_model\<close>, \<^verbatim>\<open>allowed_models\<close>, the membership of the
  default, \<^verbatim>\<open>wrapper_defaults\<close>, \<^verbatim>\<open>purpose_models\<close>, \<^verbatim>\<open>purpose_efforts\<close>.
\<close>

definition one_of :: "string list \<Rightarrow> string" where
  "one_of vals = ''must be one of: '' @ join '', '' (sort vals)"

definition check_wrapper_default :: "string \<Rightarrow> string \<Rightarrow> string \<times> yaml \<Rightarrow> unit result" where
  "check_wrapper_default spath servant kv =
     (case kv of (key, raw) \<Rightarrow>
        let key_path = spath @ ''.wrapper_defaults.'' @ key in
        if key = ''timeout_ms'' then
          (if \<not> nonneg_int raw then die key_path ''must be a non-negative integer''
           else Inr ())
        else if key = ''timeout_mode'' then
          (if \<not> str_member raw TIMEOUT_MODE_VALUES
           then die key_path (one_of TIMEOUT_MODE_VALUES) else Inr ())
        else if servant = ''codex'' \<and> key = ''effort'' then
          (if \<not> str_member raw CODEX_EFFORT_VALUES
           then die key_path (one_of CODEX_EFFORT_VALUES) else Inr ())
        else if servant = ''gemini'' \<and> key = ''approval_mode'' then
          (if \<not> str_member raw GEMINI_APPROVAL_VALUES
           then die key_path (one_of GEMINI_APPROVAL_VALUES) else Inr ())
        else if servant = ''gemini'' \<and> key = ''sandbox'' then
          (case raw of YBool b \<Rightarrow> Inr () | _ \<Rightarrow> die key_path ''must be boolean'')
        else Inr ())"

definition validate_wrapper_defaults ::
  "string \<Rightarrow> string \<Rightarrow> yaml \<Rightarrow> (string \<times> yaml) list result" where
  "validate_wrapper_defaults spath servant v =
     ebind (expect_dict v (spath @ ''.wrapper_defaults'')) (\<lambda>wd.
     ebind (dict_index WRAPPER_DEFAULT_KEYS servant) (\<lambda>wanted.
     ebind (ensure_keys wd wanted (spath @ ''.wrapper_defaults'')) (\<lambda>_.
     let missing_wrapper_keys = sort (remdups (filter (\<lambda>k. k \<notin> set (keys wd)) wanted)) in
     if missing_wrapper_keys \<noteq> [] then
       die (spath @ ''.wrapper_defaults'')
         (''missing required keys: '' @ join '', '' missing_wrapper_keys)
     else
     ebind (emap (check_wrapper_default spath servant) wd) (\<lambda>_.
     Inr wd))))"

definition check_purpose_model :: "string \<Rightarrow> string list \<Rightarrow> string \<times> yaml \<Rightarrow> (string \<times> string) result" where
  "check_purpose_model spath allowed kv =
     (case kv of (purpose_name, v) \<Rightarrow>
        (case as_nonempty_str v of
           None \<Rightarrow> die (spath @ ''.purpose_models.'' @ purpose_name) ''must be a non-empty string''
         | Some m \<Rightarrow>
             if m \<notin> set allowed then
               die (spath @ ''.purpose_models.'' @ purpose_name)
                 (''model '' @ quoted m @ '' is not in allowed_models'')
             else Inr (purpose_name, m)))"

definition validate_purpose_models ::
  "string \<Rightarrow> string list \<Rightarrow> yaml \<Rightarrow> (string \<times> string) list result" where
  "validate_purpose_models spath allowed v =
     ebind (expect_dict (py_or v (YMap [])) (spath @ ''.purpose_models'')) (\<lambda>pm.
     ebind (ensure_keys pm PURPOSE_KEYS (spath @ ''.purpose_models'')) (\<lambda>_.
     emap (check_purpose_model spath allowed) pm))"

definition check_purpose_effort :: "string \<Rightarrow> string \<times> yaml \<Rightarrow> (string \<times> string) result" where
  "check_purpose_effort spath kv =
     (case kv of (purpose_name, v) \<Rightarrow>
        (case v of
           YStr effort \<Rightarrow>
             if effort \<in> set CODEX_EFFORT_VALUES then Inr (purpose_name, effort)
             else die (spath @ ''.purpose_efforts.'' @ purpose_name) (one_of CODEX_EFFORT_VALUES)
         | _ \<Rightarrow> die (spath @ ''.purpose_efforts.'' @ purpose_name) (one_of CODEX_EFFORT_VALUES)))"

definition validate_purpose_efforts ::
  "string \<Rightarrow> string \<Rightarrow> yaml \<Rightarrow> (string \<times> string) list result" where
  "validate_purpose_efforts spath servant v =
     ebind (expect_dict (py_or v (YMap [])) (spath @ ''.purpose_efforts'')) (\<lambda>pe.
     if servant \<noteq> ''codex'' \<and> pe \<noteq> [] then
       die (spath @ ''.purpose_efforts'') ''is only supported for codex''
     else
     ebind (ensure_keys pe PURPOSE_KEYS (spath @ ''.purpose_efforts'')) (\<lambda>_.
     emap (check_purpose_effort spath) pe))"

definition validate_servant :: "string \<Rightarrow> (string \<times> yaml) list \<Rightarrow> string \<Rightarrow> servant result" where
  "validate_servant cfg_path servants_node servant =
     (let spath = cfg_path @ ''.servants.'' @ servant in
      ebind (expect_dict (dict_get servants_node servant) spath) (\<lambda>node.
      ebind (ensure_keys node
               [''default_model'', ''allowed_models'', ''wrapper_defaults'',
                ''purpose_models'', ''purpose_efforts''] spath) (\<lambda>_.
      case as_nonempty_str (dict_get node ''default_model'') of
        None \<Rightarrow> die (spath @ ''.default_model'') ''must be a non-empty string''
      | Some dm \<Rightarrow>
      ebind (expect_str_set (dict_get node ''allowed_models'') (spath @ ''.allowed_models''))
        (\<lambda>allowed.
      if dm \<notin> set allowed then
        die (spath @ ''.default_model'') ''must be included in allowed_models''
      else
      ebind (validate_wrapper_defaults spath servant (dict_get node ''wrapper_defaults''))
        (\<lambda>wd.
      ebind (validate_purpose_models spath allowed (dict_get node ''purpose_models''))
        (\<lambda>pm.
      ebind (validate_purpose_efforts spath servant (dict_get node ''purpose_efforts''))
        (\<lambda>pe.
      Inr \<lparr>default_model = dm, allowed_models = allowed, wrapper_defaults = wd,
           purpose_models = pm, purpose_efforts = pe\<rparr>)))))))"

subsection \<open>\<^verbatim>\<open>validate_runtime_config_dict\<close>: the pipelines\<close>

text \<open>
  The body of the loop over the profiles of one pipeline: the stage list (required for
  \<^verbatim>\<open>impl\<close> and \<^verbatim>\<open>review\<close>, refused for \<^verbatim>\<open>plan\<close>), the flags, the options, the per-stage
  models and the per-stage efforts.
\<close>

definition validate_stages :: "string \<Rightarrow> string \<Rightarrow> (string \<times> yaml) list \<Rightarrow> string list result" where
  "validate_stages ppath pipeline_name prof =
     (if pipeline_name \<in> set [''impl'', ''review''] then
        ebind (expect_str_set (dict_get prof ''stages'') (ppath @ ''.stages'')) (\<lambda>sts.
        if sts = [] then die (ppath @ ''.stages'') ''must not be empty''
        else
        ebind (emap_idx (\<lambda>idx stage.
                 case stage_to_tool stage pipeline_name of
                   None \<Rightarrow> die (ppath @ ''.stages['' @ show_nat idx @ '']'')
                             ''must start with a known tool prefix''
                 | Some tool \<Rightarrow> Inr ()) 0 sts) (\<lambda>_.
        Inr sts))
      else if ''stages'' \<in> set (keys prof)
              \<and> dict_get prof ''stages'' \<notin> set [YNull, YList []] then
        die (ppath @ ''.stages'') ''is not supported for the plan pipeline''
      else Inr [])"

definition validate_flags :: "string \<Rightarrow> string \<Rightarrow> yaml \<Rightarrow> (string \<times> bool) list result" where
  "validate_flags ppath pipeline_name v =
     ebind (expect_dict (py_or v (YMap [])) (ppath @ ''.flags'')) (\<lambda>fl.
     ebind (dict_index PIPELINE_FLAGS pipeline_name) (\<lambda>allowed_flags.
     ebind (ensure_keys fl allowed_flags (ppath @ ''.flags'')) (\<lambda>_.
     emap (\<lambda>(flag_name, flag_value).
        case flag_value of
          YBool b \<Rightarrow> Inr (flag_name, b)
        | _ \<Rightarrow> die (ppath @ ''.flags.'' @ flag_name) ''must be boolean'') fl)))"

definition validate_options :: "string \<Rightarrow> string \<Rightarrow> yaml \<Rightarrow> (string \<times> string) list result" where
  "validate_options ppath pipeline_name v =
     ebind (expect_dict (py_or v (YMap [])) (ppath @ ''.options'')) (\<lambda>opts.
     ebind (dict_index PIPELINE_OPTIONS pipeline_name) (\<lambda>opt_table.
     ebind (ensure_keys opts (keys opt_table) (ppath @ ''.options'')) (\<lambda>_.
     emap (\<lambda>(opt_name, opt_val).
        case opt_val of
          YStr s \<Rightarrow>
            ebind (dict_index opt_table opt_name) (\<lambda>allowed_vals.
            if s \<notin> set allowed_vals then
              die (ppath @ ''.options.'' @ opt_name) (one_of allowed_vals)
            else Inr (opt_name, s))
        | _ \<Rightarrow> die (ppath @ ''.options.'' @ opt_name) ''must be string'') opts)))"

definition validate_stage_models ::
  "string \<Rightarrow> string \<Rightarrow> (string \<times> servant) list \<Rightarrow> yaml \<Rightarrow> (string \<times> string) list result" where
  "validate_stage_models ppath pipeline_name svs v =
     ebind (expect_dict (py_or v (YMap [])) (ppath @ ''.stage_models'')) (\<lambda>sm.
     emap (\<lambda>(stage_name, mv).
        case as_nonempty_str mv of
          None \<Rightarrow> die (ppath @ ''.stage_models.'' @ stage_name) ''must be a non-empty string''
        | Some m \<Rightarrow>
            (case stage_to_tool stage_name pipeline_name of
               None \<Rightarrow> die (ppath @ ''.stage_models.'' @ stage_name) ''unknown stage name''
             | Some tool \<Rightarrow>
                 ebind (dict_index svs tool) (\<lambda>sv.
                 if m \<notin> set (allowed_models sv) then
                   die (ppath @ ''.stage_models.'' @ stage_name)
                     (''model '' @ quoted m @ '' is not allowed for servant '' @ quoted tool)
                 else Inr (stage_name, m)))) sm)"

definition validate_stage_efforts ::
  "string \<Rightarrow> string \<Rightarrow> yaml \<Rightarrow> (string \<times> string) list result" where
  "validate_stage_efforts ppath pipeline_name v =
     ebind (expect_dict (py_or v (YMap [])) (ppath @ ''.stage_efforts'')) (\<lambda>se.
     emap (\<lambda>(stage_name, ev).
        if \<not> str_member ev CODEX_EFFORT_VALUES then
          die (ppath @ ''.stage_efforts.'' @ stage_name) (one_of CODEX_EFFORT_VALUES)
        else
          (case stage_to_tool stage_name pipeline_name of
             None \<Rightarrow> die (ppath @ ''.stage_efforts.'' @ stage_name) ''unknown stage name''
           | Some tool \<Rightarrow>
               if tool \<noteq> ''codex'' then
                 die (ppath @ ''.stage_efforts.'' @ stage_name)
                   ''is only supported for codex stages''
               else (case ev of YStr e \<Rightarrow> Inr (stage_name, e) | _ \<Rightarrow> Inl TypeError))) se)"

definition validate_profile ::
  "string \<Rightarrow> string \<Rightarrow> (string \<times> servant) list \<Rightarrow> string \<times> yaml \<Rightarrow> (string \<times> profile) result" where
  "validate_profile cfg_path pipeline_name svs kv =
     (case kv of (profile_name, pv) \<Rightarrow>
        let ppath = cfg_path @ ''.pipelines.'' @ pipeline_name @ ''.profiles.'' @ profile_name in
        ebind (expect_dict pv ppath) (\<lambda>prof.
        ebind (ensure_keys prof
                 [''stages'', ''flags'', ''options'', ''stage_models'', ''stage_efforts'']
                 ppath) (\<lambda>_.
        ebind (validate_stages ppath pipeline_name prof) (\<lambda>sts.
        ebind (validate_flags ppath pipeline_name (dict_get prof ''flags'')) (\<lambda>fl.
        ebind (validate_options ppath pipeline_name (dict_get prof ''options'')) (\<lambda>opts.
        ebind (validate_stage_models ppath pipeline_name svs (dict_get prof ''stage_models''))
          (\<lambda>sm.
        ebind (validate_stage_efforts ppath pipeline_name (dict_get prof ''stage_efforts''))
          (\<lambda>se.
        Inr (profile_name,
             \<lparr>stages = sts, flags = fl, options = opts,
              stage_models = sm, stage_efforts = se\<rparr>)))))))))"

definition validate_pipeline ::
  "string \<Rightarrow> (string \<times> servant) list \<Rightarrow> (string \<times> yaml) list \<Rightarrow> string \<Rightarrow> pipeline result" where
  "validate_pipeline cfg_path svs pipelines_node pipeline_name =
     (let plpath = cfg_path @ ''.pipelines.'' @ pipeline_name in
      ebind (expect_dict (dict_get pipelines_node pipeline_name) plpath) (\<lambda>pl.
      ebind (ensure_keys pl [''default_profile'', ''profiles''] plpath) (\<lambda>_.
      case as_nonempty_str (dict_get pl ''default_profile'') of
        None \<Rightarrow> die (plpath @ ''.default_profile'') ''must be a non-empty string''
      | Some dp \<Rightarrow>
      ebind (expect_dict (dict_get pl ''profiles'') (plpath @ ''.profiles'')) (\<lambda>profs.
      if profs = [] then die (plpath @ ''.profiles'') ''must define at least one profile''
      else if dp \<notin> set (keys profs) then
        die (plpath @ ''.default_profile'') ''must match a profile name''
      else
      ebind (emap (validate_profile cfg_path pipeline_name svs) profs) (\<lambda>pvs.
      Inr \<lparr>default_profile = dp, profiles = pvs\<rparr>)))))"

definition validate_runtime_config_dict :: "(string \<times> yaml) list \<Rightarrow> string \<Rightarrow> cfg result" where
  "validate_runtime_config_dict c cfg_path =
     ebind (ensure_keys c [''version'', ''servants'', ''pipelines''] cfg_path) (\<lambda>_.
     if \<not> eq_int (dict_get c ''version'') 1 then die (cfg_path @ ''.version'') ''must be 1''
     else
     ebind (expect_dict (dict_get c ''servants'') (cfg_path @ ''.servants'')) (\<lambda>servants_node.
     ebind (ensure_keys servants_node SERVANT_NAMES (cfg_path @ ''.servants'')) (\<lambda>_.
     ebind (emap (\<lambda>servant.
              ebind (validate_servant cfg_path servants_node servant) (\<lambda>sv.
              Inr (servant, sv))) SERVANT_NAMES) (\<lambda>svs.
     ebind (expect_dict (dict_get c ''pipelines'') (cfg_path @ ''.pipelines'')) (\<lambda>pipelines_node.
     ebind (ensure_keys pipelines_node [''impl'', ''review'', ''plan'']
              (cfg_path @ ''.pipelines'')) (\<lambda>_.
     ebind (emap (\<lambda>pipeline_name.
              ebind (validate_pipeline cfg_path svs pipelines_node pipeline_name) (\<lambda>pv.
              Inr (pipeline_name, pv))) [''impl'', ''review'', ''plan'']) (\<lambda>pvs.
     Inr \<lparr>servants = svs, pipelines = pvs\<rparr>)))))))"


section \<open>Config V1: manifest extensions\<close>

text \<open>
  \<^verbatim>\<open>validate_manifest_extensions(cfg, manifest, manifest_path)\<close> returns nothing; the
  embedding returns what it has validated of the manifest's \<^verbatim>\<open>routing\<close> block, the only
  part \<^verbatim>\<open>resolve_dispatch\<close> reads: \<^verbatim>\<open>routing.intent\<close> (absent, or a string),
  \<^verbatim>\<open>routing.model\<close>, \<^verbatim>\<open>routing.pipeline.profile\<close> (null, or a non-empty string),
  \<^verbatim>\<open>routing.pipeline.flags\<close> and \<^verbatim>\<open>routing.pipeline.options\<close>, each mapping after
  \<^verbatim>\<open>... or {}\<close>.
\<close>

record manifest =
  routing_intent :: "string option"
  routing_model :: "(string \<times> string) list"
  routing_profile :: "string option"
  routing_flags :: "(string \<times> bool) list"
  routing_options :: "(string \<times> string) list"

definition empty_manifest :: manifest where
  "empty_manifest = \<lparr>routing_intent = None, routing_model = [], routing_profile = None,
                      routing_flags = [], routing_options = []\<rparr>"

fun pipeline_name_for_intent :: "cfg \<Rightarrow> string \<Rightarrow> string list \<Rightarrow> string option result" where
  "pipeline_name_for_intent c i [] = Inr None"
| "pipeline_name_for_intent c i (name # names) =
     ebind (dict_index (pipelines c) name) (\<lambda>pl.
     if i \<in> set (keys (profiles pl)) then Inr (Some name)
     else pipeline_name_for_intent c i names)"

definition validate_routing_model ::
  "cfg \<Rightarrow> string \<Rightarrow> yaml \<Rightarrow> (string \<times> string) list result" where
  "validate_routing_model c manifest_path v =
     (let model_map = py_or v (YMap []) in
      if truthy model_map then
        ebind (expect_dict model_map (manifest_path @ ''.routing.model'')) (\<lambda>mm.
        ebind (ensure_keys mm SERVANT_NAMES (manifest_path @ ''.routing.model'')) (\<lambda>_.
        emap (\<lambda>(servant, mv).
           case as_nonempty_str mv of
             None \<Rightarrow> die (manifest_path @ ''.routing.model.'' @ servant)
                       ''must be a non-empty string''
           | Some m \<Rightarrow>
               ebind (dict_index (servants c) servant) (\<lambda>sv.
               if m \<notin> set (allowed_models sv) then
                 die (manifest_path @ ''.routing.model.'' @ servant)
                   (''model '' @ quoted m @ '' is not in allowed_models'')
               else Inr (servant, m))) mm))
      else Inr [])"

definition all_flags :: "string list" where
  "all_flags = concat (map snd PIPELINE_FLAGS)"

definition allowed_options :: "(string \<times> string list) list" where
  "allowed_options = fold (\<lambda>opt_map acc. merge_dict acc opt_map) (map snd PIPELINE_OPTIONS) []"

definition validate_routing_flags :: "string \<Rightarrow> yaml \<Rightarrow> (string \<times> bool) list result" where
  "validate_routing_flags manifest_path v =
     ebind (expect_dict (py_or v (YMap [])) (manifest_path @ ''.routing.pipeline.flags'')) (\<lambda>fl.
     ebind (ensure_keys fl all_flags (manifest_path @ ''.routing.pipeline.flags'')) (\<lambda>_.
     emap (\<lambda>(flag_name, flag_val).
        case flag_val of
          YBool b \<Rightarrow> Inr (flag_name, b)
        | _ \<Rightarrow> die (manifest_path @ ''.routing.pipeline.flags.'' @ flag_name)
                 ''must be boolean'') fl))"

definition validate_routing_options :: "string \<Rightarrow> yaml \<Rightarrow> (string \<times> string) list result" where
  "validate_routing_options manifest_path v =
     ebind (expect_dict (py_or v (YMap [])) (manifest_path @ ''.routing.pipeline.options''))
       (\<lambda>opts.
     ebind (ensure_keys opts (keys allowed_options)
              (manifest_path @ ''.routing.pipeline.options'')) (\<lambda>_.
     emap (\<lambda>(opt_name, opt_val).
        case opt_val of
          YStr s \<Rightarrow>
            ebind (dict_index allowed_options opt_name) (\<lambda>allowed_vals.
            if s \<notin> set allowed_vals then
              die (manifest_path @ ''.routing.pipeline.options.'' @ opt_name)
                (one_of allowed_vals)
            else Inr (opt_name, s))
        | _ \<Rightarrow> die (manifest_path @ ''.routing.pipeline.options.'' @ opt_name)
                 ''must be string'') opts))"

text \<open>
  The last block of the function: when the intent is a string that names a profile of
  \<^verbatim>\<open>impl\<close> or \<^verbatim>\<open>review\<close>, a profile override must be a profile of that pipeline.
\<close>

definition check_profile_in_group ::
  "cfg \<Rightarrow> string \<Rightarrow> string option \<Rightarrow> string option \<Rightarrow> unit result" where
  "check_profile_in_group c manifest_path intent_v profile_v =
     (case intent_v of
        None \<Rightarrow> Inr ()
      | Some i \<Rightarrow>
          ebind (pipeline_name_for_intent c i [''impl'', ''review'']) (\<lambda>group.
          case group of
            None \<Rightarrow> Inr ()
          | Some g \<Rightarrow>
              (case profile_v of
                 None \<Rightarrow> Inr ()
               | Some profile_name \<Rightarrow>
                   ebind (dict_index (pipelines c) g) (\<lambda>pl.
                   if profile_name \<noteq> [] \<and> profile_name \<notin> set (keys (profiles pl)) then
                     die (manifest_path @ ''.routing.pipeline.profile'')
                       (''profile '' @ quoted profile_name
                        @ '' is not defined in pipelines.'' @ g @ ''.profiles'')
                   else Inr ()))))"

definition validate_routing_pipeline ::
  "cfg \<Rightarrow> string \<Rightarrow> string option \<Rightarrow> yaml
     \<Rightarrow> (string option \<times> (string \<times> bool) list \<times> (string \<times> string) list) result" where
  "validate_routing_pipeline c manifest_path intent_v v =
     (let pv = py_or v (YMap []) in
      if truthy pv then
        ebind (expect_dict pv (manifest_path @ ''.routing.pipeline'')) (\<lambda>pl.
        ebind (ensure_keys pl [''profile'', ''flags'', ''options'']
                 (manifest_path @ ''.routing.pipeline'')) (\<lambda>_.
        ebind (case dict_get pl ''profile'' of
                 YNull \<Rightarrow> Inr None
               | pr \<Rightarrow> (case as_nonempty_str pr of
                          None \<Rightarrow> die (manifest_path @ ''.routing.pipeline.profile'')
                                    ''must be a non-empty string''
                        | Some s \<Rightarrow> Inr (Some s))) (\<lambda>profile_v.
        ebind (validate_routing_flags manifest_path (dict_get pl ''flags'')) (\<lambda>fl.
        ebind (validate_routing_options manifest_path (dict_get pl ''options'')) (\<lambda>opts.
        ebind (check_profile_in_group c manifest_path intent_v profile_v) (\<lambda>_.
        Inr (profile_v, fl, opts)))))))
      else Inr (None, [], []))"

definition validate_manifest_extensions :: "cfg \<Rightarrow> yaml \<Rightarrow> string \<Rightarrow> manifest result" where
  "validate_manifest_extensions c mv manifest_path =
     (if \<not> truthy mv then Inr empty_manifest
      else case mv of
        YMap m \<Rightarrow>
          ebind (case py_or (dict_get m ''routing'') (YMap []) of
                   YMap r \<Rightarrow> Inr r
                 | _ \<Rightarrow> die (manifest_path @ ''.routing'') ''must be a mapping'') (\<lambda>routing.
          ebind (if routing \<noteq> [] then
                   ensure_keys routing [''intent'', ''model'', ''pipeline'']
                     (manifest_path @ ''.routing'')
                 else Inr ()) (\<lambda>_.
          ebind (case map_of routing ''intent'' of
                   None \<Rightarrow> Inr None
                 | Some (YStr i) \<Rightarrow> Inr (Some i)
                 | Some _ \<Rightarrow> die (manifest_path @ ''.routing.intent'') ''must be a string'')
            (\<lambda>intent_v.
          ebind (validate_routing_model c manifest_path (dict_get routing ''model'')) (\<lambda>mm.
          ebind (validate_routing_pipeline c manifest_path intent_v
                   (dict_get routing ''pipeline'')) (\<lambda>(profile_v, fl, opts).
          Inr \<lparr>routing_intent = intent_v, routing_model = mm, routing_profile = profile_v,
               routing_flags = fl, routing_options = opts\<rparr>)))))
      | _ \<Rightarrow> die manifest_path ''top-level must be a mapping'')"


section \<open>Config V1: the dispatch resolver\<close>

text \<open>The tables and helpers of \<^verbatim>\<open>config_resolve.py\<close>.\<close>

definition DISPATCH_ALLOWED_FLAGS :: "(string \<times> string list) list" where
  "DISPATCH_ALLOWED_FLAGS =
     [(''impl'', [''enable_brief'', ''enable_verify'', ''enable_review'']),
      (''review'', [''enable_verify'', ''enable_review''])]"

definition PURPOSE_NAMES :: "string list" where
  "PURPOSE_NAMES = [''impl'', ''review'', ''verify'', ''plan'', ''one_shot'']"

definition raise_error :: "string \<Rightarrow> 'a result" where
  "raise_error msg = Inl (ValidationError msg)"

definition stage_tool :: "string \<Rightarrow> string result" where
  "stage_tool stage_name =
     (if \<not> has_underscore stage_name then
        raise_error (''stage '' @ quoted stage_name @ '' must include tool prefix'')
      else let tool = split_head stage_name in
        if tool \<notin> set SERVANT_NAMES then
          raise_error (''stage '' @ quoted stage_name @ '' starts with unknown tool ''
                       @ quoted tool)
        else Inr tool)"

definition dispatch_stage_purpose ::
  "string \<Rightarrow> string \<Rightarrow> (string \<times> string) list \<Rightarrow> string" where
  "dispatch_stage_purpose stage pipeline_name opts =
     (let role = (if has_underscore stage
                  then tl (dropWhile (\<lambda>c. c \<noteq> CHR ''_'') stage) else stage);
          impl_mode = map_of opts ''impl_mode''
      in if role \<in> set [''impl'', ''test_impl''] then ''impl''
         else if role \<in> set [''verify'', ''static_verify''] then ''verify''
         else if str_in ''review'' role then ''review''
         else if role = ''runbook'' then ''one_shot''
         else if role \<in> set [''brief'', ''test_design''] then
           (if pipeline_name = ''impl'' \<and> impl_mode = Some ''one_shot'' then ''one_shot''
            else ''plan'')
         else if pipeline_name = ''impl'' then ''plan'' else ''review'')"

fun find_pipeline_for_profile_name ::
  "cfg \<Rightarrow> string \<Rightarrow> string list \<Rightarrow> string option result" where
  "find_pipeline_for_profile_name c profile_name [] = Inr None"
| "find_pipeline_for_profile_name c profile_name (name # names) =
     ebind (dict_index (pipelines c) name) (\<lambda>pl.
     if profile_name \<in> set (keys (profiles pl)) then Inr (Some name)
     else find_pipeline_for_profile_name c profile_name names)"

definition base_profile_from_intent :: "cfg \<Rightarrow> string \<Rightarrow> (string \<times> string) result" where
  "base_profile_from_intent c i =
     ebind (find_pipeline_for_profile_name c i [''impl'', ''review'']) (\<lambda>found.
     case found of
       None \<Rightarrow> raise_error (''routing.intent '' @ quoted i
                            @ '' is not defined in pipelines.impl/review'')
     | Some pipeline_name \<Rightarrow> Inr (pipeline_name, i))"

definition profile_data :: "cfg \<Rightarrow> string \<Rightarrow> string \<Rightarrow> profile result" where
  "profile_data c pipeline_name profile_name =
     ebind (dict_index (pipelines c) pipeline_name) (\<lambda>pl.
     case map_of (profiles pl) profile_name of
       None \<Rightarrow> raise_error (''pipeline '' @ quoted pipeline_name
                            @ '' does not define profile '' @ quoted profile_name)
     | Some node \<Rightarrow> Inr node)"

definition resolve_tool_models :: "cfg \<Rightarrow> manifest \<Rightarrow> (string \<times> string) list result" where
  "resolve_tool_models c man =
     ebind (emap (\<lambda>tool. ebind (dict_index (servants c) tool) (\<lambda>sv.
                   Inr (tool, default_model sv))) SERVANT_NAMES) (\<lambda>models.
     Inr (merge_dict models (routing_model man)))"

definition resolve_purpose_models ::
  "cfg \<Rightarrow> (string \<times> (string \<times> string) list) list result" where
  "resolve_purpose_models c =
     emap (\<lambda>tool.
        ebind (dict_index (servants c) tool) (\<lambda>sv.
        ebind (emap (\<lambda>(purpose_name, m).
                 if purpose_name \<notin> set PURPOSE_NAMES then
                   raise_error (''servants.'' @ tool @ ''.purpose_models has unknown key ''
                                @ quoted purpose_name)
                 else if m \<notin> set (allowed_models sv) then
                   raise_error (''servants.'' @ tool @ ''.purpose_models.'' @ purpose_name
                                @ ''='' @ quoted m @ '' is not allowed'')
                 else Inr ()) (purpose_models sv)) (\<lambda>_.
        Inr (tool, purpose_models sv)))) SERVANT_NAMES"

definition resolve_codex_purpose_efforts :: "cfg \<Rightarrow> (string \<times> string) list result" where
  "resolve_codex_purpose_efforts c =
     ebind (dict_index (servants c) ''codex'') (\<lambda>sv.
     ebind (emap (\<lambda>(purpose_name, effort).
              if purpose_name \<notin> set PURPOSE_NAMES then
                raise_error (''servants.codex.purpose_efforts has unknown key ''
                             @ quoted purpose_name)
              else if effort \<notin> set CODEX_EFFORT_VALUES then
                raise_error (''servants.codex.purpose_efforts.'' @ purpose_name
                             @ ''='' @ quoted effort @ '' is invalid'')
              else Inr ()) (purpose_efforts sv)) (\<lambda>_.
     Inr (purpose_efforts sv)))"

definition resolve_tool_wrapper_defaults ::
  "cfg \<Rightarrow> (string \<times> (string \<times> yaml) list) list result" where
  "resolve_tool_wrapper_defaults c =
     emap (\<lambda>tool. ebind (dict_index (servants c) tool) (\<lambda>sv.
             Inr (tool, wrapper_defaults sv))) SERVANT_NAMES"

text \<open>
  \<^verbatim>\<open>x or y\<close> with \<open>x\<close> an optional string, and the membership test \<^verbatim>\<open>v not in VALUES\<close>
  on a raw value with the message the source formats the value into: a string outside
  the set, \<^verbatim>\<open>None\<close>, a boolean or an integer is a validation error; a list or a mapping
  cannot be hashed.
\<close>

definition str_or :: "string option \<Rightarrow> string \<Rightarrow> string" where
  "str_or x y = (case x of Some s \<Rightarrow> if s = [] then y else s | None \<Rightarrow> y)"

definition check_member :: "yaml \<Rightarrow> string list \<Rightarrow> (string \<Rightarrow> string) \<Rightarrow> string result" where
  "check_member v vals msg =
     (case v of
        YStr s \<Rightarrow> if s \<in> set vals then Inr s else raise_error (msg s)
      | YNull \<Rightarrow> raise_error (msg ''None'')
      | YBool b \<Rightarrow> raise_error (msg (if b then ''True'' else ''False''))
      | YInt n \<Rightarrow> raise_error (msg (show_int n))
      | YList xs \<Rightarrow> Inl TypeError
      | YMap m \<Rightarrow> Inl TypeError)"

subsection \<open>Selecting the profile\<close>

text \<open>
  The first half of \<^verbatim>\<open>resolve_dispatch\<close>, down to the second merge: the requested intent,
  the pipeline that defines it, the profile override, the merged flags and options with
  their vocabulary checks, the mode-to-profile remap, and the merge against the remapped
  profile.
\<close>

record selection =
  sel_pipeline :: string
  sel_intent :: string
  sel_profile :: string
  sel_runtime :: profile
  sel_flags :: "(string \<times> bool) list"
  sel_options :: "(string \<times> string) list"

definition unsupported :: "(string \<times> 'a) list \<Rightarrow> string list \<Rightarrow> string list" where
  "unsupported d allowed = sort (remdups (filter (\<lambda>k. k \<notin> set allowed) (keys d)))"

text \<open>The two \<^verbatim>\<open>if pipeline == ...\<close> blocks: the option vocabulary and the remap.\<close>

definition remap_profile ::
  "string \<Rightarrow> (string \<times> string) list \<Rightarrow> string \<Rightarrow> string result" where
  "remap_profile pipeline_name runtime_options selected =
     ebind (if pipeline_name = ''impl'' then
              (let uns = unsupported runtime_options [''impl_mode'', ''timeout_mode''] in
               if uns \<noteq> [] then
                 raise_error (''pipeline '' @ quoted pipeline_name
                              @ '' does not support options: '' @ join '', '' uns)
               else if map_of runtime_options ''impl_mode'' = Some ''safe''
                 then Inr ''safe_impl''
               else if map_of runtime_options ''impl_mode'' = Some ''one_shot''
                 then Inr ''one_shot_impl''
               else Inr selected)
            else Inr selected) (\<lambda>selected1.
     if pipeline_name = ''review'' then
       (let uns = unsupported runtime_options
                    [''review_mode'', ''timeout_mode'', ''security_mode''] in
        if uns \<noteq> [] then
          raise_error (''pipeline '' @ quoted pipeline_name
                       @ '' does not support options: '' @ join '', '' uns)
        else if map_of runtime_options ''review_mode'' = Some ''codex_only''
          then Inr ''codex_only''
        else if map_of runtime_options ''review_mode'' = Some ''cross''
          then Inr ''review_cross''
        else Inr selected1)
     else Inr selected1)"

definition select_profile :: "cfg \<Rightarrow> manifest \<Rightarrow> string \<Rightarrow> string \<Rightarrow> selection result" where
  "select_profile c man plan_name intent_default =
     (let requested_intent =
            (if plan_name \<noteq> ''auto'' then plan_name
             else str_or (routing_intent man) intent_default)
      in
      ebind (base_profile_from_intent c requested_intent) (\<lambda>(pipeline_name, profile_from_intent).
      let selected0 = str_or (routing_profile man) profile_from_intent in
      ebind (profile_data c pipeline_name selected0) (\<lambda>profile_runtime.
      let flags_override = routing_flags man;
          options_override = routing_options man;
          runtime_flags = merge_dict (flags profile_runtime) flags_override;
          runtime_options = merge_dict (options profile_runtime) options_override
      in
      ebind (dict_index DISPATCH_ALLOWED_FLAGS pipeline_name) (\<lambda>allowed_flags.
      let unsupported_flags = unsupported runtime_flags allowed_flags in
      if unsupported_flags \<noteq> [] then
        raise_error (''pipeline '' @ quoted pipeline_name @ '' does not support flags: ''
                     @ join '', '' unsupported_flags)
      else
      ebind (remap_profile pipeline_name runtime_options selected0) (\<lambda>selected_profile.
      if selected_profile \<noteq> selected0 then
        ebind (profile_data c pipeline_name selected_profile) (\<lambda>profile_runtime2.
        Inr \<lparr>sel_pipeline = pipeline_name, sel_intent = requested_intent,
             sel_profile = selected_profile, sel_runtime = profile_runtime2,
             sel_flags = merge_dict (flags profile_runtime2) flags_override,
             sel_options = merge_dict (options profile_runtime2) options_override\<rparr>)
      else
        Inr \<lparr>sel_pipeline = pipeline_name, sel_intent = requested_intent,
             sel_profile = selected_profile, sel_runtime = profile_runtime,
             sel_flags = runtime_flags, sel_options = runtime_options\<rparr>)))))"


subsection \<open>Resolving the stages\<close>

text \<open>
  The resolved dispatch plan, the dict \<^verbatim>\<open>resolve_dispatch\<close> returns. The four per-stage
  dicts are filled by the loop over the stage plan; \<^verbatim>\<open>d[k] = v\<close> is \<open>AList.update\<close>.
\<close>

record stage_maps =
  sm_models :: "(string \<times> string) list"
  sm_efforts :: "(string \<times> string) list"
  sm_timeout_ms :: "(string \<times> yaml) list"
  sm_timeout_modes :: "(string \<times> string) list"

record dispatch_plan =
  pipeline_group :: string
  intent :: string
  profile_name :: string
  plan_flags :: "(string \<times> bool) list"
  plan_options :: "(string \<times> string) list"
  stage_plan :: "string list"
  tool_models :: "(string \<times> string) list"
  plan_purpose_models :: "(string \<times> (string \<times> string) list) list"
  plan_stage_models :: "(string \<times> string) list"
  plan_stage_efforts :: "(string \<times> string) list"
  stage_timeout_ms :: "(string \<times> yaml) list"
  stage_timeout_modes :: "(string \<times> string) list"

text \<open>What the stage loop reads: the values computed before it.\<close>

record stage_ctx =
  cx_pipeline :: string
  cx_options :: "(string \<times> string) list"
  cx_routing_model_overrides :: "(string \<times> string) list"
  cx_profile_stage_models :: "(string \<times> string) list"
  cx_profile_stage_efforts :: "(string \<times> string) list"
  cx_purpose_models :: "(string \<times> (string \<times> string) list) list"
  cx_tool_models :: "(string \<times> string) list"
  cx_codex_purpose_efforts :: "(string \<times> string) list"
  cx_wrapper_defaults :: "(string \<times> (string \<times> yaml) list) list"
  cx_timeout_mode_override :: "string option"

text \<open>\<^verbatim>\<open>d.get(k, {})\<close>\<close>

definition get_or_empty :: "(string \<times> (string \<times> 'a) list) list \<Rightarrow> string \<Rightarrow> (string \<times> 'a) list" where
  "get_or_empty d k = (case map_of d k of Some v \<Rightarrow> v | None \<Rightarrow> [])"

text \<open>
  The model of a stage: the task-level override for the stage's tool, then the profile's
  entry for the stage, then the purpose table, then the tool's model.
\<close>

definition resolve_stage_model :: "stage_ctx \<Rightarrow> string \<Rightarrow> string \<Rightarrow> string \<Rightarrow> string result" where
  "resolve_stage_model cx stage_name tool stage_purpose =
     (case map_of (cx_routing_model_overrides cx) tool of
        Some m \<Rightarrow> Inr m
      | None \<Rightarrow>
          (case map_of (cx_profile_stage_models cx) stage_name of
             Some m \<Rightarrow> Inr m
           | None \<Rightarrow>
               (case map_of (get_or_empty (cx_purpose_models cx) tool) stage_purpose of
                  Some m \<Rightarrow> Inr m
                | None \<Rightarrow> dict_index (cx_tool_models cx) tool)))"

definition resolve_stage_timeout_mode :: "stage_ctx \<Rightarrow> string \<Rightarrow> string \<Rightarrow> string result" where
  "resolve_stage_timeout_mode cx stage_name tool =
     (let stage_timeout_mode =
            (case cx_timeout_mode_override cx of
               Some s \<Rightarrow> if s \<noteq> [] then YStr s
                         else dict_get (get_or_empty (cx_wrapper_defaults cx) tool) ''timeout_mode''
             | None \<Rightarrow> dict_get (get_or_empty (cx_wrapper_defaults cx) tool) ''timeout_mode'')
      in check_member stage_timeout_mode TIMEOUT_MODE_VALUES
           (\<lambda>shown. ''resolved timeout_mode '' @ quoted shown
                     @ '' is invalid for stage '' @ quoted stage_name))"

definition resolve_stage_effort :: "stage_ctx \<Rightarrow> string \<Rightarrow> string \<Rightarrow> string result" where
  "resolve_stage_effort cx stage_name stage_purpose =
     (let stage_effort =
            (case map_of (cx_profile_stage_efforts cx) stage_name of
               Some e \<Rightarrow> YStr e
             | None \<Rightarrow>
                 (case map_of (cx_codex_purpose_efforts cx) stage_purpose of
                    Some e \<Rightarrow> YStr e
                  | None \<Rightarrow> dict_get (get_or_empty (cx_wrapper_defaults cx) ''codex'') ''effort''))
      in check_member stage_effort CODEX_EFFORT_VALUES
           (\<lambda>shown. ''resolved codex effort '' @ quoted shown
                     @ '' is invalid for stage '' @ quoted stage_name))"

text \<open>The body of \<^verbatim>\<open>for stage_name in stage_plan\<close>.\<close>

definition resolve_stage :: "stage_ctx \<Rightarrow> string \<Rightarrow> stage_maps \<Rightarrow> stage_maps result" where
  "resolve_stage cx stage_name acc =
     ebind (stage_tool stage_name) (\<lambda>tool.
     let stage_purpose = dispatch_stage_purpose stage_name (cx_pipeline cx) (cx_options cx) in
     ebind (resolve_stage_model cx stage_name tool stage_purpose) (\<lambda>stage_model.
     let acc1 = acc\<lparr>sm_models := AList.update stage_name stage_model (sm_models acc)\<rparr>;
         raw_timeout_ms = dict_get (get_or_empty (cx_wrapper_defaults cx) tool) ''timeout_ms''
     in
     if \<not> nonneg_int raw_timeout_ms then
       raise_error (''servants.'' @ tool
                    @ ''.wrapper_defaults.timeout_ms must be a non-negative integer'')
     else
     let acc2 = acc1\<lparr>sm_timeout_ms :=
                  AList.update stage_name raw_timeout_ms (sm_timeout_ms acc1)\<rparr> in
     ebind (resolve_stage_timeout_mode cx stage_name tool) (\<lambda>stage_timeout_mode.
     let acc3 = acc2\<lparr>sm_timeout_modes :=
                  AList.update stage_name stage_timeout_mode (sm_timeout_modes acc2)\<rparr> in
     if tool = ''codex'' then
       ebind (resolve_stage_effort cx stage_name stage_purpose) (\<lambda>stage_effort.
       Inr (acc3\<lparr>sm_efforts := AList.update stage_name stage_effort (sm_efforts acc3)\<rparr>))
     else Inr acc3)))"

fun stage_loop :: "stage_ctx \<Rightarrow> string list \<Rightarrow> stage_maps \<Rightarrow> stage_maps result" where
  "stage_loop cx [] acc = Inr acc"
| "stage_loop cx (stage_name # rest) acc =
     ebind (resolve_stage cx stage_name acc) (\<lambda>acc'. stage_loop cx rest acc')"

text \<open>The two checking loops over the profile's \<^verbatim>\<open>stage_models\<close> and \<^verbatim>\<open>stage_efforts\<close>.\<close>

definition check_profile_stage_models ::
  "cfg \<Rightarrow> string \<Rightarrow> (string \<times> string) list \<Rightarrow> unit list result" where
  "check_profile_stage_models c selected_profile psm =
     emap (\<lambda>(stage_name, stage_model).
        ebind (stage_tool stage_name) (\<lambda>tool.
        ebind (dict_index (servants c) tool) (\<lambda>sv.
        if stage_model \<notin> set (allowed_models sv) then
          raise_error (''profile '' @ quoted selected_profile @ '' stage_models.''
                       @ stage_name @ ''='' @ quoted stage_model
                       @ '' is not allowed for '' @ tool)
        else Inr ()))) psm"

definition check_profile_stage_efforts ::
  "string \<Rightarrow> (string \<times> string) list \<Rightarrow> unit list result" where
  "check_profile_stage_efforts selected_profile pse =
     emap (\<lambda>(stage_name, stage_effort).
        ebind (stage_tool stage_name) (\<lambda>tool.
        if tool \<noteq> ''codex'' then
          raise_error (''profile '' @ quoted selected_profile @ '' stage_efforts.''
                       @ stage_name @ '' is only supported for codex stages'')
        else if stage_effort \<notin> set CODEX_EFFORT_VALUES then
          raise_error (''profile '' @ quoted selected_profile @ '' stage_efforts.''
                       @ stage_name @ ''='' @ quoted stage_effort @ '' is invalid'')
        else Inr ())) pse"

text \<open>
  The second half of \<^verbatim>\<open>resolve_dispatch\<close>: the flag filters, the emptiness check, the
  tables, the timeout-mode override, the two checking loops, the stage loop and the plan.
\<close>

definition resolve_selected :: "cfg \<Rightarrow> manifest \<Rightarrow> selection \<Rightarrow> dispatch_plan result" where
  "resolve_selected c man sel =
     ebind (apply_dispatch_flag_filters (stages (sel_runtime sel)) (sel_flags sel)) (\<lambda>plan.
     if plan = [] then raise_error ''resolved dispatch stage plan is empty''
     else
     ebind (resolve_tool_models c man) (\<lambda>tm.
     ebind (resolve_purpose_models c) (\<lambda>pm.
     ebind (resolve_codex_purpose_efforts c) (\<lambda>cpe.
     ebind (resolve_tool_wrapper_defaults c) (\<lambda>wd.
     let timeout_mode_override = map_of (sel_options sel) ''timeout_mode'' in
     ebind (case timeout_mode_override of
              None \<Rightarrow> Inr ()
            | Some t \<Rightarrow>
                if t \<notin> set TIMEOUT_MODE_VALUES then
                  raise_error (''pipeline '' @ quoted (sel_pipeline sel) @ '' timeout_mode=''
                               @ quoted t @ '' is invalid'')
                else Inr ()) (\<lambda>_.
     ebind (check_profile_stage_models c (sel_profile sel)
              (stage_models (sel_runtime sel))) (\<lambda>_.
     ebind (check_profile_stage_efforts (sel_profile sel)
              (stage_efforts (sel_runtime sel))) (\<lambda>_.
     let cx = \<lparr>cx_pipeline = sel_pipeline sel,
               cx_options = sel_options sel,
               cx_routing_model_overrides = routing_model man,
               cx_profile_stage_models = stage_models (sel_runtime sel),
               cx_profile_stage_efforts = stage_efforts (sel_runtime sel),
               cx_purpose_models = pm,
               cx_tool_models = tm,
               cx_codex_purpose_efforts = cpe,
               cx_wrapper_defaults = wd,
               cx_timeout_mode_override = timeout_mode_override\<rparr>
     in
     ebind (stage_loop cx plan
              \<lparr>sm_models = [], sm_efforts = [], sm_timeout_ms = [],
               sm_timeout_modes = []\<rparr>) (\<lambda>acc.
     Inr \<lparr>pipeline_group = sel_pipeline sel,
          intent = sel_intent sel,
          profile_name = sel_profile sel,
          plan_flags = sel_flags sel,
          plan_options = sel_options sel,
          stage_plan = plan,
          tool_models = tm,
          plan_purpose_models = pm,
          plan_stage_models = sm_models acc,
          plan_stage_efforts = sm_efforts acc,
          stage_timeout_ms = sm_timeout_ms acc,
          stage_timeout_modes = sm_timeout_modes acc\<rparr>)))))))))"

definition resolve_dispatch ::
  "cfg \<Rightarrow> manifest \<Rightarrow> string \<Rightarrow> string \<Rightarrow> dispatch_plan result" where
  "resolve_dispatch c man plan_name intent_default =
     ebind (select_profile c man plan_name intent_default) (\<lambda>sel.
     resolve_selected c man sel)"

section \<open>Config V2: the validator\<close>

text \<open>
  \<^verbatim>\<open>config_validate_v2.py\<close>. As for V1, a validator returns what it has validated: a skill
  file and a servant file are read into records; the three policy files come back as the
  mappings they are (no resolver reads them).
\<close>

record v2_method =
  enabled :: bool
  steps :: "string list"
  allowed_tools :: "string list"
  gate_profile :: string

record v2_step_default =
  default_tool :: string
  default_mode :: string
  web_research_mode :: string

record v2_skill =
  default_method_ids :: "string list"
  methods :: "(string \<times> v2_method) list"
  step_defaults :: "(string \<times> v2_step_default) list"

record v2_servant =
  v2_default_model :: string
  v2_allowed_models :: "string list"
  v2_wrapper_defaults :: "(string \<times> yaml) list"
  v2_web_modes :: "string list"

record v2_cfg =
  v2_root :: string
  v2_skills :: "(string \<times> v2_skill) list"
  v2_servants :: "(string \<times> v2_servant) list"
  v2_policies :: "(string \<times> (string \<times> yaml) list) list"

subsection \<open>Constant tables\<close>

definition TOOLS :: "string list" where
  "TOOLS = [''codex'', ''gemini'', ''copilot'']"

definition PHASES :: "string list" where
  "PHASES = [''plan'', ''impl'', ''review'']"

definition WEB_RESEARCH_MODES :: "string list" where
  "WEB_RESEARCH_MODES = [''off'', ''codex_explicit'', ''gemini_auto'', ''copilot_mcp'']"

definition DEFAULT_MODES :: "string list" where
  "DEFAULT_MODES = [''normal'', ''analysis_only'']"

definition GATE_PROFILES :: "string list" where
  "GATE_PROFILES = [''standard'', ''strict'', ''minimal'', ''finding-first'']"

definition TIMEOUT_MODES :: "string list" where
  "TIMEOUT_MODES = [''enforce'', ''wait_done'']"

definition TOOL_WEB_MODE_MAP :: "(string \<times> string list) list" where
  "TOOL_WEB_MODE_MAP =
     [(''codex'', [''off'', ''codex_explicit'']),
      (''gemini'', [''off'', ''gemini_auto'']),
      (''copilot'', [''off'', ''copilot_mcp''])]"

definition EXPECTED_FILES :: "(string \<times> string list) list" where
  "EXPECTED_FILES =
     [(''skills'', [''plan.yaml'', ''impl.yaml'', ''review.yaml'']),
      (''servants'', [''codex.yaml'', ''gemini.yaml'', ''copilot.yaml'']),
      (''policies'', [''routing.yaml'', ''review_parallel.yaml'', ''web_evidence.yaml''])]"

definition OPTIONAL_FILES :: "(string \<times> string list) list" where
  "OPTIONAL_FILES = []"

definition ROUTING_STOP_ACTIONS :: "string list" where
  "ROUTING_STOP_ACTIONS = [''STOP_AND_CONFIRM'']"

definition ROUTING_STOP_ON_STOP :: "string list" where
  "ROUTING_STOP_ON_STOP = [''write_reason_codes_to_routing_result'']"

definition ROUTING_CONFIDENCE_VALUES :: "string list" where
  "ROUTING_CONFIDENCE_VALUES = [''high'', ''medium'', ''low'']"

definition ROUTING_IMPACT_SURFACES :: "string list" where
  "ROUTING_IMPACT_SURFACES = [''low'', ''medium'', ''high'']"

definition REPRODUCIBILITY_ON_MISMATCH :: "string list" where
  "REPRODUCIBILITY_ON_MISMATCH = [''record_ROUTING_NON_DETERMINISTIC_and_stop'']"

definition REVIEW_PARALLEL_MODE :: string where
  "REVIEW_PARALLEL_MODE = ''finding-first''"

definition REVIEW_PARALLEL_JOIN_BARRIER :: string where
  "REVIEW_PARALLEL_JOIN_BARRIER = ''required''"

definition REVIEW_PARALLEL_APPLY_ORDER :: string where
  "REVIEW_PARALLEL_APPLY_ORDER = ''sequential''"

definition REVIEW_PARALLEL_WORKER_OUTPUT_MODE :: string where
  "REVIEW_PARALLEL_WORKER_OUTPUT_MODE = ''analysis_only''"

definition WEB_EVIDENCE_STRICTNESS :: "string list" where
  "WEB_EVIDENCE_STRICTNESS = [''strict'']"

definition WEB_EVIDENCE_GATE_ACTIONS :: "string list" where
  "WEB_EVIDENCE_GATE_ACTIONS = [''reject_and_stop'']"

definition WEB_EVIDENCE_REQUIRED_FIELDS :: "string list" where
  "WEB_EVIDENCE_REQUIRED_FIELDS = [''evidence_id'', ''url'', ''accessed_at'', ''claim_summary'']"

definition WEB_EVIDENCE_REASON_CODES :: "string list" where
  "WEB_EVIDENCE_REASON_CODES =
     [''WEB_EVIDENCE_MISSING'', ''WEB_EVIDENCE_UNVERIFIABLE'', ''WEB_EVIDENCE_STALE'']"

subsection \<open>Checking helpers\<close>

text \<open>
  \<^verbatim>\<open>_expect_non_empty_string\<close> and \<^verbatim>\<open>_expect_string_list\<close> (with its \<^verbatim>\<open>non_empty\<close>
  parameter, \<^verbatim>\<open>True\<close> by default). \<open>must_be_one_of\<close> renders a tuple in its own order,
  \<open>one_of\<close> a set in sorted order.
\<close>

definition expect_non_empty_string :: "yaml \<Rightarrow> string \<Rightarrow> string result" where
  "expect_non_empty_string v path =
     (case as_nonempty_str v of
        Some s \<Rightarrow> Inr s
      | None \<Rightarrow> die path ''must be a non-empty string'')"

definition expect_string_list :: "yaml \<Rightarrow> string \<Rightarrow> bool \<Rightarrow> string list result" where
  "expect_string_list v path non_empty =
     ebind (expect_list v path) (\<lambda>items.
     ebind (emap_idx (\<lambda>idx item.
              expect_non_empty_string item (path @ ''['' @ show_nat idx @ '']'')) 0 items)
       (\<lambda>out.
     if non_empty \<and> out = [] then die path ''must not be empty'' else Inr out))"

definition must_be_one_of :: "string list \<Rightarrow> string" where
  "must_be_one_of vals = ''must be one of: '' @ join '', '' vals"

definition expect_bool :: "yaml \<Rightarrow> string \<Rightarrow> bool result" where
  "expect_bool v path = (case v of YBool b \<Rightarrow> Inr b | _ \<Rightarrow> die path ''must be boolean'')"

text \<open>A non-empty string that must belong to a tuple, or to a set.\<close>

definition expect_choice :: "yaml \<Rightarrow> string \<Rightarrow> string list \<Rightarrow> string \<Rightarrow> string result" where
  "expect_choice v path vals msg =
     ebind (expect_non_empty_string v path) (\<lambda>s.
     if s \<notin> set vals then die path msg else Inr s)"

subsection \<open>Skill files\<close>

definition validate_step_default :: "string \<Rightarrow> (string \<times> yaml) list \<Rightarrow> v2_step_default result" where
  "validate_step_default path step_node =
     ebind (ensure_keys step_node
              [''default_tool'', ''default_mode'', ''web_research_mode'', ''description'']
              path) (\<lambda>_.
     ebind (expect_choice (dict_get step_node ''default_tool'') (path @ ''.default_tool'')
              TOOLS (must_be_one_of TOOLS)) (\<lambda>dt.
     ebind (expect_choice (dict_get step_node ''default_mode'') (path @ ''.default_mode'')
              DEFAULT_MODES (must_be_one_of DEFAULT_MODES)) (\<lambda>dm.
     ebind (expect_choice (dict_get step_node ''web_research_mode'')
              (path @ ''.web_research_mode'')
              WEB_RESEARCH_MODES (must_be_one_of WEB_RESEARCH_MODES)) (\<lambda>web_mode.
     ebind (dict_index TOOL_WEB_MODE_MAP dt) (\<lambda>tool_modes.
     if web_mode \<noteq> ''off'' \<and> web_mode \<notin> set tool_modes then
       die (path @ ''.web_research_mode'')
         (quoted web_mode @ '' is not compatible with default_tool '' @ quoted dt)
     else Inr \<lparr>default_tool = dt, default_mode = dm, web_research_mode = web_mode\<rparr>)))))"

text \<open>The body of the first loop over \<^verbatim>\<open>methods.items()\<close>.\<close>

definition validate_method :: "string \<Rightarrow> string \<times> yaml \<Rightarrow> (string \<times> v2_method) result" where
  "validate_method path kv =
     (case kv of (method_id, mv) \<Rightarrow>
        let method_path = path @ ''.methods.'' @ method_id in
        ebind (expect_dict mv method_path) (\<lambda>method_node.
        ebind (ensure_keys method_node
                 [''enabled'', ''steps'', ''allowed_tools'', ''gate_profile''] method_path) (\<lambda>_.
        ebind (expect_bool (dict_get method_node ''enabled'') (method_path @ ''.enabled''))
          (\<lambda>en.
        ebind (expect_string_list (dict_get method_node ''steps'') (method_path @ ''.steps'')
                 True) (\<lambda>sts.
        ebind (expect_string_list (dict_get method_node ''allowed_tools'')
                 (method_path @ ''.allowed_tools'') True) (\<lambda>ats.
        ebind (emap_idx (\<lambda>idx tool.
                 if tool \<notin> set TOOLS then
                   die (method_path @ ''.allowed_tools['' @ show_nat idx @ '']'')
                     (must_be_one_of TOOLS)
                 else Inr ()) 0 ats) (\<lambda>_.
        ebind (expect_choice (dict_get method_node ''gate_profile'')
                 (method_path @ ''.gate_profile'') GATE_PROFILES (must_be_one_of GATE_PROFILES))
          (\<lambda>gp.
        if en \<and> sts = [] then
          die (method_path @ ''.steps'') ''enabled method must have at least one step''
        else Inr (method_id,
                  \<lparr>enabled = en, steps = sts, allowed_tools = ats, gate_profile = gp\<rparr>)))))))))"

text \<open>
  The coverage loops: every step of every method has a step default, and every step
  default is a step of some method.
\<close>

definition check_method_steps ::
  "string \<Rightarrow> string list \<Rightarrow> string \<times> v2_method \<Rightarrow> unit list result" where
  "check_method_steps path step_default_keys kv =
     (case kv of (method_id, mth) \<Rightarrow>
        emap (\<lambda>step.
           if step \<notin> set step_default_keys then
             die (path @ ''.methods.'' @ method_id @ ''.steps'')
               (''step '' @ quoted step @ '' missing from step_defaults'')
           else Inr ()) (steps mth))"

definition check_step_referenced :: "string \<Rightarrow> string list \<Rightarrow> string \<Rightarrow> unit result" where
  "check_step_referenced path all_method_steps step_id =
     (if step_id \<notin> set all_method_steps then
        die (path @ ''.step_defaults.'' @ step_id) ''step is not referenced by any method''
      else Inr ())"

definition validate_skill_file ::
  "(string \<times> yaml) list \<Rightarrow> string \<Rightarrow> string \<Rightarrow> v2_skill result" where
  "validate_skill_file node skill path =
     ebind (ensure_keys node
              [''version'', ''skill'', ''default_method_ids'', ''methods'', ''step_defaults'']
              path) (\<lambda>_.
     if \<not> eq_int (dict_get node ''version'') 2 then die (path @ ''.version'') ''must be 2''
     else if dict_get node ''skill'' \<noteq> YStr skill then
       die (path @ ''.skill'') (''must be '' @ quoted skill)
     else
     ebind (expect_string_list (dict_get node ''default_method_ids'')
              (path @ ''.default_method_ids'') True) (\<lambda>dmi.
     ebind (expect_dict (dict_get node ''methods'') (path @ ''.methods'')) (\<lambda>raw_methods.
     if raw_methods = [] then die (path @ ''.methods'') ''must define at least one method''
     else
     ebind (emap (validate_method path) raw_methods) (\<lambda>ms.
     ebind (emap_idx (\<lambda>idx method_id.
              if method_id \<notin> set (keys raw_methods) then
                die (path @ ''.default_method_ids['' @ show_nat idx @ '']'')
                  ''must reference a method defined in methods''
              else Inr ()) 0 dmi) (\<lambda>_.
     ebind (expect_dict (dict_get node ''step_defaults'') (path @ ''.step_defaults''))
       (\<lambda>raw_step_defaults.
     if raw_step_defaults = [] then
       die (path @ ''.step_defaults'') ''must define at least one step default''
     else
     ebind (emap (check_method_steps path (keys raw_step_defaults)) ms) (\<lambda>_.
     ebind (emap (check_step_referenced path (concat (map (\<lambda>(method_id, mth). steps mth) ms)))
              (keys raw_step_defaults)) (\<lambda>_.
     ebind (emap (\<lambda>(step_id, sv).
              let step_path = path @ ''.step_defaults.'' @ step_id in
              ebind (expect_dict sv step_path) (\<lambda>step_node.
              ebind (validate_step_default step_path step_node) (\<lambda>sd.
              Inr (step_id, sd)))) raw_step_defaults) (\<lambda>sds.
     Inr \<lparr>default_method_ids = dmi, methods = ms, step_defaults = sds\<rparr>)))))))))"

subsection \<open>Servant files\<close>

definition validate_servant_file ::
  "(string \<times> yaml) list \<Rightarrow> string \<Rightarrow> string \<Rightarrow> v2_servant result" where
  "validate_servant_file node tool path =
     ebind (ensure_keys node
              [''version'', ''tool'', ''default_model'', ''allowed_models'',
               ''wrapper_defaults'', ''web_capabilities'', ''purpose_models'',
               ''purpose_efforts'', ''effort_level_descriptions''] path) (\<lambda>_.
     if \<not> eq_int (dict_get node ''version'') 2 then die (path @ ''.version'') ''must be 2''
     else if dict_get node ''tool'' \<noteq> YStr tool then
       die (path @ ''.tool'') (''must be '' @ quoted tool)
     else
     ebind (expect_non_empty_string (dict_get node ''default_model'')
              (path @ ''.default_model'')) (\<lambda>dm.
     ebind (expect_string_list (dict_get node ''allowed_models'')
              (path @ ''.allowed_models'') True) (\<lambda>allowed.
     if dm \<notin> set allowed then
       die (path @ ''.default_model'') ''must be included in allowed_models''
     else
     ebind (expect_dict (dict_get node ''wrapper_defaults'') (path @ ''.wrapper_defaults''))
       (\<lambda>wd.
     ebind (ensure_keys wd
              [''timeout_ms'', ''timeout_mode'', ''effort'', ''approval_mode'', ''sandbox'']
              (path @ ''.wrapper_defaults'')) (\<lambda>_.
     if \<not> nonneg_int (dict_get wd ''timeout_ms'') then
       die (path @ ''.wrapper_defaults.timeout_ms'') ''must be a non-negative integer''
     else
     ebind (expect_choice (dict_get wd ''timeout_mode'')
              (path @ ''.wrapper_defaults.timeout_mode'')
              TIMEOUT_MODES (must_be_one_of TIMEOUT_MODES)) (\<lambda>_.
     ebind (expect_dict (dict_get node ''web_capabilities'') (path @ ''.web_capabilities''))
       (\<lambda>wc.
     ebind (ensure_keys wc [''modes''] (path @ ''.web_capabilities'')) (\<lambda>_.
     ebind (expect_string_list (dict_get wc ''modes'') (path @ ''.web_capabilities.modes'')
              True) (\<lambda>modes.
     ebind (dict_index TOOL_WEB_MODE_MAP tool) (\<lambda>allowed_modes.
     ebind (emap_idx (\<lambda>idx mode.
              if mode \<notin> set allowed_modes then
                die (path @ ''.web_capabilities.modes['' @ show_nat idx @ '']'')
                  (one_of allowed_modes)
              else Inr ()) 0 modes) (\<lambda>_.
     if ''off'' \<notin> set modes then
       die (path @ ''.web_capabilities.modes'') (''must include '' @ quoted ''off'')
     else Inr \<lparr>v2_default_model = dm, v2_allowed_models = allowed,
               v2_wrapper_defaults = wd, v2_web_modes = modes\<rparr>)))))))))))"

subsection \<open>Policy files\<close>

text \<open>A key that, when present, must hold a non-empty string of a set.\<close>

definition optional_choice ::
  "(string \<times> yaml) list \<Rightarrow> string \<Rightarrow> string \<Rightarrow> string list \<Rightarrow> unit result" where
  "optional_choice d k path vals =
     (if k \<in> set (keys d) then
        ebind (expect_choice (dict_get d k) (path @ ''.'' @ k) vals (one_of vals)) (\<lambda>_. Inr ())
      else Inr ())"

text \<open>The body of the loop over \<^verbatim>\<open>stop_policy.conditions\<close>.\<close>

definition validate_stop_condition :: "string \<Rightarrow> nat \<Rightarrow> yaml \<Rightarrow> unit result" where
  "validate_stop_condition path idx cv =
     (let cond_path = path @ ''.stop_policy.conditions['' @ show_nat idx @ '']'' in
      ebind (expect_dict cv cond_path) (\<lambda>cond.
      ebind (ensure_keys cond
               [''impact_surface'', ''confidence'', ''reason_codes_contain'',
                ''strict_evidence_violation'', ''action''] cond_path) (\<lambda>_.
      if ''action'' \<notin> set (keys cond) then die cond_path ''missing required key: action''
      else
      ebind (expect_choice (dict_get cond ''action'') (cond_path @ ''.action'')
               ROUTING_STOP_ACTIONS (one_of ROUTING_STOP_ACTIONS)) (\<lambda>_.
      ebind (optional_choice cond ''impact_surface'' cond_path ROUTING_IMPACT_SURFACES) (\<lambda>_.
      ebind (optional_choice cond ''confidence'' cond_path ROUTING_CONFIDENCE_VALUES) (\<lambda>_.
      ebind (if ''reason_codes_contain'' \<in> set (keys cond) then
               ebind (expect_non_empty_string (dict_get cond ''reason_codes_contain'')
                        (cond_path @ ''.reason_codes_contain'')) (\<lambda>_. Inr ())
             else Inr ()) (\<lambda>_.
      if ''strict_evidence_violation'' \<in> set (keys cond) then
        ebind (expect_bool (dict_get cond ''strict_evidence_violation'')
                 (cond_path @ ''.strict_evidence_violation'')) (\<lambda>_. Inr ())
      else Inr ())))))))"

definition validate_stop_policy :: "string \<Rightarrow> yaml \<Rightarrow> unit result" where
  "validate_stop_policy path v =
     ebind (expect_dict v (path @ ''.stop_policy'')) (\<lambda>stop_policy.
     ebind (ensure_keys stop_policy [''conditions'', ''on_stop''] (path @ ''.stop_policy''))
       (\<lambda>_.
     ebind (expect_list (dict_get stop_policy ''conditions'')
              (path @ ''.stop_policy.conditions'')) (\<lambda>conditions.
     if conditions = [] then die (path @ ''.stop_policy.conditions'') ''must not be empty''
     else
     ebind (emap_idx (validate_stop_condition path) 0 conditions) (\<lambda>_.
     ebind (expect_choice (dict_get stop_policy ''on_stop'') (path @ ''.stop_policy.on_stop'')
              ROUTING_STOP_ON_STOP (one_of ROUTING_STOP_ON_STOP)) (\<lambda>_.
     Inr ())))))"

definition validate_confidence_policy :: "string \<Rightarrow> yaml \<Rightarrow> unit result" where
  "validate_confidence_policy path v =
     ebind (expect_dict v (path @ ''.confidence_policy'')) (\<lambda>confidence_policy.
     ebind (ensure_keys confidence_policy [''values'', ''default'']
              (path @ ''.confidence_policy'')) (\<lambda>_.
     ebind (expect_string_list (dict_get confidence_policy ''values'')
              (path @ ''.confidence_policy.values'') True) (\<lambda>vals.
     if \<not> set vals \<subseteq> set ROUTING_CONFIDENCE_VALUES then
       die (path @ ''.confidence_policy.values'')
         (''must be subset of: '' @ join '', '' (sort ROUTING_CONFIDENCE_VALUES))
     else
     ebind (expect_non_empty_string (dict_get confidence_policy ''default'')
              (path @ ''.confidence_policy.default'')) (\<lambda>default_confidence.
     if default_confidence \<notin> set vals then
       die (path @ ''.confidence_policy.default'')
         ''must be included in confidence_policy.values''
     else Inr ()))))"

definition validate_hard_stop_reason_map :: "string \<Rightarrow> yaml \<Rightarrow> unit result" where
  "validate_hard_stop_reason_map path v =
     ebind (expect_dict v (path @ ''.hard_stop_reason_map'')) (\<lambda>hard_stop_reason_map.
     if hard_stop_reason_map = [] then
       die (path @ ''.hard_stop_reason_map'') ''must not be empty''
     else
     ebind (emap (\<lambda>(reason_code, reason_msg).
              ebind (expect_non_empty_string (YStr reason_code)
                       (path @ ''.hard_stop_reason_map.<key>'')) (\<lambda>_.
              expect_non_empty_string reason_msg
                (path @ ''.hard_stop_reason_map.'' @ reason_code))) hard_stop_reason_map)
       (\<lambda>_. Inr ()))"

definition validate_reproducibility_policy :: "string \<Rightarrow> yaml \<Rightarrow> unit result" where
  "validate_reproducibility_policy path v =
     ebind (expect_dict v (path @ ''.reproducibility_policy'')) (\<lambda>reproducibility_policy.
     ebind (ensure_keys reproducibility_policy [''deterministic_required'', ''on_mismatch'']
              (path @ ''.reproducibility_policy'')) (\<lambda>_.
     ebind (expect_bool (dict_get reproducibility_policy ''deterministic_required'')
              (path @ ''.reproducibility_policy.deterministic_required'')) (\<lambda>_.
     ebind (expect_choice (dict_get reproducibility_policy ''on_mismatch'')
              (path @ ''.reproducibility_policy.on_mismatch'')
              REPRODUCIBILITY_ON_MISMATCH (one_of REPRODUCIBILITY_ON_MISMATCH)) (\<lambda>_.
     Inr ()))))"

definition validate_route_decider_policy :: "string \<Rightarrow> yaml \<Rightarrow> unit result" where
  "validate_route_decider_policy path v =
     ebind (expect_dict v (path @ ''.route_decider_policy'')) (\<lambda>route_decider_policy.
     ebind (ensure_keys route_decider_policy [''phase_prompt_paths'', ''schema_version'']
              (path @ ''.route_decider_policy'')) (\<lambda>_.
     ebind (expect_dict (dict_get route_decider_policy ''phase_prompt_paths'')
              (path @ ''.route_decider_policy.phase_prompt_paths'')) (\<lambda>phase_prompt_paths.
     ebind (ensure_keys phase_prompt_paths PHASES
              (path @ ''.route_decider_policy.phase_prompt_paths'')) (\<lambda>_.
     ebind (emap (\<lambda>phase.
              expect_non_empty_string (dict_get phase_prompt_paths phase)
                (path @ ''.route_decider_policy.phase_prompt_paths.'' @ phase)) PHASES) (\<lambda>_.
     if \<not> eq_int (dict_get route_decider_policy ''schema_version'') 2 then
       die (path @ ''.route_decider_policy.schema_version'') ''must be 2''
     else Inr ())))))"

definition validate_routing_policy ::
  "(string \<times> yaml) list \<Rightarrow> string \<Rightarrow> (string \<times> yaml) list result" where
  "validate_routing_policy node path =
     ebind (ensure_keys node
              [''version'', ''stop_policy'', ''confidence_policy'', ''hard_stop_reason_map'',
               ''reproducibility_policy'', ''route_decider_policy''] path) (\<lambda>_.
     if \<not> eq_int (dict_get node ''version'') 2 then die (path @ ''.version'') ''must be 2''
     else
     ebind (validate_stop_policy path (dict_get node ''stop_policy'')) (\<lambda>_.
     ebind (validate_confidence_policy path (dict_get node ''confidence_policy'')) (\<lambda>_.
     ebind (validate_hard_stop_reason_map path (dict_get node ''hard_stop_reason_map'')) (\<lambda>_.
     ebind (validate_reproducibility_policy path (dict_get node ''reproducibility_policy''))
       (\<lambda>_.
     ebind (validate_route_decider_policy path (dict_get node ''route_decider_policy''))
       (\<lambda>_.
     Inr node))))))"

text \<open>A non-empty string that must equal a pinned constant.\<close>

definition expect_pinned :: "yaml \<Rightarrow> string \<Rightarrow> string \<Rightarrow> unit result" where
  "expect_pinned v path pinned =
     ebind (expect_non_empty_string v path) (\<lambda>s.
     if s \<noteq> pinned then die path (''must be '' @ quoted pinned) else Inr ())"

definition validate_review_parallel_policy ::
  "(string \<times> yaml) list \<Rightarrow> string \<Rightarrow> (string \<times> yaml) list result" where
  "validate_review_parallel_policy node path =
     ebind (ensure_keys node
              [''version'', ''mode'', ''join_barrier'', ''apply_order'', ''worker_output_mode'',
               ''merge_required'', ''artifacts''] path) (\<lambda>_.
     if \<not> eq_int (dict_get node ''version'') 2 then die (path @ ''.version'') ''must be 2''
     else
     ebind (expect_pinned (dict_get node ''mode'') (path @ ''.mode'') REVIEW_PARALLEL_MODE)
       (\<lambda>_.
     ebind (expect_pinned (dict_get node ''join_barrier'') (path @ ''.join_barrier'')
              REVIEW_PARALLEL_JOIN_BARRIER) (\<lambda>_.
     ebind (expect_pinned (dict_get node ''apply_order'') (path @ ''.apply_order'')
              REVIEW_PARALLEL_APPLY_ORDER) (\<lambda>_.
     ebind (expect_pinned (dict_get node ''worker_output_mode'') (path @ ''.worker_output_mode'')
              REVIEW_PARALLEL_WORKER_OUTPUT_MODE) (\<lambda>_.
     ebind (expect_bool (dict_get node ''merge_required'') (path @ ''.merge_required'')) (\<lambda>_.
     ebind (expect_dict (dict_get node ''artifacts'') (path @ ''.artifacts'')) (\<lambda>artifacts.
     ebind (ensure_keys artifacts [''findings_dir'', ''merged'', ''queue'']
              (path @ ''.artifacts'')) (\<lambda>_.
     ebind (emap (\<lambda>key.
              expect_non_empty_string (dict_get artifacts key) (path @ ''.artifacts.'' @ key))
              [''findings_dir'', ''merged'', ''queue'']) (\<lambda>_.
     Inr node)))))))))"

definition validate_web_evidence_policy ::
  "(string \<times> yaml) list \<Rightarrow> string \<Rightarrow> (string \<times> yaml) list result" where
  "validate_web_evidence_policy node path =
     ebind (ensure_keys node
              [''version'', ''strictness'', ''required_fields'', ''reason_code_map'',
               ''gate_action_on_violation''] path) (\<lambda>_.
     if \<not> eq_int (dict_get node ''version'') 2 then die (path @ ''.version'') ''must be 2''
     else
     ebind (expect_choice (dict_get node ''strictness'') (path @ ''.strictness'')
              WEB_EVIDENCE_STRICTNESS (one_of WEB_EVIDENCE_STRICTNESS)) (\<lambda>_.
     ebind (expect_string_list (dict_get node ''required_fields'')
              (path @ ''.required_fields'') True) (\<lambda>required_fields.
     if set required_fields \<noteq> set WEB_EVIDENCE_REQUIRED_FIELDS then
       die (path @ ''.required_fields'') ''must exactly match required evidence field set''
     else
     ebind (expect_dict (dict_get node ''reason_code_map'') (path @ ''.reason_code_map''))
       (\<lambda>reason_code_map.
     ebind (ensure_keys reason_code_map WEB_EVIDENCE_REASON_CODES
              (path @ ''.reason_code_map'')) (\<lambda>_.
     ebind (emap (\<lambda>(code, msg).
              ebind (expect_non_empty_string (YStr code) (path @ ''.reason_code_map.<key>''))
                (\<lambda>_.
              expect_non_empty_string msg (path @ ''.reason_code_map.'' @ code)))
              reason_code_map) (\<lambda>_.
     ebind (expect_choice (dict_get node ''gate_action_on_violation'')
              (path @ ''.gate_action_on_violation'')
              WEB_EVIDENCE_GATE_ACTIONS (one_of WEB_EVIDENCE_GATE_ACTIONS)) (\<lambda>_.
     Inr node)))))))"

section \<open>The configuration root on disk\<close>

text \<open>
  A configuration root is a directory tree. A regular file either fails to parse
  (\<^verbatim>\<open>yaml.safe_load\<close> raises \<^verbatim>\<open>yaml.YAMLError\<close>, which is not a \<^verbatim>\<open>ValidationError\<close>) or
  holds a document; the empty document loads as \<^verbatim>\<open>None\<close>. \<open>root\<close> is the absolute path
  \<^verbatim>\<open>os.path.abspath\<close> returns, used in the messages only; \<open>tree\<close> is the listing of that
  directory.
\<close>

datatype fcontent = Unparseable | Document yaml

datatype fsnode = File fcontent | Dir "(string \<times> fsnode) list"

text \<open>\<^verbatim>\<open>os.path.join(a, b)\<close> for a relative \<open>b\<close>.\<close>

definition path_join :: "string \<Rightarrow> string \<Rightarrow> string" where
  "path_join a b =
     (if a = [] then b else if last a = CHR ''/'' then a @ b else a @ ''/'' @ b)"

text \<open>The node at \<^verbatim>\<open>root/subdir/name\<close>, and \<^verbatim>\<open>os.path.isfile\<close> of that path.\<close>

definition node_at :: "(string \<times> fsnode) list \<Rightarrow> string \<Rightarrow> string \<Rightarrow> fsnode option" where
  "node_at tree subdir name =
     (case map_of tree subdir of
        Some (Dir entries) \<Rightarrow> map_of entries name
      | _ \<Rightarrow> None)"

definition isfile :: "(string \<times> fsnode) list \<Rightarrow> string \<Rightarrow> string \<Rightarrow> bool" where
  "isfile tree subdir name =
     (case node_at tree subdir name of Some (File c) \<Rightarrow> True | _ \<Rightarrow> False)"

text \<open>\<^verbatim>\<open>_load_yaml(path)\<close>, the same function in both validators.\<close>

definition load_yaml ::
  "string \<Rightarrow> (string \<times> fsnode) list \<Rightarrow> string \<Rightarrow> string \<Rightarrow> (string \<times> yaml) list result" where
  "load_yaml root tree subdir name =
     (let path = path_join (path_join root subdir) name in
      case node_at tree subdir name of
        Some (File c) \<Rightarrow>
          (case c of
             Unparseable \<Rightarrow> Inl YAMLError
           | Document YNull \<Rightarrow> die path ''file is empty''
           | Document (YMap m) \<Rightarrow> Inr m
           | Document _ \<Rightarrow> die path ''top-level must be a mapping'')
      | _ \<Rightarrow> die path ''file not found'')"

subsection \<open>Loading a V2 root\<close>

text \<open>
  \<^verbatim>\<open>_validate_expected_files(root, subdir)\<close>: the directory must exist; among its entries
  only regular files whose name ends in \<^verbatim>\<open>.yaml\<close> are looked at.
\<close>

definition validate_expected_files ::
  "string \<Rightarrow> (string \<times> fsnode) list \<Rightarrow> string \<Rightarrow> unit result" where
  "validate_expected_files root tree subdir =
     (let dir_path = path_join root subdir in
      case map_of tree subdir of
        Some (Dir entries) \<Rightarrow>
          (let found = filter (\<lambda>name. isfile tree subdir name \<and> endswith name ''.yaml'')
                         (keys entries) in
           ebind (dict_index EXPECTED_FILES subdir) (\<lambda>expected.
           let missing = sort (remdups (filter (\<lambda>n. n \<notin> set found) expected)) in
           if missing \<noteq> [] then
             die dir_path (''missing required files: '' @ join '', '' missing)
           else
           let optional = (case map_of OPTIONAL_FILES subdir of Some v \<Rightarrow> v | None \<Rightarrow> []);
               extra = sort (remdups (filter (\<lambda>n. n \<notin> set expected \<and> n \<notin> set optional)
                                        found)) in
           if extra \<noteq> [] then
             die dir_path (''unknown config files: '' @ join '', '' extra)
           else Inr ()))
      | _ \<Rightarrow> die dir_path ''directory not found'')"

definition load_and_validate_v2_config :: "string \<Rightarrow> (string \<times> fsnode) list \<Rightarrow> v2_cfg result" where
  "load_and_validate_v2_config root tree =
     ebind (emap (validate_expected_files root tree) [''skills'', ''servants'', ''policies''])
       (\<lambda>_.
     ebind (emap (\<lambda>phase.
              ebind (load_yaml root tree ''skills'' (phase @ ''.yaml'')) (\<lambda>node.
              ebind (validate_skill_file node phase
                       (path_join (path_join root ''skills'') (phase @ ''.yaml''))) (\<lambda>sk.
              Inr (phase, sk)))) PHASES) (\<lambda>sks.
     ebind (emap (\<lambda>tool.
              ebind (load_yaml root tree ''servants'' (tool @ ''.yaml'')) (\<lambda>node.
              ebind (validate_servant_file node tool
                       (path_join (path_join root ''servants'') (tool @ ''.yaml''))) (\<lambda>sv.
              Inr (tool, sv)))) TOOLS) (\<lambda>svs.
     ebind (load_yaml root tree ''policies'' ''routing.yaml'') (\<lambda>routing_node.
     ebind (validate_routing_policy routing_node
              (path_join (path_join root ''policies'') ''routing.yaml'')) (\<lambda>routing.
     ebind (load_yaml root tree ''policies'' ''review_parallel.yaml'') (\<lambda>review_parallel_node.
     ebind (validate_review_parallel_policy review_parallel_node
              (path_join (path_join root ''policies'') ''review_parallel.yaml''))
       (\<lambda>review_parallel.
     ebind (load_yaml root tree ''policies'' ''web_evidence.yaml'') (\<lambda>web_evidence_node.
     ebind (validate_web_evidence_policy web_evidence_node
              (path_join (path_join root ''policies'') ''web_evidence.yaml'')) (\<lambda>web_evidence.
     Inr \<lparr>v2_root = root, v2_skills = sks, v2_servants = svs,
          v2_policies = [(''routing'', routing), (''review_parallel'', review_parallel),
                         (''web_evidence'', web_evidence)]\<rparr>)))))))))"

subsection \<open>Loading a V1 root\<close>

text \<open>
  \<^verbatim>\<open>_normalize_servant_file\<close> and \<^verbatim>\<open>_normalize_pipeline_file\<close>: the full form carries
  \<^verbatim>\<open>version\<close> and the name tag and is cut down to the compact keys (a missing compact key
  is a \<^verbatim>\<open>KeyError\<close> there); the compact form is taken as it is.
\<close>

definition SERVANT_FILES :: "(string \<times> string \<times> string) list" where
  "SERVANT_FILES =
     [(''codex'', ''servant'', ''codex.yaml''), (''gemini'', ''servant'', ''gemini.yaml''),
      (''copilot'', ''servant'', ''copilot.yaml'')]"

definition PIPELINE_FILES :: "(string \<times> string \<times> string) list" where
  "PIPELINE_FILES =
     [(''impl'', ''pipeline'', ''impl-pipeline.yaml''),
      (''review'', ''pipeline'', ''review-pipeline.yaml''),
      (''plan'', ''pipeline'', ''plan-pipeline.yaml'')]"

text \<open>\<^verbatim>\<open>d.get(k, {})\<close> on a raw mapping.\<close>

definition dict_get_default :: "(string \<times> yaml) list \<Rightarrow> string \<Rightarrow> yaml \<Rightarrow> yaml" where
  "dict_get_default d k dflt = (case map_of d k of Some v \<Rightarrow> v | None \<Rightarrow> dflt)"

definition normalize_servant_file ::
  "(string \<times> yaml) list \<Rightarrow> string \<Rightarrow> string \<Rightarrow> (string \<times> yaml) list result" where
  "normalize_servant_file raw servant path =
     (if ''version'' \<in> set (keys raw) \<or> ''tool'' \<in> set (keys raw) then
        ebind (ensure_keys raw
                 [''version'', ''tool'', ''default_model'', ''allowed_models'',
                  ''wrapper_defaults'', ''purpose_models'', ''purpose_efforts''] path) (\<lambda>_.
        if \<not> eq_int (dict_get raw ''version'') 1 then die (path @ ''.version'') ''must be 1''
        else if dict_get raw ''tool'' \<noteq> YStr servant then
          die (path @ ''.tool'') (''must be '' @ quoted servant)
        else
        ebind (dict_index raw ''default_model'') (\<lambda>dm.
        ebind (dict_index raw ''allowed_models'') (\<lambda>am.
        ebind (dict_index raw ''wrapper_defaults'') (\<lambda>wd.
        Inr [(''default_model'', dm), (''allowed_models'', am), (''wrapper_defaults'', wd),
             (''purpose_models'', dict_get_default raw ''purpose_models'' (YMap [])),
             (''purpose_efforts'', dict_get_default raw ''purpose_efforts'' (YMap []))]))))
      else
        ebind (ensure_keys raw
                 [''default_model'', ''allowed_models'', ''wrapper_defaults'',
                  ''purpose_models'', ''purpose_efforts''] path) (\<lambda>_.
        Inr raw))"

definition normalize_pipeline_file ::
  "(string \<times> yaml) list \<Rightarrow> string \<Rightarrow> string \<Rightarrow> (string \<times> yaml) list result" where
  "normalize_pipeline_file raw pipeline_name path =
     (if ''version'' \<in> set (keys raw) \<or> ''pipeline'' \<in> set (keys raw) then
        ebind (ensure_keys raw [''version'', ''pipeline'', ''default_profile'', ''profiles'']
                 path) (\<lambda>_.
        if \<not> eq_int (dict_get raw ''version'') 1 then die (path @ ''.version'') ''must be 1''
        else if dict_get raw ''pipeline'' \<noteq> YStr pipeline_name then
          die (path @ ''.pipeline'') (''must be '' @ quoted pipeline_name)
        else
        ebind (dict_index raw ''default_profile'') (\<lambda>dp.
        ebind (dict_index raw ''profiles'') (\<lambda>ps.
        Inr [(''default_profile'', dp), (''profiles'', ps)])))
      else
        ebind (ensure_keys raw [''default_profile'', ''profiles''] path) (\<lambda>_.
        Inr raw))"

definition load_and_validate_split_config :: "string \<Rightarrow> (string \<times> fsnode) list \<Rightarrow> cfg result" where
  "load_and_validate_split_config root tree =
     ebind (emap (\<lambda>(servant, subdir, filename).
              ebind (load_yaml root tree subdir filename) (\<lambda>raw.
              ebind (normalize_servant_file raw servant
                       (path_join (path_join root subdir) filename)) (\<lambda>node.
              Inr (servant, YMap node)))) SERVANT_FILES) (\<lambda>servants_node.
     ebind (emap (\<lambda>(pipeline_name, subdir, filename).
              ebind (load_yaml root tree subdir filename) (\<lambda>raw.
              ebind (normalize_pipeline_file raw pipeline_name
                       (path_join (path_join root subdir) filename)) (\<lambda>node.
              Inr (pipeline_name, YMap node)))) PIPELINE_FILES) (\<lambda>pipelines_node.
     validate_runtime_config_dict
       [(''version'', YInt 1), (''servants'', YMap servants_node),
        (''pipelines'', YMap pipelines_node)] root))"

section \<open>Config V2: selecting the method\<close>

text \<open>
  \<^verbatim>\<open>_resolve_selected_method(cfg, phase, manifest_override, runtime_method_id)\<close> of
  \<^verbatim>\<open>config_resolve_v2.py\<close>. The manifest override is the normalized phase override of
  \<^verbatim>\<open>parse_manifest_v2_overrides\<close>; the runtime method id is the optional command-line
  argument. \<^verbatim>\<open>if x: selected = x\<close> on an optional string takes a non-empty string: \<open>str_or\<close>.
\<close>

record phase_override =
  po_method_id :: "string option"
  po_tool_models :: "(string \<times> string) list"
  po_step_overrides :: "(string \<times> (string \<times> string) list) list"

definition resolve_selected_method ::
  "v2_cfg \<Rightarrow> string \<Rightarrow> phase_override \<Rightarrow> string option \<Rightarrow> string result" where
  "resolve_selected_method c phase manifest_override runtime_method_id =
     ebind (dict_index (v2_skills c) phase) (\<lambda>phase_cfg.
     case default_method_ids phase_cfg of
       [] \<Rightarrow> raise_error (''skills.'' @ phase @ ''.default_method_ids must not be empty'')
     | first_id # _ \<Rightarrow>
         (let manifest_method_id = po_method_id manifest_override;
              selected1 = str_or manifest_method_id first_id;
              selected = str_or runtime_method_id selected1
          in
          case map_of (methods phase_cfg) selected of
            None \<Rightarrow>
              raise_error (''resolved method_id '' @ quoted selected
                           @ '' is not defined in skills.'' @ phase @ ''.methods'')
          | Some mth \<Rightarrow>
              if \<not> enabled mth then
                raise_error (''resolved method_id '' @ quoted selected @ '' is disabled'')
              else Inr selected))"

section \<open>Closed forms and example inputs used by the proofs\<close>

text \<open>
  What the three filter steps keep when no stage lacks an underscore: a stage survives
  when no disabled flag's condition removes it.
\<close>

definition keeps :: "(string \<times> bool) list \<Rightarrow> string \<Rightarrow> bool" where
  "keeps fl s \<longleftrightarrow>
     (flag_is_false fl ''enable_brief'' \<longrightarrow> \<not> endswith s ''_brief'') \<and>
     (flag_is_false fl ''enable_verify'' \<longrightarrow>
        \<not> str_in ''verify'' (tl (dropWhile (\<lambda>c. c \<noteq> CHR ''_'') s))) \<and>
     (flag_is_false fl ''enable_review'' \<longrightarrow>
        \<not> str_in ''review'' (tl (dropWhile (\<lambda>c. c \<noteq> CHR ''_'') s)))"

definition ex_stages :: "string list" where
  "ex_stages = [''copilot_brief'', ''codex_impl'', ''codex_static_verify'', ''gemini_review'']"

subsection \<open>An example configuration\<close>

text \<open>
  A configuration root as \<^verbatim>\<open>load_and_validate_split_config\<close> assembles it, and its
  validated reading. The profile \<open>shared\<close> is defined by both stage pipelines; the stage
  \<open>codex_review\<close> of \<open>safe_impl\<close> has a profile-level model, a purpose-table model and
  the servant default, all different.
\<close>

definition ex_codex :: yaml where
  "ex_codex = YMap
     [(''default_model'', YStr ''gpt-a''),
      (''allowed_models'', YList [YStr ''gpt-a'', YStr ''gpt-b'', YStr ''gpt-c'', YStr ''gpt-d'']),
      (''wrapper_defaults'', YMap [(''effort'', YStr ''high''), (''timeout_ms'', YInt 1000),
                                   (''timeout_mode'', YStr ''enforce'')]),
      (''purpose_models'', YMap [(''review'', YStr ''gpt-c'')])]"

definition ex_gemini :: yaml where
  "ex_gemini = YMap
     [(''default_model'', YStr ''gem-a''),
      (''allowed_models'', YList [YStr ''gem-a'']),
      (''wrapper_defaults'', YMap [(''approval_mode'', YStr ''yolo''), (''sandbox'', YBool False),
                                   (''timeout_ms'', YInt 1000),
                                   (''timeout_mode'', YStr ''enforce'')])]"

definition ex_copilot :: yaml where
  "ex_copilot = YMap
     [(''default_model'', YStr ''cop-a''),
      (''allowed_models'', YList [YStr ''cop-a'']),
      (''wrapper_defaults'', YMap [(''timeout_ms'', YInt 1000),
                                   (''timeout_mode'', YStr ''wait_done'')])]"

definition ex_impl :: yaml where
  "ex_impl = YMap
     [(''default_profile'', YStr ''safe_impl''),
      (''profiles'', YMap
         [(''safe_impl'', YMap
             [(''stages'', YList [YStr ''copilot_brief'', YStr ''codex_impl'',
                                  YStr ''codex_review'']),
              (''flags'', YMap [(''enable_brief'', YBool True)]),
              (''options'', YMap [(''timeout_mode'', YStr ''enforce'')]),
              (''stage_models'', YMap [(''codex_review'', YStr ''gpt-b'')])]),
          (''one_shot_impl'', YMap
             [(''stages'', YList [YStr ''codex_runbook'', YStr ''codex_review'']),
              (''flags'', YMap [(''enable_verify'', YBool False)]),
              (''options'', YMap [(''timeout_mode'', YStr ''wait_done'')])]),
          (''shared'', YMap [(''stages'', YList [YStr ''gemini_impl''])])])]"

definition ex_review :: yaml where
  "ex_review = YMap
     [(''default_profile'', YStr ''codex_only''),
      (''profiles'', YMap
         [(''codex_only'', YMap [(''stages'', YList [YStr ''codex_review''])]),
          (''shared'', YMap [(''stages'', YList [YStr ''gemini_review''])])])]"

definition ex_plan :: yaml where
  "ex_plan = YMap
     [(''default_profile'', YStr ''standard''),
      (''profiles'', YMap [(''standard'', YMap [])])]"

definition ex_raw_cfg :: "(string \<times> yaml) list" where
  "ex_raw_cfg =
     [(''version'', YInt 1),
      (''servants'', YMap [(''codex'', ex_codex), (''gemini'', ex_gemini),
                           (''copilot'', ex_copilot)]),
      (''pipelines'', YMap [(''impl'', ex_impl), (''review'', ex_review),
                            (''plan'', ex_plan)])]"

definition ex_profile :: "string list \<Rightarrow> profile" where
  "ex_profile sts = \<lparr>stages = sts, flags = [], options = [], stage_models = [],
                      stage_efforts = []\<rparr>"

definition ex_impl_pipeline :: pipeline where
  "ex_impl_pipeline =
     \<lparr>default_profile = ''safe_impl'',
      profiles =
        [(''safe_impl'',
          \<lparr>stages = [''copilot_brief'', ''codex_impl'', ''codex_review''],
           flags = [(''enable_brief'', True)],
           options = [(''timeout_mode'', ''enforce'')],
           stage_models = [(''codex_review'', ''gpt-b'')],
           stage_efforts = []\<rparr>),
         (''one_shot_impl'',
          \<lparr>stages = [''codex_runbook'', ''codex_review''],
           flags = [(''enable_verify'', False)],
           options = [(''timeout_mode'', ''wait_done'')],
           stage_models = [], stage_efforts = []\<rparr>),
         (''shared'', ex_profile [''gemini_impl''])]\<rparr>"

definition ex_review_pipeline :: pipeline where
  "ex_review_pipeline =
     \<lparr>default_profile = ''codex_only'',
      profiles =
        [(''codex_only'', ex_profile [''codex_review'']),
         (''shared'', ex_profile [''gemini_review''])]\<rparr>"

definition ex_cfg :: cfg where
  "ex_cfg =
     \<lparr>servants =
        [(''codex'',
          \<lparr>default_model = ''gpt-a'',
           allowed_models = [''gpt-a'', ''gpt-b'', ''gpt-c'', ''gpt-d''],
           wrapper_defaults = [(''effort'', YStr ''high''), (''timeout_ms'', YInt 1000),
                               (''timeout_mode'', YStr ''enforce'')],
           purpose_models = [(''review'', ''gpt-c'')],
           purpose_efforts = []\<rparr>),
         (''gemini'',
          \<lparr>default_model = ''gem-a'', allowed_models = [''gem-a''],
           wrapper_defaults = [(''approval_mode'', YStr ''yolo''), (''sandbox'', YBool False),
                               (''timeout_ms'', YInt 1000),
                               (''timeout_mode'', YStr ''enforce'')],
           purpose_models = [], purpose_efforts = []\<rparr>),
         (''copilot'',
          \<lparr>default_model = ''cop-a'', allowed_models = [''cop-a''],
           wrapper_defaults = [(''timeout_ms'', YInt 1000),
                               (''timeout_mode'', YStr ''wait_done'')],
           purpose_models = [], purpose_efforts = []\<rparr>)],
      pipelines =
        [(''impl'', ex_impl_pipeline), (''review'', ex_review_pipeline),
         (''plan'',
          \<lparr>default_profile = ''standard'',
           profiles = [(''standard'', ex_profile [])]\<rparr>)]\<rparr>"

text \<open>Manifests: one that disables review, one that asks for the one-shot mode.\<close>

definition ex_raw_man_noreview :: yaml where
  "ex_raw_man_noreview =
     YMap [(''routing'', YMap [(''pipeline'',
        YMap [(''flags'', YMap [(''enable_review'', YBool False)])])])]"

definition ex_man_noreview :: manifest where
  "ex_man_noreview = empty_manifest\<lparr>routing_flags := [(''enable_review'', False)]\<rparr>"

definition ex_sel_noreview :: selection where
  "ex_sel_noreview =
     \<lparr>sel_pipeline = ''review'', sel_intent = ''codex_only'', sel_profile = ''codex_only'',
      sel_runtime = ex_profile [''codex_review''],
      sel_flags = [(''enable_review'', False)], sel_options = []\<rparr>"

definition ex_raw_man_one_shot :: yaml where
  "ex_raw_man_one_shot =
     YMap [(''routing'', YMap [(''pipeline'',
        YMap [(''flags'', YMap [(''enable_brief'', YBool False)]),
              (''options'', YMap [(''impl_mode'', YStr ''one_shot'')])])])]"

definition ex_man_one_shot :: manifest where
  "ex_man_one_shot = empty_manifest\<lparr>routing_flags := [(''enable_brief'', False)],
                                      routing_options := [(''impl_mode'', ''one_shot'')]\<rparr>"

definition ex_plan_one_shot :: dispatch_plan where
  "ex_plan_one_shot =
     \<lparr>pipeline_group = ''impl'', intent = ''safe_impl'', profile_name = ''one_shot_impl'',
      plan_flags = [(''enable_verify'', False), (''enable_brief'', False)],
      plan_options = [(''timeout_mode'', ''wait_done''), (''impl_mode'', ''one_shot'')],
      stage_plan = [''codex_runbook'', ''codex_review''],
      tool_models = [(''codex'', ''gpt-a''), (''gemini'', ''gem-a''), (''copilot'', ''cop-a'')],
      plan_purpose_models = [(''codex'', [(''review'', ''gpt-c'')]), (''gemini'', []),
                             (''copilot'', [])],
      plan_stage_models = [(''codex_runbook'', ''gpt-a''), (''codex_review'', ''gpt-c'')],
      plan_stage_efforts = [(''codex_runbook'', ''high''), (''codex_review'', ''high'')],
      stage_timeout_ms = [(''codex_runbook'', YInt 1000), (''codex_review'', YInt 1000)],
      stage_timeout_modes = [(''codex_runbook'', ''wait_done''),
                             (''codex_review'', ''wait_done'')]\<rparr>"

subsection \<open>What the stage loop establishes\<close>

text \<open>
  The value the loop body computes for a stage depends on the stage and on the context
  only: \<open>stage_model_of\<close> and \<open>stage_timeout_mode_of\<close> relate a stage to the model and the
  timeout mode the body resolves for it. \<open>stage_maps_ok\<close> is the loop invariant: every
  entry of the two dicts is such a value. \<open>plan_ctx\<close> is the context the loop of a
  returned plan ran in.
\<close>

definition stage_model_of :: "stage_ctx \<Rightarrow> string \<Rightarrow> string \<Rightarrow> bool" where
  "stage_model_of cx s m \<longleftrightarrow>
     (\<exists>tool. stage_tool s = Inr tool
        \<and> resolve_stage_model cx s tool
             (dispatch_stage_purpose s (cx_pipeline cx) (cx_options cx)) = Inr m)"

definition stage_timeout_mode_of :: "stage_ctx \<Rightarrow> string \<Rightarrow> string \<Rightarrow> bool" where
  "stage_timeout_mode_of cx s t \<longleftrightarrow>
     (\<exists>tool. stage_tool s = Inr tool \<and> resolve_stage_timeout_mode cx s tool = Inr t)"

definition stage_maps_ok :: "stage_ctx \<Rightarrow> stage_maps \<Rightarrow> bool" where
  "stage_maps_ok cx acc \<longleftrightarrow>
     (\<forall>s m. map_of (sm_models acc) s = Some m \<longrightarrow> stage_model_of cx s m)
   \<and> (\<forall>s t. map_of (sm_timeout_modes acc) s = Some t \<longrightarrow> stage_timeout_mode_of cx s t)
   \<and> dom (map_of (sm_models acc)) = dom (map_of (sm_timeout_modes acc))"

definition plan_ctx :: "manifest \<Rightarrow> selection \<Rightarrow> dispatch_plan \<Rightarrow> (string \<times> string) list
    \<Rightarrow> (string \<times> (string \<times> yaml) list) list \<Rightarrow> stage_ctx" where
  "plan_ctx man sel plan cpe wd =
     \<lparr>cx_pipeline = sel_pipeline sel,
      cx_options = sel_options sel,
      cx_routing_model_overrides = routing_model man,
      cx_profile_stage_models = stage_models (sel_runtime sel),
      cx_profile_stage_efforts = stage_efforts (sel_runtime sel),
      cx_purpose_models = plan_purpose_models plan,
      cx_tool_models = tool_models plan,
      cx_codex_purpose_efforts = cpe,
      cx_wrapper_defaults = wd,
      cx_timeout_mode_override = map_of (sel_options sel) ''timeout_mode''\<rparr>"

text \<open>
  How the resolver reads the task-level model map off the manifest document:
  \<^verbatim>\<open>dict((manifest.get("routing") or {}).get("model") or {})\<close>.
\<close>

definition manifest_routing_model :: "yaml \<Rightarrow> (string \<times> yaml) list" where
  "manifest_routing_model mv =
     (case mv of
        YMap m \<Rightarrow>
          (case py_or (dict_get m ''routing'') (YMap []) of
             YMap r \<Rightarrow> (case py_or (dict_get r ''model'') (YMap []) of
                          YMap mm \<Rightarrow> mm | _ \<Rightarrow> [])
           | _ \<Rightarrow> [])
      | _ \<Rightarrow> [])"

text \<open>A manifest with a task-level model for \<open>codex\<close>, and the plans of two resolutions.\<close>

definition ex_raw_man_model :: yaml where
  "ex_raw_man_model =
     YMap [(''task'', YStr ''demo''),
           (''routing'', YMap [(''intent'', YStr ''safe_impl''),
                               (''model'', YMap [(''codex'', YStr ''gpt-d'')])])]"

definition ex_man_model :: manifest where
  "ex_man_model = empty_manifest\<lparr>routing_intent := Some ''safe_impl'',
                                   routing_model := [(''codex'', ''gpt-d'')]\<rparr>"

definition ex_plan_model :: dispatch_plan where
  "ex_plan_model =
     \<lparr>pipeline_group = ''impl'', intent = ''safe_impl'', profile_name = ''safe_impl'',
      plan_flags = [(''enable_brief'', True)],
      plan_options = [(''timeout_mode'', ''enforce'')],
      stage_plan = [''copilot_brief'', ''codex_impl'', ''codex_review''],
      tool_models = [(''codex'', ''gpt-d''), (''gemini'', ''gem-a''), (''copilot'', ''cop-a'')],
      plan_purpose_models = [(''codex'', [(''review'', ''gpt-c'')]), (''gemini'', []),
                             (''copilot'', [])],
      plan_stage_models = [(''copilot_brief'', ''cop-a''), (''codex_impl'', ''gpt-d''),
                           (''codex_review'', ''gpt-d'')],
      plan_stage_efforts = [(''codex_impl'', ''high''), (''codex_review'', ''high'')],
      stage_timeout_ms = [(''copilot_brief'', YInt 1000), (''codex_impl'', YInt 1000),
                          (''codex_review'', YInt 1000)],
      stage_timeout_modes = [(''copilot_brief'', ''enforce''), (''codex_impl'', ''enforce''),
                             (''codex_review'', ''enforce'')]\<rparr>"

definition ex_plan_shared :: dispatch_plan where
  "ex_plan_shared =
     \<lparr>pipeline_group = ''impl'', intent = ''shared'', profile_name = ''shared'',
      plan_flags = [], plan_options = [],
      stage_plan = [''gemini_impl''],
      tool_models = [(''codex'', ''gpt-a''), (''gemini'', ''gem-a''), (''copilot'', ''cop-a'')],
      plan_purpose_models = [(''codex'', [(''review'', ''gpt-c'')]), (''gemini'', []),
                             (''copilot'', [])],
      plan_stage_models = [(''gemini_impl'', ''gem-a'')],
      plan_stage_efforts = [],
      stage_timeout_ms = [(''gemini_impl'', YInt 1000)],
      stage_timeout_modes = [(''gemini_impl'', ''enforce'')]\<rparr>"

subsection \<open>Example configuration roots\<close>

text \<open>
  A V1 root holding the example configuration, with two entries no loader names: a file
  \<open>extra.yaml\<close> in \<open>servant/\<close> and a file \<open>notes.txt\<close> at the top.
\<close>

definition ex_v1_tree :: "(string \<times> fsnode) list" where
  "ex_v1_tree =
     [(''servant'', Dir [(''codex.yaml'', File (Document ex_codex)),
                         (''gemini.yaml'', File (Document ex_gemini)),
                         (''copilot.yaml'', File (Document ex_copilot)),
                         (''extra.yaml'', File (Document (YStr ''not a servant'')))]),
      (''pipeline'', Dir [(''impl-pipeline.yaml'', File (Document ex_impl)),
                          (''review-pipeline.yaml'', File (Document ex_review)),
                          (''plan-pipeline.yaml'', File (Document ex_plan))]),
      (''notes.txt'', File Unparseable)]"

text \<open>A V2 skill file, a V2 servant file and the three policy files.\<close>

definition ex_skill_node :: "string \<Rightarrow> (string \<times> yaml) list" where
  "ex_skill_node phase =
     [(''version'', YInt 2), (''skill'', YStr phase),
      (''default_method_ids'', YList [YStr ''standard'']),
      (''methods'', YMap
         [(''standard'', YMap
             [(''enabled'', YBool True),
              (''steps'', YList [YStr ''draft'', YStr ''check'']),
              (''allowed_tools'', YList [YStr ''codex'', YStr ''gemini'']),
              (''gate_profile'', YStr ''standard'')]),
          (''quick'', YMap
             [(''enabled'', YBool False),
              (''steps'', YList [YStr ''draft'']),
              (''allowed_tools'', YList [YStr ''codex'']),
              (''gate_profile'', YStr ''minimal'')])]),
      (''step_defaults'', YMap
         [(''draft'', YMap [(''default_tool'', YStr ''codex''),
                            (''default_mode'', YStr ''normal''),
                            (''web_research_mode'', YStr ''off'')]),
          (''check'', YMap [(''default_tool'', YStr ''gemini''),
                            (''default_mode'', YStr ''analysis_only''),
                            (''web_research_mode'', YStr ''gemini_auto''),
                            (''description'', YStr ''second look'')])])]"

definition ex_skill :: "string \<Rightarrow> yaml" where
  "ex_skill phase = YMap (ex_skill_node phase)"

definition ex_skill_view :: v2_skill where
  "ex_skill_view =
     \<lparr>default_method_ids = [''standard''],
      methods =
        [(''standard'', \<lparr>enabled = True, steps = [''draft'', ''check''],
                          allowed_tools = [''codex'', ''gemini''],
                          gate_profile = ''standard''\<rparr>),
         (''quick'', \<lparr>enabled = False, steps = [''draft''], allowed_tools = [''codex''],
                       gate_profile = ''minimal''\<rparr>)],
      step_defaults =
        [(''draft'', \<lparr>default_tool = ''codex'', default_mode = ''normal'',
                       web_research_mode = ''off''\<rparr>),
         (''check'', \<lparr>default_tool = ''gemini'', default_mode = ''analysis_only'',
                       web_research_mode = ''gemini_auto''\<rparr>)]\<rparr>"

definition ex_v2_servant :: "string \<Rightarrow> string \<Rightarrow> yaml" where
  "ex_v2_servant tool m = YMap
     [(''version'', YInt 2), (''tool'', YStr tool),
      (''default_model'', YStr m),
      (''allowed_models'', YList [YStr m]),
      (''wrapper_defaults'', YMap [(''timeout_ms'', YInt 1000),
                                   (''timeout_mode'', YStr ''enforce'')]),
      (''web_capabilities'', YMap [(''modes'', YList [YStr ''off''])])]"

definition ex_routing_policy :: yaml where
  "ex_routing_policy = YMap
     [(''version'', YInt 2),
      (''stop_policy'', YMap
         [(''conditions'', YList [YMap [(''impact_surface'', YStr ''high''),
                                        (''action'', YStr ''STOP_AND_CONFIRM'')]]),
          (''on_stop'', YStr ''write_reason_codes_to_routing_result'')]),
      (''confidence_policy'', YMap [(''values'', YList [YStr ''high'', YStr ''low'']),
                                    (''default'', YStr ''low'')]),
      (''hard_stop_reason_map'', YMap [(''R1'', YStr ''stop'')]),
      (''reproducibility_policy'', YMap
         [(''deterministic_required'', YBool True),
          (''on_mismatch'', YStr ''record_ROUTING_NON_DETERMINISTIC_and_stop'')]),
      (''route_decider_policy'', YMap
         [(''phase_prompt_paths'', YMap [(''plan'', YStr ''p.md''), (''impl'', YStr ''i.md''),
                                         (''review'', YStr ''r.md'')]),
          (''schema_version'', YInt 2)])]"

definition ex_review_parallel_policy :: yaml where
  "ex_review_parallel_policy = YMap
     [(''version'', YInt 2), (''mode'', YStr ''finding-first''),
      (''join_barrier'', YStr ''required''), (''apply_order'', YStr ''sequential''),
      (''worker_output_mode'', YStr ''analysis_only''), (''merge_required'', YBool True),
      (''artifacts'', YMap [(''findings_dir'', YStr ''f''), (''merged'', YStr ''m''),
                            (''queue'', YStr ''q'')])]"

definition ex_web_evidence_policy :: yaml where
  "ex_web_evidence_policy = YMap
     [(''version'', YInt 2), (''strictness'', YStr ''strict''),
      (''required_fields'', YList [YStr ''url'', YStr ''evidence_id'', YStr ''accessed_at'',
                                   YStr ''claim_summary'']),
      (''reason_code_map'', YMap [(''WEB_EVIDENCE_STALE'', YStr ''stale'')]),
      (''gate_action_on_violation'', YStr ''reject_and_stop'')]"

definition ex_v2_tree :: "(string \<times> fsnode) list" where
  "ex_v2_tree =
     [(''skills'', Dir [(''plan.yaml'', File (Document (ex_skill ''plan''))),
                        (''impl.yaml'', File (Document (ex_skill ''impl''))),
                        (''review.yaml'', File (Document (ex_skill ''review''))),
                        (''README.md'', File Unparseable)]),
      (''servants'', Dir [(''codex.yaml'', File (Document (ex_v2_servant ''codex'' ''gpt-a''))),
                          (''gemini.yaml'', File (Document (ex_v2_servant ''gemini'' ''gem-a''))),
                          (''copilot.yaml'', File (Document (ex_v2_servant ''copilot'' ''cop-a'')))]),
      (''policies'', Dir [(''routing.yaml'', File (Document ex_routing_policy)),
                          (''review_parallel.yaml'', File (Document ex_review_parallel_policy)),
                          (''web_evidence.yaml'', File (Document ex_web_evidence_policy))])]"

subsection \<open>The method selection in the specification's words\<close>

text \<open>
  "First default declared for that phase, overridden by manifest-declared method id,
  overridden again by a runtime-supplied method id": an id is supplied when it is a
  non-empty string.
\<close>

definition supplied :: "string option \<Rightarrow> bool" where
  "supplied x = (case x of Some s \<Rightarrow> s \<noteq> [] | None \<Rightarrow> False)"

definition selected_method_spec :: "string list \<Rightarrow> string option \<Rightarrow> string option \<Rightarrow> string" where
  "selected_method_spec defaults manifest_id runtime_id =
     (if supplied runtime_id then the runtime_id
      else if supplied manifest_id then the manifest_id
      else hd defaults)"

definition ex_v2_cfg :: v2_cfg where
  "ex_v2_cfg = \<lparr>v2_root = ''/cfg2'', v2_skills = [(''plan'', ex_skill_view)],
                v2_servants = [], v2_policies = []\<rparr>"

definition ex_override :: phase_override where
  "ex_override = \<lparr>po_method_id = Some ''quick'', po_tool_models = [],
                  po_step_overrides = []\<rparr>"

subsection \<open>Membership of the default model, and example servant documents\<close>

text \<open>
  The default model of a servant document is an element of its allowed-models list.
  \<open>ex_scenario_d\<close> is the servant of the specification's scenario D (default \<open>x\<close>,
  allowed \<open>y\<close> and \<open>z\<close>); \<open>ex_blank_default\<close> has an empty default instead.
\<close>

definition default_in_allowed :: "(string \<times> yaml) list \<Rightarrow> bool" where
  "default_in_allowed raw =
     (case dict_get raw ''allowed_models'' of
        YList items \<Rightarrow> dict_get raw ''default_model'' \<in> set items
      | _ \<Rightarrow> False)"

definition ex_scenario_d :: "(string \<times> yaml) list" where
  "ex_scenario_d =
     [(''default_model'', YStr ''x''),
      (''allowed_models'', YList [YStr ''y'', YStr ''z'']),
      (''wrapper_defaults'', YMap [(''effort'', YStr ''high''), (''timeout_ms'', YInt 1000),
                                   (''timeout_mode'', YStr ''enforce'')])]"

definition ex_scenario_d_v2 :: "(string \<times> yaml) list" where
  "ex_scenario_d_v2 =
     [(''version'', YInt 2), (''tool'', YStr ''codex''),
      (''default_model'', YStr ''x''),
      (''allowed_models'', YList [YStr ''y'', YStr ''z'']),
      (''wrapper_defaults'', YMap [(''timeout_ms'', YInt 1000),
                                   (''timeout_mode'', YStr ''enforce'')]),
      (''web_capabilities'', YMap [(''modes'', YList [YStr ''off''])])]"

definition ex_blank_default :: "(string \<times> yaml) list" where
  "ex_blank_default =
     [(''default_model'', YStr ''''),
      (''allowed_models'', YList [YStr ''y'', YStr ''z'']),
      (''wrapper_defaults'', YMap [(''effort'', YStr ''high''), (''timeout_ms'', YInt 1000),
                                   (''timeout_mode'', YStr ''enforce'')])]"

definition ex_blank_default_v2 :: "(string \<times> yaml) list" where
  "ex_blank_default_v2 =
     [(''version'', YInt 2), (''tool'', YStr ''codex''),
      (''default_model'', YStr ''''),
      (''allowed_models'', YList [YStr ''y'', YStr ''z'']),
      (''wrapper_defaults'', YMap [(''timeout_ms'', YInt 1000),
                                   (''timeout_mode'', YStr ''enforce'')]),
      (''web_capabilities'', YMap [(''modes'', YList [YStr ''off''])])]"

definition ex_v1_tree_d :: "(string \<times> fsnode) list" where
  "ex_v1_tree_d =
     [(''servant'', Dir [(''codex.yaml'', File (Document (YMap ex_scenario_d))),
                         (''gemini.yaml'', File (Document ex_gemini)),
                         (''copilot.yaml'', File (Document ex_copilot))]),
      (''pipeline'', Dir [(''impl-pipeline.yaml'', File (Document ex_impl)),
                          (''review-pipeline.yaml'', File (Document ex_review)),
                          (''plan-pipeline.yaml'', File (Document ex_plan))])]"

definition ex_v2_tree_d :: "(string \<times> fsnode) list" where
  "ex_v2_tree_d =
     [(''skills'', Dir [(''plan.yaml'', File (Document (ex_skill ''plan''))),
                        (''impl.yaml'', File (Document (ex_skill ''impl''))),
                        (''review.yaml'', File (Document (ex_skill ''review'')))]),
      (''servants'', Dir [(''codex.yaml'', File (Document (YMap ex_scenario_d_v2))),
                          (''gemini.yaml'', File (Document (ex_v2_servant ''gemini'' ''gem-a''))),
                          (''copilot.yaml'', File (Document (ex_v2_servant ''copilot'' ''cop-a'')))]),
      (''policies'', Dir [(''routing.yaml'', File (Document ex_routing_policy)),
                          (''review_parallel.yaml'', File (Document ex_review_parallel_policy)),
                          (''web_evidence.yaml'', File (Document ex_web_evidence_policy))])]"

text \<open>
  A configuration and two roots whose \<open>gemini\<close> servant is the servant of scenario D,
  the \<open>codex\<close> servant validated before it being in order. \<open>mapping_of\<close> is the mapping
  a document holds.
\<close>

definition mapping_of :: "yaml \<Rightarrow> (string \<times> yaml) list" where
  "mapping_of v = (case v of YMap m \<Rightarrow> m | _ \<Rightarrow> [])"

definition ex_scenario_d_gemini_v2 :: "(string \<times> yaml) list" where
  "ex_scenario_d_gemini_v2 =
     [(''version'', YInt 2), (''tool'', YStr ''gemini''),
      (''default_model'', YStr ''x''),
      (''allowed_models'', YList [YStr ''y'', YStr ''z'']),
      (''wrapper_defaults'', YMap [(''timeout_ms'', YInt 1000),
                                   (''timeout_mode'', YStr ''enforce'')]),
      (''web_capabilities'', YMap [(''modes'', YList [YStr ''off''])])]"

definition ex_servants_d :: "(string \<times> yaml) list" where
  "ex_servants_d =
     [(''codex'', ex_codex), (''gemini'', YMap ex_scenario_d), (''copilot'', ex_copilot)]"

definition ex_raw_cfg_d :: "(string \<times> yaml) list" where
  "ex_raw_cfg_d =
     [(''version'', YInt 1),
      (''servants'', YMap ex_servants_d),
      (''pipelines'', YMap [(''impl'', ex_impl), (''review'', ex_review),
                            (''plan'', ex_plan)])]"

definition ex_v1_tree_dg :: "(string \<times> fsnode) list" where
  "ex_v1_tree_dg =
     [(''servant'', Dir [(''codex.yaml'', File (Document ex_codex)),
                         (''gemini.yaml'', File (Document (YMap ex_scenario_d))),
                         (''copilot.yaml'', File (Document ex_copilot))]),
      (''pipeline'', Dir [(''impl-pipeline.yaml'', File (Document ex_impl)),
                          (''review-pipeline.yaml'', File (Document ex_review)),
                          (''plan-pipeline.yaml'', File (Document ex_plan))])]"

definition ex_v2_tree_dg :: "(string \<times> fsnode) list" where
  "ex_v2_tree_dg =
     [(''skills'', Dir [(''plan.yaml'', File (Document (ex_skill ''plan''))),
                        (''impl.yaml'', File (Document (ex_skill ''impl''))),
                        (''review.yaml'', File (Document (ex_skill ''review'')))]),
      (''servants'', Dir [(''codex.yaml'', File (Document (ex_v2_servant ''codex'' ''gpt-a''))),
                          (''gemini.yaml'', File (Document (YMap ex_scenario_d_gemini_v2))),
                          (''copilot.yaml'', File (Document (ex_v2_servant ''copilot'' ''cop-a'')))]),
      (''policies'', Dir [(''routing.yaml'', File (Document ex_routing_policy)),
                          (''review_parallel.yaml'', File (Document ex_review_parallel_policy)),
                          (''web_evidence.yaml'', File (Document ex_web_evidence_policy))])]"

definition ex_v2_codex_view :: v2_servant where
  "ex_v2_codex_view =
     \<lparr>v2_default_model = ''gpt-a'', v2_allowed_models = [''gpt-a''],
      v2_wrapper_defaults = [(''timeout_ms'', YInt 1000), (''timeout_mode'', YStr ''enforce'')],
      v2_web_modes = [''off'']\<rparr>"

section \<open>Proofs: the error monad and the loops\<close>

lemma ebind_Inl [simp]: "ebind (Inl e) f = Inl e"
  by (simp add: ebind_def)

lemma ebind_Inr [simp]: "ebind (Inr x) f = f x"
  by (simp add: ebind_def)

lemma ebind_eq_Inr: "ebind m f = Inr y \<longleftrightarrow> (\<exists>x. m = Inr x \<and> f x = Inr y)"
  by (cases m) simp_all

lemma efilter_total:
  assumes "\<And>x. x \<in> set xs \<Longrightarrow> p x = Inr (q x)"
  shows "efilter p xs = Inr (filter q xs)"
  using assms by (induction xs) simp_all

lemma role_lacks_underscore:
  "has_underscore s \<Longrightarrow>
     role_lacks w s = Inr (\<not> str_in w (tl (dropWhile (\<lambda>c. c \<noteq> CHR ''_'') s)))"
  by (simp add: role_lacks_def split_tail_def)

lemma step_verify_total:
  "list_all has_underscore xs \<Longrightarrow>
   step_verify fl xs = Inr (filter (\<lambda>s. flag_is_false fl ''enable_verify'' \<longrightarrow>
        \<not> str_in ''verify'' (tl (dropWhile (\<lambda>c. c \<noteq> CHR ''_'') s))) xs)"
  by (simp add: step_verify_def list_all_iff efilter_total [OF role_lacks_underscore])

lemma step_review_total:
  "list_all has_underscore xs \<Longrightarrow>
   step_review fl xs = Inr (filter (\<lambda>s. flag_is_false fl ''enable_review'' \<longrightarrow>
        \<not> str_in ''review'' (tl (dropWhile (\<lambda>c. c \<noteq> CHR ''_'') s))) xs)"
  by (simp add: step_review_def list_all_iff efilter_total [OF role_lacks_underscore])

lemma step_brief_total:
  "step_brief fl xs = Inr (filter (\<lambda>s. flag_is_false fl ''enable_brief'' \<longrightarrow>
        \<not> endswith s ''_brief'') xs)"
  by (simp add: step_brief_def)

lemma list_all_filter: "list_all P xs \<Longrightarrow> list_all P (filter Q xs)"
  by (simp add: list_all_iff)

lemma apply_filters_total:
  "list_all has_underscore xs \<Longrightarrow>
   apply_dispatch_flag_filters xs fl = Inr (filter (keeps fl) xs)"
  unfolding apply_dispatch_flag_filters_def keeps_def
  by (simp add: step_brief_total step_verify_total step_review_total list_all_filter conj_commute conj_left_commute)

section \<open>Dispatch flag filtering is order-independent and monotonic\<close>

text \<open>
  Claim C6. For a stage list whose stages all contain an underscore, the flag filters
  return a list (no step raises); the result is a subsequence of the input; running the
  three steps in any of the six orders gives the same result; and under flags that
  disable at least what \<open>fl\<close> disables, the result is a subsequence, hence a subset, of
  the result under \<open>fl\<close>, and equals filtering that result again: no stage comes back.
\<close>

theorem flag_filters_order_independent_monotonic:
  assumes under: "list_all has_underscore sts"
      and more: "\<forall>k \<in> set [''enable_brief'', ''enable_verify'', ''enable_review''].
                   flag_is_false fl k \<longrightarrow> flag_is_false fl' k"
  shows "\<exists>out out'.
           apply_dispatch_flag_filters sts fl = Inr out \<and> subseq out sts
         \<and> ebind (step_brief fl sts) (\<lambda>a. ebind (step_review fl a) (step_verify fl)) = Inr out
         \<and> ebind (step_verify fl sts) (\<lambda>a. ebind (step_brief fl a) (step_review fl)) = Inr out
         \<and> ebind (step_verify fl sts) (\<lambda>a. ebind (step_review fl a) (step_brief fl)) = Inr out
         \<and> ebind (step_review fl sts) (\<lambda>a. ebind (step_brief fl a) (step_verify fl)) = Inr out
         \<and> ebind (step_review fl sts) (\<lambda>a. ebind (step_verify fl a) (step_brief fl)) = Inr out
         \<and> apply_dispatch_flag_filters sts fl' = Inr out'
         \<and> subseq out' out \<and> set out' \<subseteq> set out
         \<and> apply_dispatch_flag_filters out fl' = Inr out'"
proof -
  let ?out = "filter (keeps fl) sts" and ?out' = "filter (keeps fl') sts"
  have imp: "keeps fl' s \<Longrightarrow> keeps fl s" for s
    using more by (auto simp: keeps_def)
  have eq: "?out' = filter (keeps fl') ?out"
    using imp by (auto intro: filter_cong)
  have 1: "apply_dispatch_flag_filters sts fl = Inr ?out"
    by (rule apply_filters_total [OF under])
  have 2: "apply_dispatch_flag_filters sts fl' = Inr ?out'"
    by (rule apply_filters_total [OF under])
  have 3: "apply_dispatch_flag_filters ?out fl' = Inr ?out'"
    using apply_filters_total [OF list_all_filter [OF under], of "keeps fl" fl'] eq by simp
  have orders:
    "ebind (step_brief fl sts) (\<lambda>a. ebind (step_review fl a) (step_verify fl)) = Inr ?out"
    "ebind (step_verify fl sts) (\<lambda>a. ebind (step_brief fl a) (step_review fl)) = Inr ?out"
    "ebind (step_verify fl sts) (\<lambda>a. ebind (step_review fl a) (step_brief fl)) = Inr ?out"
    "ebind (step_review fl sts) (\<lambda>a. ebind (step_brief fl a) (step_verify fl)) = Inr ?out"
    "ebind (step_review fl sts) (\<lambda>a. ebind (step_verify fl a) (step_brief fl)) = Inr ?out"
    using under
    by (auto simp: step_brief_total step_verify_total step_review_total list_all_filter
          keeps_def intro: filter_cong)
  have 4: "subseq ?out sts" by simp
  have 5: "subseq ?out' ?out" by (subst eq) (rule subseq_filter_left)
  have 6: "set ?out' \<subseteq> set ?out" using imp by auto
  show ?thesis
    using 1 2 3 4 5 6 orders by blast
qed

theorem flag_filters_order_independent_monotonic_witness:
  "list_all has_underscore ex_stages
   \<and> apply_dispatch_flag_filters ex_stages [(''enable_verify'', False)]
       = Inr [''copilot_brief'', ''codex_impl'', ''gemini_review'']
   \<and> apply_dispatch_flag_filters ex_stages [(''enable_verify'', False), (''enable_brief'', False)]
       = Inr [''codex_impl'', ''gemini_review'']
   \<and> (\<exists>out out'. subseq out ex_stages \<and> subseq out' out
        \<and> apply_dispatch_flag_filters ex_stages [(''enable_verify'', False)] = Inr out
        \<and> apply_dispatch_flag_filters ex_stages [(''enable_verify'', False), (''enable_brief'', False)] = Inr out')"
proof -
  have u: "list_all has_underscore ex_stages"
    by (simp add: ex_stages_def has_underscore_def)
  have m: "\<forall>k \<in> set [''enable_brief'', ''enable_verify'', ''enable_review''].
             flag_is_false [(''enable_verify'', False)] k
             \<longrightarrow> flag_is_false [(''enable_verify'', False), (''enable_brief'', False)] k"
    by (simp add: flag_is_false_def)
  have a: "apply_dispatch_flag_filters ex_stages [(''enable_verify'', False)]
       = Inr [''copilot_brief'', ''codex_impl'', ''gemini_review'']"
    by code_simp
  have b: "apply_dispatch_flag_filters ex_stages [(''enable_verify'', False), (''enable_brief'', False)]
       = Inr [''codex_impl'', ''gemini_review'']"
    by code_simp
  from flag_filters_order_independent_monotonic [OF u m] obtain out out' where
    "apply_dispatch_flag_filters ex_stages [(''enable_verify'', False)] = Inr out"
    "subseq out ex_stages"
    "apply_dispatch_flag_filters ex_stages [(''enable_verify'', False), (''enable_brief'', False)] = Inr out'"
    "subseq out' out"
    by blast
  with u a b show ?thesis by blast
qed

section \<open>Proofs: profile selection\<close>

lemma ebind_eq_Inl: "ebind m f = Inl e \<longleftrightarrow> (m = Inl e \<or> (\<exists>x. m = Inr x \<and> f x = Inl e))"
  by (cases m) simp_all

lemma map_of_fold_update:
  "map_of (fold (\<lambda>(k, v). AList.update k v) ov b) = map_of b ++ map_of (rev ov)"
proof (induction ov arbitrary: b)
  case Nil
  show ?case by simp
next
  case (Cons p ov)
  obtain k v where p: "p = (k, v)" by (cases p)
  have "map_of (fold (\<lambda>(k, v). AList.update k v) (p # ov) b) x
        = (map_of b ++ map_of (rev (p # ov))) x" for x
    by (simp add: p Cons.IH update_conv' map_add_def split: option.splits)
  then show ?case by (rule ext)
qed

lemma map_of_rev_distinct: "distinct (map fst xs) \<Longrightarrow> map_of (rev xs) = map_of xs"
  by (rule ext) (metis distinct_rev map_of_eqI map_of_SomeD map_of_is_SomeI rev_map set_rev
       image_set map_of_eq_None_iff option.exhaust)

lemma map_of_merge_dict:
  "distinct (keys ov) \<Longrightarrow> map_of (merge_dict b ov) = map_of b ++ map_of ov"
  by (simp add: merge_dict_def keys_def map_of_fold_update map_of_rev_distinct)

lemma unsupported_Nil: "unsupported d allowed = [] \<longleftrightarrow> set (keys d) \<subseteq> set allowed"
proof -
  have "unsupported d allowed = [] \<longleftrightarrow> set (unsupported d allowed) = {}"
    by simp
  then show ?thesis
    unfolding unsupported_def by auto
qed

lemma dict_index_eq_Inr: "dict_index d k = Inr v \<longleftrightarrow> map_of d k = Some v"
  by (simp add: dict_index_def split: option.splits)

lemma profile_data_Inr:
  "profile_data c pn p = Inr node \<longleftrightarrow>
     (\<exists>pl. map_of (pipelines c) pn = Some pl \<and> map_of (profiles pl) p = Some node)"
  by (auto simp: profile_data_def ebind_eq_Inr dict_index_eq_Inr raise_error_def
           split: option.splits)

lemma remap_profile_cases:
  assumes "remap_profile pn ro s0 = Inr s"
  shows "(pn = ''impl'' \<and> map_of ro ''impl_mode'' = Some ''safe'' \<longrightarrow> s = ''safe_impl'')
       \<and> (pn = ''impl'' \<and> map_of ro ''impl_mode'' = Some ''one_shot'' \<longrightarrow> s = ''one_shot_impl'')
       \<and> (pn = ''review'' \<and> map_of ro ''review_mode'' = Some ''codex_only'' \<longrightarrow> s = ''codex_only'')
       \<and> (pn = ''review'' \<and> map_of ro ''review_mode'' = Some ''cross'' \<longrightarrow> s = ''review_cross'')
       \<and> (pn = ''review'' \<longrightarrow> ''impl_mode'' \<notin> set (keys ro))"
  using assms
  by (auto simp: remap_profile_def Let_def raise_error_def unsupported_Nil ebind_eq_Inr
           split: if_splits)

lemma base_profile_from_intent_snd:
  "base_profile_from_intent c i = Inr (pn, p) \<Longrightarrow> p = i"
  by (auto simp: base_profile_from_intent_def ebind_eq_Inr raise_error_def
           split: option.splits)

lemma select_profile_Inr:
  assumes "select_profile c man plan_name intent_default = Inr sel"
  shows "\<exists>node0 node.
       sel_intent sel = (if plan_name \<noteq> ''auto'' then plan_name
                         else str_or (routing_intent man) intent_default)
     \<and> base_profile_from_intent c (sel_intent sel) = Inr (sel_pipeline sel, sel_intent sel)
     \<and> profile_data c (sel_pipeline sel) (str_or (routing_profile man) (sel_intent sel)) = Inr node0
     \<and> remap_profile (sel_pipeline sel) (merge_dict (options node0) (routing_options man))
          (str_or (routing_profile man) (sel_intent sel)) = Inr (sel_profile sel)
     \<and> profile_data c (sel_pipeline sel) (sel_profile sel) = Inr node
     \<and> sel_runtime sel = node
     \<and> sel_flags sel = merge_dict (flags node) (routing_flags man)
     \<and> sel_options sel = merge_dict (options node) (routing_options man)"
proof -
  define ri where "ri = (if plan_name \<noteq> ''auto'' then plan_name
                         else str_or (routing_intent man) intent_default)"
  show ?thesis
  proof (cases "base_profile_from_intent c ri")
    case (Inl e)
    with assms show ?thesis
      unfolding select_profile_def Let_def ri_def by simp
  next
    case (Inr pp)
    obtain pn pfi where pp: "pp = (pn, pfi)" by (cases pp)
    have pfi: "pfi = ri"
      using Inr pp by (auto dest: base_profile_from_intent_snd)
    have b: "base_profile_from_intent c ri = Inr (pn, ri)"
      using Inr pp pfi by simp
    from assms b show ?thesis
      unfolding select_profile_def Let_def ri_def [symmetric]
      by (auto simp: ebind_eq_Inr raise_error_def split: if_splits)
  qed
qed

lemma find_pipeline_names:
  "find_pipeline_for_profile_name c p names = Inr (Some pn) \<Longrightarrow> pn \<in> set names"
  by (induction names) (auto simp: ebind_eq_Inr split: if_splits)

lemma base_profile_from_intent_pipeline:
  assumes "base_profile_from_intent c i = Inr (pn, p)"
  shows "pn = ''impl'' \<or> pn = ''review''"
proof -
  from assms have "find_pipeline_for_profile_name c i [''impl'', ''review''] = Inr (Some pn)"
    unfolding base_profile_from_intent_def
    by (auto simp: ebind_eq_Inr raise_error_def
             simp del: find_pipeline_for_profile_name.simps split: option.splits)
  from find_pipeline_names [OF this] show ?thesis by simp
qed

lemma resolve_selected_Inr:
  assumes "resolve_selected c man sel = Inr plan"
  shows "pipeline_group plan = sel_pipeline sel \<and> intent plan = sel_intent sel
       \<and> profile_name plan = sel_profile sel \<and> plan_flags plan = sel_flags sel
       \<and> plan_options plan = sel_options sel
       \<and> apply_dispatch_flag_filters (stages (sel_runtime sel)) (sel_flags sel)
            = Inr (stage_plan plan)
       \<and> stage_plan plan \<noteq> []"
  using assms unfolding resolve_selected_def Let_def
  by (auto simp: ebind_eq_Inr raise_error_def split: if_splits)

lemma merge_dict_key:
  "distinct (keys ov) \<Longrightarrow> map_of ov k = Some v \<Longrightarrow>
     map_of (merge_dict b ov) k = Some v \<and> k \<in> set (keys (merge_dict b ov))"
proof -
  assume d: "distinct (keys ov)" and m: "map_of ov k = Some v"
  have 1: "map_of (merge_dict b ov) k = Some v"
    using m by (simp add: map_of_merge_dict [OF d])
  then have "k \<in> fst ` set (merge_dict b ov)"
    by (force dest: map_of_SomeD)
  with 1 show ?thesis by (simp add: keys_def)
qed

section \<open>The remap re-merges against the selected profile\<close>

text \<open>
  Claim C3. Whenever \<^verbatim>\<open>resolve_dispatch\<close> returns a plan: the plan's profile is what the
  mode-to-profile remap makes of the originally selected profile (\<open>safe_impl\<close> or
  \<open>one_shot_impl\<close> for \<^verbatim>\<open>impl_mode\<close> in the implementation pipeline, \<open>codex_only\<close> or
  \<open>review_cross\<close> for \<^verbatim>\<open>review_mode\<close> in the review pipeline, read from the options merged
  against the original profile); the plan's flags and options are the manifest's
  overrides merged onto the defaults of the plan's profile, so of the new profile when
  the remap changed it; and the stage list is the filtered stage list of that profile.
  A manifest with \<^verbatim>\<open>routing.pipeline.options.impl_mode: "one_shot"\<close> yields the pipeline
  \<open>impl\<close> and the profile \<open>one_shot_impl\<close>. (A mapping has each key once:
  \<open>distinct (keys ...)\<close>.)
\<close>

theorem remap_remerges_against_selected_profile:
  assumes "resolve_dispatch c man plan_name intent_default = Inr plan"
  shows "\<exists>node0 node.
      profile_data c (pipeline_group plan) (str_or (routing_profile man) (intent plan)) = Inr node0
    \<and> remap_profile (pipeline_group plan) (merge_dict (options node0) (routing_options man))
         (str_or (routing_profile man) (intent plan)) = Inr (profile_name plan)
    \<and> (pipeline_group plan = ''impl''
         \<and> map_of (merge_dict (options node0) (routing_options man)) ''impl_mode'' = Some ''safe''
         \<longrightarrow> profile_name plan = ''safe_impl'')
    \<and> (pipeline_group plan = ''impl''
         \<and> map_of (merge_dict (options node0) (routing_options man)) ''impl_mode'' = Some ''one_shot''
         \<longrightarrow> profile_name plan = ''one_shot_impl'')
    \<and> (pipeline_group plan = ''review''
         \<and> map_of (merge_dict (options node0) (routing_options man)) ''review_mode'' = Some ''codex_only''
         \<longrightarrow> profile_name plan = ''codex_only'')
    \<and> (pipeline_group plan = ''review''
         \<and> map_of (merge_dict (options node0) (routing_options man)) ''review_mode'' = Some ''cross''
         \<longrightarrow> profile_name plan = ''review_cross'')
    \<and> profile_data c (pipeline_group plan) (profile_name plan) = Inr node
    \<and> plan_flags plan = merge_dict (flags node) (routing_flags man)
    \<and> plan_options plan = merge_dict (options node) (routing_options man)
    \<and> apply_dispatch_flag_filters (stages node) (plan_flags plan) = Inr (stage_plan plan)
    \<and> (distinct (keys (routing_options man))
         \<and> map_of (routing_options man) ''impl_mode'' = Some ''one_shot''
         \<longrightarrow> pipeline_group plan = ''impl'' \<and> profile_name plan = ''one_shot_impl'')"
proof -
  from assms obtain sel where
    sel: "select_profile c man plan_name intent_default = Inr sel"
    and res: "resolve_selected c man sel = Inr plan"
    by (auto simp: resolve_dispatch_def ebind_eq_Inr)
  note r = resolve_selected_Inr [OF res]
  from select_profile_Inr [OF sel] obtain node0 node where
    b: "base_profile_from_intent c (sel_intent sel) = Inr (sel_pipeline sel, sel_intent sel)"
    and n0: "profile_data c (sel_pipeline sel) (str_or (routing_profile man) (sel_intent sel)) = Inr node0"
    and rm: "remap_profile (sel_pipeline sel) (merge_dict (options node0) (routing_options man))
          (str_or (routing_profile man) (sel_intent sel)) = Inr (sel_profile sel)"
    and n: "profile_data c (sel_pipeline sel) (sel_profile sel) = Inr node"
    and rt: "sel_runtime sel = node"
    and fl: "sel_flags sel = merge_dict (flags node) (routing_flags man)"
    and op: "sel_options sel = merge_dict (options node) (routing_options man)"
    by blast
  note cases = remap_profile_cases [OF rm]
  have pg: "sel_pipeline sel = ''impl'' \<or> sel_pipeline sel = ''review''"
    by (rule base_profile_from_intent_pipeline [OF b])
  have scen: "sel_pipeline sel = ''impl'' \<and> sel_profile sel = ''one_shot_impl''"
    if d: "distinct (keys (routing_options man))"
      and m: "map_of (routing_options man) ''impl_mode'' = Some ''one_shot''"
  proof -
    note mk = merge_dict_key [OF d m, of "options node0"]
    from mk cases pg have "sel_pipeline sel = ''impl''" by blast
    with mk cases show ?thesis by blast
  qed
  show ?thesis
    apply (rule exI [of _ node0], rule exI [of _ node])
    using r n0 rm n rt fl op cases scen by simp
qed

theorem remap_remerges_against_selected_profile_witness:
  "validate_runtime_config_dict ex_raw_cfg ''config'' = Inr ex_cfg
   \<and> validate_manifest_extensions ex_cfg ex_raw_man_one_shot ''manifest'' = Inr ex_man_one_shot
   \<and> distinct (keys (routing_options ex_man_one_shot))
   \<and> map_of (routing_options ex_man_one_shot) ''impl_mode'' = Some ''one_shot''
   \<and> (\<exists>plan. resolve_dispatch ex_cfg ex_man_one_shot ''auto'' ''safe_impl'' = Inr plan
        \<and> pipeline_group plan = ''impl'' \<and> profile_name plan = ''one_shot_impl''
        \<and> plan_flags plan = [(''enable_verify'', False), (''enable_brief'', False)]
        \<and> plan_options plan = [(''timeout_mode'', ''wait_done''), (''impl_mode'', ''one_shot'')]
        \<and> stage_plan plan = [''codex_runbook'', ''codex_review''])"
proof -
  have v: "validate_runtime_config_dict ex_raw_cfg ''config'' = Inr ex_cfg"
    by code_simp
  have m: "validate_manifest_extensions ex_cfg ex_raw_man_one_shot ''manifest'' = Inr ex_man_one_shot"
    by code_simp
  have d: "distinct (keys (routing_options ex_man_one_shot))"
       "map_of (routing_options ex_man_one_shot) ''impl_mode'' = Some ''one_shot''"
    by (simp_all add: ex_man_one_shot_def keys_def)
  define plan where "plan = ex_plan_one_shot"
  have p: "resolve_dispatch ex_cfg ex_man_one_shot ''auto'' ''safe_impl'' = Inr plan"
    unfolding plan_def by code_simp
  have q: "plan_flags plan = [(''enable_verify'', False), (''enable_brief'', False)]"
           "plan_options plan = [(''timeout_mode'', ''wait_done''), (''impl_mode'', ''one_shot'')]"
           "stage_plan plan = [''codex_runbook'', ''codex_review'']"
    by (simp_all add: plan_def ex_plan_one_shot_def)
  from remap_remerges_against_selected_profile [OF p] d have "pipeline_group plan = ''impl'' \<and> profile_name plan = ''one_shot_impl''"
    by blast
  with v m d p q show ?thesis by blast
qed

section \<open>An empty stage plan raises\<close>

text \<open>
  Claim C5. Once the profile is selected, if the flag filters leave its stage list empty,
  \<^verbatim>\<open>resolve_dispatch\<close> raises the validation error "resolved dispatch stage plan is empty"
  (so no plan is returned); this is the case when the selected profile's only stage is
  \<open>codex_review\<close> and the manifest sets \<^verbatim>\<open>routing.pipeline.flags.enable_review: false\<close>.
\<close>

theorem empty_stage_plan_raises:
  assumes "select_profile c man plan_name intent_default = Inr sel"
  shows "profile_data c (sel_pipeline sel) (sel_profile sel) = Inr (sel_runtime sel)
       \<and> (apply_dispatch_flag_filters (stages (sel_runtime sel)) (sel_flags sel) = Inr []
            \<longrightarrow> resolve_dispatch c man plan_name intent_default
                  = Inl (ValidationError ''resolved dispatch stage plan is empty''))
       \<and> (stages (sel_runtime sel) = [''codex_review'']
            \<and> distinct (keys (routing_flags man))
            \<and> map_of (routing_flags man) ''enable_review'' = Some False
            \<longrightarrow> resolve_dispatch c man plan_name intent_default
                  = Inl (ValidationError ''resolved dispatch stage plan is empty''))"
proof -
  have empty: "resolve_dispatch c man plan_name intent_default
                  = Inl (ValidationError ''resolved dispatch stage plan is empty'')"
    if "apply_dispatch_flag_filters (stages (sel_runtime sel)) (sel_flags sel) = Inr []"
    using assms that
    by (simp add: resolve_dispatch_def resolve_selected_def raise_error_def)
  from select_profile_Inr [OF assms] have
    pd: "profile_data c (sel_pipeline sel) (sel_profile sel) = Inr (sel_runtime sel)"
    and fl: "sel_flags sel = merge_dict (flags (sel_runtime sel)) (routing_flags man)"
    by auto
  have scen: "apply_dispatch_flag_filters (stages (sel_runtime sel)) (sel_flags sel) = Inr []"
    if s: "stages (sel_runtime sel) = [''codex_review'']"
      and d: "distinct (keys (routing_flags man))"
      and m: "map_of (routing_flags man) ''enable_review'' = Some False"
  proof -
    have f: "flag_is_false (sel_flags sel) ''enable_review''"
      using merge_dict_key [OF d m] by (simp add: fl flag_is_false_def)
    have u: "list_all has_underscore [''codex_review'']"
      by (simp add: has_underscore_def)
    have "\<not> keeps (sel_flags sel) ''codex_review''"
      using f by (simp add: keeps_def)
    then show ?thesis
      by (simp add: s apply_filters_total [OF u])
  qed
  from pd empty scen show ?thesis by blast
qed

theorem empty_stage_plan_raises_witness:
  "validate_runtime_config_dict ex_raw_cfg ''config'' = Inr ex_cfg
   \<and> validate_manifest_extensions ex_cfg ex_raw_man_noreview ''manifest'' = Inr ex_man_noreview
   \<and> select_profile ex_cfg ex_man_noreview ''codex_only'' ''safe_impl'' = Inr ex_sel_noreview
   \<and> stages (sel_runtime ex_sel_noreview) = [''codex_review'']
   \<and> distinct (keys (routing_flags ex_man_noreview))
   \<and> map_of (routing_flags ex_man_noreview) ''enable_review'' = Some False
   \<and> apply_dispatch_flag_filters (stages (sel_runtime ex_sel_noreview)) (sel_flags ex_sel_noreview) = Inr []
   \<and> resolve_dispatch ex_cfg ex_man_noreview ''codex_only'' ''safe_impl''
        = Inl (ValidationError ''resolved dispatch stage plan is empty'')"
proof -
  have v: "validate_runtime_config_dict ex_raw_cfg ''config'' = Inr ex_cfg"
    by code_simp
  have m: "validate_manifest_extensions ex_cfg ex_raw_man_noreview ''manifest'' = Inr ex_man_noreview"
    by code_simp
  have s: "select_profile ex_cfg ex_man_noreview ''codex_only'' ''safe_impl'' = Inr ex_sel_noreview"
    by code_simp
  have h: "stages (sel_runtime ex_sel_noreview) = [''codex_review'']"
       "distinct (keys (routing_flags ex_man_noreview))"
       "map_of (routing_flags ex_man_noreview) ''enable_review'' = Some False"
    by (simp_all add: ex_sel_noreview_def ex_profile_def ex_man_noreview_def keys_def)
  have e: "apply_dispatch_flag_filters (stages (sel_runtime ex_sel_noreview)) (sel_flags ex_sel_noreview) = Inr []"
    by code_simp
  from empty_stage_plan_raises [OF s] h have "resolve_dispatch ex_cfg ex_man_noreview ''codex_only'' ''safe_impl''
        = Inl (ValidationError ''resolved dispatch stage plan is empty'')"
    by blast
  with v m s h e show ?thesis by blast
qed

section \<open>Proofs: the stage loop and the validated inputs\<close>

lemma emap_Inr_set:
  "emap f xs = Inr ys \<Longrightarrow> y \<in> set ys \<Longrightarrow> \<exists>x \<in> set xs. f x = Inr y"
  by (induction xs arbitrary: ys) (auto simp: ebind_eq_Inr)

lemma emap_Inr_all:
  "emap f xs = Inr ys \<Longrightarrow> x \<in> set xs \<Longrightarrow> \<exists>y \<in> set ys. f x = Inr y"
  by (induction xs arbitrary: ys) (auto simp: ebind_eq_Inr)

lemma emap_Inr_length: "emap f xs = Inr ys \<Longrightarrow> length ys = length xs"
  by (induction xs arbitrary: ys) (auto simp: ebind_eq_Inr)

lemma emap_idx_Inr_set:
  "emap_idx f i xs = Inr ys \<Longrightarrow> y \<in> set ys \<Longrightarrow> \<exists>j. \<exists>x \<in> set xs. f j x = Inr y"
  by (induction xs arbitrary: ys i) (auto simp: ebind_eq_Inr, blast+)

lemma emap_idx_Inr_all:
  "emap_idx f i xs = Inr ys \<Longrightarrow> x \<in> set xs \<Longrightarrow> \<exists>j. \<exists>y \<in> set ys. f j x = Inr y"
  by (induction xs arbitrary: ys i) (auto simp: ebind_eq_Inr, blast+)

lemma resolve_stage_Inr:
  assumes "resolve_stage cx s acc = Inr acc'"
  shows "\<exists>m t. stage_model_of cx s m \<and> stage_timeout_mode_of cx s t
         \<and> sm_models acc' = AList.update s m (sm_models acc)
         \<and> sm_timeout_modes acc' = AList.update s t (sm_timeout_modes acc)"
  using assms
  unfolding resolve_stage_def Let_def stage_model_of_def stage_timeout_mode_of_def
  by (auto simp: ebind_eq_Inr raise_error_def split: if_splits)

lemma resolve_stage_ok:
  assumes "resolve_stage cx s acc = Inr acc'" and "stage_maps_ok cx acc"
  shows "stage_maps_ok cx acc' \<and> s \<in> dom (map_of (sm_models acc'))
         \<and> dom (map_of (sm_models acc)) \<subseteq> dom (map_of (sm_models acc'))"
proof -
  from resolve_stage_Inr [OF assms(1)] obtain m t where
    m: "stage_model_of cx s m" and t: "stage_timeout_mode_of cx s t"
    and a: "sm_models acc' = AList.update s m (sm_models acc)"
    and b: "sm_timeout_modes acc' = AList.update s t (sm_timeout_modes acc)"
    by blast
  show ?thesis
    using assms(2) m t
    by (auto simp: stage_maps_ok_def a b update_conv' split: if_splits)
qed

lemma stage_loop_ok:
  "stage_loop cx plan acc = Inr acc' \<Longrightarrow> stage_maps_ok cx acc \<Longrightarrow>
     stage_maps_ok cx acc' \<and> set plan \<subseteq> dom (map_of (sm_models acc'))
     \<and> dom (map_of (sm_models acc)) \<subseteq> dom (map_of (sm_models acc'))"
proof (induction plan arbitrary: acc)
  case Nil
  then show ?case by simp
next
  case (Cons s plan)
  from Cons.prems(1) obtain acc1 where
    1: "resolve_stage cx s acc = Inr acc1" and 2: "stage_loop cx plan acc1 = Inr acc'"
    by (auto simp: ebind_eq_Inr)
  note a = resolve_stage_ok [OF 1 Cons.prems(2)]
  note b = Cons.IH [OF 2 conjunct1 [OF a]]
  from a b have "s \<in> dom (map_of (sm_models acc'))" by blast
  with a b show ?case by simp blast
qed

lemma stage_maps_ok_empty:
  "stage_maps_ok cx \<lparr>sm_models = [], sm_efforts = [], sm_timeout_ms = [], sm_timeout_modes = []\<rparr>"
  by (simp add: stage_maps_ok_def)

lemma resolve_selected_stages:
  assumes "resolve_selected c man sel = Inr plan"
  shows "\<exists>cpe wd us.
       resolve_tool_models c man = Inr (tool_models plan)
     \<and> resolve_purpose_models c = Inr (plan_purpose_models plan)
     \<and> check_profile_stage_models c (sel_profile sel) (stage_models (sel_runtime sel)) = Inr us
     \<and> (\<forall>s \<in> set (stage_plan plan). \<exists>m t.
           map_of (plan_stage_models plan) s = Some m
         \<and> stage_model_of (plan_ctx man sel plan cpe wd) s m
         \<and> map_of (stage_timeout_modes plan) s = Some t
         \<and> stage_timeout_mode_of (plan_ctx man sel plan cpe wd) s t)"
proof -
  from assms obtain tm pm cpe wd us acc where
    tm: "resolve_tool_models c man = Inr tm"
    and pm: "resolve_purpose_models c = Inr pm"
    and us: "check_profile_stage_models c (sel_profile sel) (stage_models (sel_runtime sel)) = Inr us"
    and loop: "stage_loop
        \<lparr>cx_pipeline = sel_pipeline sel,
         cx_options = sel_options sel,
         cx_routing_model_overrides = routing_model man,
         cx_profile_stage_models = stage_models (sel_runtime sel),
         cx_profile_stage_efforts = stage_efforts (sel_runtime sel),
         cx_purpose_models = pm,
         cx_tool_models = tm,
         cx_codex_purpose_efforts = cpe,
         cx_wrapper_defaults = wd,
         cx_timeout_mode_override = map_of (sel_options sel) ''timeout_mode''\<rparr>
        (stage_plan plan)
        \<lparr>sm_models = [], sm_efforts = [], sm_timeout_ms = [], sm_timeout_modes = []\<rparr> = Inr acc"
    and p: "tool_models plan = tm" "plan_purpose_models plan = pm"
      "plan_stage_models plan = sm_models acc" "stage_timeout_modes plan = sm_timeout_modes acc"
    unfolding resolve_selected_def Let_def
    by (auto simp: ebind_eq_Inr raise_error_def split: if_splits)
  have cx: "plan_ctx man sel plan cpe wd = \<lparr>cx_pipeline = sel_pipeline sel,
         cx_options = sel_options sel,
         cx_routing_model_overrides = routing_model man,
         cx_profile_stage_models = stage_models (sel_runtime sel),
         cx_profile_stage_efforts = stage_efforts (sel_runtime sel),
         cx_purpose_models = pm,
         cx_tool_models = tm,
         cx_codex_purpose_efforts = cpe,
         cx_wrapper_defaults = wd,
         cx_timeout_mode_override = map_of (sel_options sel) ''timeout_mode''\<rparr>"
    by (simp add: plan_ctx_def p)
  note ok = stage_loop_ok [OF loop [folded cx] stage_maps_ok_empty]
  have "\<exists>m t. map_of (plan_stage_models plan) s = Some m
         \<and> stage_model_of (plan_ctx man sel plan cpe wd) s m
         \<and> map_of (stage_timeout_modes plan) s = Some t
         \<and> stage_timeout_mode_of (plan_ctx man sel plan cpe wd) s t"
    if "s \<in> set (stage_plan plan)" for s
  proof -
    from ok that have d: "s \<in> dom (map_of (sm_models acc))" by blast
    then obtain m where m: "map_of (sm_models acc) s = Some m" by blast
    from ok d have "s \<in> dom (map_of (sm_timeout_modes acc))"
      by (simp add: stage_maps_ok_def)
    then obtain t where t: "map_of (sm_timeout_modes acc) s = Some t" by blast
    from ok m t show ?thesis
      by (auto simp: stage_maps_ok_def p)
  qed
  with tm pm us p show ?thesis by blast
qed

lemma as_nonempty_str_Some: "as_nonempty_str v = Some s \<Longrightarrow> v = YStr s"
  by (auto simp: as_nonempty_str_def split: yaml.splits if_splits)

lemma emap_map_of:
  assumes "emap f xs = Inr ys"
      and "\<And>k v y. f (k, v) = Inr y \<Longrightarrow> fst y = k \<and> v = YStr (snd y)"
      and "map_of xs k = Some (YStr m)"
  shows "map_of ys k = Some m"
  using assms(1,3)
proof (induction xs arbitrary: ys)
  case Nil
  then show ?case by simp
next
  case (Cons x xs)
  obtain k' v' where x: "x = (k', v')" by (cases x)
  from Cons.prems(1) obtain y ys' where
    y: "f (k', v') = Inr y" and ys': "emap f xs = Inr ys'" and ys: "ys = y # ys'"
    by (auto simp: x ebind_eq_Inr)
  from assms(2) [OF y] have fy: "fst y = k'" "v' = YStr (snd y)" by simp_all
  show ?case
  proof (cases "k = k'")
    case True
    with Cons.prems(2) x fy have "snd y = m" by simp
    with True fy ys show ?thesis by (cases y) simp
  next
    case False
    with Cons.prems(2) x have "map_of xs k = Some (YStr m)" by simp
    from Cons.IH [OF ys' this] False fy ys show ?thesis by (cases y) simp
  qed
qed

lemma validate_routing_model_entries:
  assumes "validate_routing_model c mp v = Inr mm"
  shows "\<forall>(t, m) \<in> set mm. \<exists>sv. map_of (servants c) t = Some sv \<and> m \<in> set (allowed_models sv)"
proof (cases "truthy (py_or v (YMap []))")
  case False
  with assms show ?thesis by (simp add: validate_routing_model_def Let_def)
next
  case True
  with assms obtain raw_mm where
    e: "emap (\<lambda>(servant, mv).
           case as_nonempty_str mv of
             None \<Rightarrow> die (mp @ ''.routing.model.'' @ servant) ''must be a non-empty string''
           | Some m \<Rightarrow>
               ebind (dict_index (servants c) servant) (\<lambda>sv.
               if m \<notin> set (allowed_models sv) then
                 die (mp @ ''.routing.model.'' @ servant)
                   (''model '' @ quoted m @ '' is not in allowed_models'')
               else Inr (servant, m))) raw_mm = Inr mm"
    by (auto simp: validate_routing_model_def Let_def ebind_eq_Inr)
  show ?thesis
  proof clarify
    fix t m assume "(t, m) \<in> set mm"
    from emap_Inr_set [OF e this]
    show "\<exists>sv. map_of (servants c) t = Some sv \<and> m \<in> set (allowed_models sv)"
      by (auto simp: ebind_eq_Inr die_def dict_index_eq_Inr split: option.splits if_splits)
  qed
qed

lemma validate_routing_model_map_of:
  assumes "validate_routing_model c mp v = Inr mm"
      and "py_or v (YMap []) = YMap raw_mm"
      and "map_of raw_mm T = Some (YStr M)"
  shows "map_of mm T = Some M"
proof -
  from assms(3) have ne: "raw_mm \<noteq> []" by auto
  with assms(1,2) have
    e: "emap (\<lambda>(servant, mv).
           case as_nonempty_str mv of
             None \<Rightarrow> die (mp @ ''.routing.model.'' @ servant) ''must be a non-empty string''
           | Some m \<Rightarrow>
               ebind (dict_index (servants c) servant) (\<lambda>sv.
               if m \<notin> set (allowed_models sv) then
                 die (mp @ ''.routing.model.'' @ servant)
                   (''model '' @ quoted m @ '' is not in allowed_models'')
               else Inr (servant, m))) raw_mm = Inr mm"
    by (auto simp: validate_routing_model_def Let_def ebind_eq_Inr expect_dict_def)
  show ?thesis
    by (rule emap_map_of [OF e _ assms(3)])
       (auto simp: ebind_eq_Inr die_def split: option.splits if_splits
             dest: as_nonempty_str_Some)
qed

lemma validate_manifest_Inr:
  assumes "validate_manifest_extensions c mv mp = Inr man"
  shows "man = empty_manifest \<or>
     (\<exists>m r. mv = YMap m \<and> py_or (dict_get m ''routing'') (YMap []) = YMap r
        \<and> validate_routing_model c mp (dict_get r ''model'') = Inr (routing_model man))"
  using assms unfolding validate_manifest_extensions_def
  by (auto simp: ebind_eq_Inr die_def split: if_splits yaml.splits prod.splits)

lemma validate_manifest_routing_model:
  assumes "validate_manifest_extensions c mv mp = Inr man"
  shows "\<forall>(t, m) \<in> set (routing_model man).
           \<exists>sv. map_of (servants c) t = Some sv \<and> m \<in> set (allowed_models sv)"
proof -
  from validate_manifest_Inr [OF assms] show ?thesis
  proof
    assume "man = empty_manifest"
    then show ?thesis by (simp add: empty_manifest_def)
  next
    assume "\<exists>m r. mv = YMap m \<and> py_or (dict_get m ''routing'') (YMap []) = YMap r
        \<and> validate_routing_model c mp (dict_get r ''model'') = Inr (routing_model man)"
    then obtain r where
      "validate_routing_model c mp (dict_get r ''model'') = Inr (routing_model man)"
      by blast
    then show ?thesis by (rule validate_routing_model_entries)
  qed
qed

lemma truthy_YMap_or: "py_or v (YMap []) = YMap mm \<Longrightarrow> mm \<noteq> [] \<Longrightarrow> v = YMap mm"
  by (auto simp: py_or_def split: if_splits)

lemma validate_manifest_model_map_of:
  assumes v: "validate_manifest_extensions c mv mp = Inr man"
      and a: "map_of (manifest_routing_model mv) T = Some (YStr M)"
  shows "map_of (routing_model man) T = Some M"
proof -
  from a obtain m r mm where mv: "mv = YMap m"
    and r: "py_or (dict_get m ''routing'') (YMap []) = YMap r"
    and mm: "py_or (dict_get r ''model'') (YMap []) = YMap mm"
    and mo: "map_of mm T = Some (YStr M)"
    by (auto simp: manifest_routing_model_def split: yaml.splits)
  from mo have mmne: "mm \<noteq> []" by auto
  from mm mmne have "dict_get r ''model'' = YMap mm" by (rule truthy_YMap_or)
  then have "r \<noteq> []" by (auto simp: dict_get_def)
  with r have "dict_get m ''routing'' = YMap r" by (rule truthy_YMap_or)
  then have "m \<noteq> []" by (auto simp: dict_get_def)
  from v mv this r obtain
    vm: "validate_routing_model c mp (dict_get r ''model'') = Inr (routing_model man)"
    unfolding validate_manifest_extensions_def
    by (auto simp: ebind_eq_Inr die_def split: if_splits yaml.splits prod.splits)
  from validate_routing_model_map_of [OF vm mm mo] show ?thesis .
qed

section \<open>The task-level model override wins\<close>

text \<open>
  Claim C2. When the manifest accepted by manifest-extension validation has
  \<^verbatim>\<open>routing.model\<close> map servant \<open>T\<close> to model \<open>M\<close>, every stage of a returned plan whose
  servant is \<open>T\<close> is assigned \<open>M\<close>, whatever the profile's per-stage models, the purpose
  tables and the servant defaults hold.
\<close>

theorem manifest_model_override_wins:
  assumes v: "validate_manifest_extensions c mv manifest_path = Inr man"
      and a: "map_of (manifest_routing_model mv) T = Some (YStr M)"
      and r: "resolve_dispatch c man plan_name intent_default = Inr plan"
      and s: "s \<in> set (stage_plan plan)"
      and t: "stage_tool s = Inr T"
  shows "map_of (plan_stage_models plan) s = Some M"
proof -
  from r obtain sel where res: "resolve_selected c man sel = Inr plan"
    by (auto simp: resolve_dispatch_def ebind_eq_Inr)
  from resolve_selected_stages [OF res] s obtain cpe wd m where
    m: "map_of (plan_stage_models plan) s = Some m"
    and sm: "stage_model_of (plan_ctx man sel plan cpe wd) s m"
    by blast
  have "map_of (routing_model man) T = Some M"
    by (rule validate_manifest_model_map_of [OF v a])
  with sm t have "m = M"
    by (simp add: stage_model_of_def resolve_stage_model_def plan_ctx_def)
  with m show ?thesis by simp
qed

theorem manifest_model_override_wins_witness:
  "validate_runtime_config_dict ex_raw_cfg ''config'' = Inr ex_cfg
   \<and> validate_manifest_extensions ex_cfg ex_raw_man_model ''manifest'' = Inr ex_man_model
   \<and> map_of (manifest_routing_model ex_raw_man_model) ''codex'' = Some (YStr ''gpt-d'')
   \<and> resolve_dispatch ex_cfg ex_man_model ''auto'' ''one_shot_impl'' = Inr ex_plan_model
   \<and> ''codex_review'' \<in> set (stage_plan ex_plan_model)
   \<and> stage_tool ''codex_review'' = Inr ''codex''
   \<and> map_of (stage_models (snd (hd (profiles ex_impl_pipeline)))) ''codex_review'' = Some ''gpt-b''
   \<and> map_of (purpose_models (snd (hd (servants ex_cfg)))) ''review'' = Some ''gpt-c''
   \<and> default_model (snd (hd (servants ex_cfg))) = ''gpt-a''
   \<and> map_of (plan_stage_models ex_plan_model) ''codex_review'' = Some ''gpt-d''"
proof -
  have vc: "validate_runtime_config_dict ex_raw_cfg ''config'' = Inr ex_cfg"
    by code_simp
  have vm: "validate_manifest_extensions ex_cfg ex_raw_man_model ''manifest'' = Inr ex_man_model"
    by code_simp
  have a: "map_of (manifest_routing_model ex_raw_man_model) ''codex'' = Some (YStr ''gpt-d'')"
    by code_simp
  have r: "resolve_dispatch ex_cfg ex_man_model ''auto'' ''one_shot_impl'' = Inr ex_plan_model"
    by code_simp
  have s: "''codex_review'' \<in> set (stage_plan ex_plan_model)"
    by (simp add: ex_plan_model_def)
  have t: "stage_tool ''codex_review'' = Inr ''codex''"
    by code_simp
  have o: "map_of (stage_models (snd (hd (profiles ex_impl_pipeline)))) ''codex_review'' = Some ''gpt-b''"
    "map_of (purpose_models (snd (hd (servants ex_cfg)))) ''review'' = Some ''gpt-c''"
    "default_model (snd (hd (servants ex_cfg))) = ''gpt-a''"
    by (simp_all add: ex_impl_pipeline_def ex_cfg_def)
  from manifest_model_override_wins [OF vm a r s t] vc vm a r s t o show ?thesis
    by blast
qed

lemma validate_servant_default:
  "validate_servant p node t = Inr sv \<Longrightarrow> default_model sv \<in> set (allowed_models sv)"
  unfolding validate_servant_def Let_def
  by (auto simp: ebind_eq_Inr die_def split: option.splits if_splits)

lemma validated_servants:
  assumes "validate_runtime_config_dict raw p = Inr c"
      and "map_of (servants c) t = Some sv"
  shows "default_model sv \<in> set (allowed_models sv)"
proof -
  from assms(1) obtain node where
    e: "emap (\<lambda>servant. ebind (validate_servant p node servant) (\<lambda>sv. Inr (servant, sv)))
          SERVANT_NAMES = Inr (servants c)"
    unfolding validate_runtime_config_dict_def
    by (auto simp: ebind_eq_Inr die_def split: if_splits)
  from assms(2) have "(t, sv) \<in> set (servants c)" by (rule map_of_SomeD)
  from emap_Inr_set [OF e this] show ?thesis
    by (auto simp: ebind_eq_Inr dest: validate_servant_default)
qed

lemma check_profile_stage_models_ok:
  assumes "check_profile_stage_models c p psm = Inr us" and "map_of psm s = Some m"
  shows "\<exists>tool sv. stage_tool s = Inr tool \<and> map_of (servants c) tool = Some sv
           \<and> m \<in> set (allowed_models sv)"
proof -
  from assms(2) have "(s, m) \<in> set psm" by (rule map_of_SomeD)
  from emap_Inr_all [OF assms(1) [unfolded check_profile_stage_models_def] this]
  show ?thesis
    by (auto simp: ebind_eq_Inr raise_error_def dict_index_eq_Inr split: if_splits)
qed

lemma resolve_purpose_models_ok:
  assumes "resolve_purpose_models c = Inr pm" and "map_of pm tool = Some tbl"
      and "map_of tbl purpose = Some m"
  shows "\<exists>sv. map_of (servants c) tool = Some sv \<and> m \<in> set (allowed_models sv)"
proof -
  from assms(2) have "(tool, tbl) \<in> set pm" by (rule map_of_SomeD)
  from emap_Inr_set [OF assms(1) [unfolded resolve_purpose_models_def] this]
  obtain sv us where sv: "map_of (servants c) tool = Some sv"
    and tbl: "tbl = purpose_models sv"
    and e: "emap (\<lambda>(purpose_name, m).
                 if purpose_name \<notin> set PURPOSE_NAMES then
                   raise_error (''servants.'' @ tool @ ''.purpose_models has unknown key ''
                                @ quoted purpose_name)
                 else if m \<notin> set (allowed_models sv) then
                   raise_error (''servants.'' @ tool @ ''.purpose_models.'' @ purpose_name
                                @ ''='' @ quoted m @ '' is not allowed'')
                 else Inr ()) (purpose_models sv) = Inr us"
    by (auto simp: ebind_eq_Inr dict_index_eq_Inr)
  from assms(3) tbl have "(purpose, m) \<in> set (purpose_models sv)"
    by (auto dest: map_of_SomeD)
  from emap_Inr_all [OF e this] have "m \<in> set (allowed_models sv)"
    by (auto simp: raise_error_def split: if_splits)
  with sv show ?thesis by blast
qed

lemma resolve_tool_models_ok:
  assumes "resolve_tool_models c man = Inr tm" and "map_of tm tool = Some m"
  shows "(tool, m) \<in> set (routing_model man)
       \<or> (\<exists>sv. map_of (servants c) tool = Some sv \<and> m = default_model sv)"
proof -
  from assms(1) obtain base where
    e: "emap (\<lambda>tool. ebind (dict_index (servants c) tool) (\<lambda>sv.
                   Inr (tool, default_model sv))) SERVANT_NAMES = Inr base"
    and tm: "tm = merge_dict base (routing_model man)"
    by (auto simp: resolve_tool_models_def ebind_eq_Inr)
  from assms(2) have
    "(map_of base ++ map_of (rev (routing_model man))) tool = Some m"
    by (simp add: tm merge_dict_def map_of_fold_update)
  then consider "map_of (rev (routing_model man)) tool = Some m" | "map_of base tool = Some m"
    by (auto simp: map_add_def split: option.splits)
  then show ?thesis
  proof cases
    case 1
    then have "(tool, m) \<in> set (routing_model man)"
      by (auto dest: map_of_SomeD)
    then show ?thesis ..
  next
    case 2
    then have "(tool, m) \<in> set base" by (rule map_of_SomeD)
    from emap_Inr_set [OF e this] show ?thesis
      by (auto simp: ebind_eq_Inr dict_index_eq_Inr)
  qed
qed

lemma check_member_Inr: "check_member v vals msg = Inr t \<Longrightarrow> t \<in> set vals"
  by (auto simp: check_member_def raise_error_def split: yaml.splits if_splits)

section \<open>Every stage's model is allowed and its timeout mode is known\<close>

text \<open>
  Claim C1. For a validated configuration and a manifest accepted by manifest-extension
  validation, every stage of a plan \<^verbatim>\<open>resolve_dispatch\<close> returns has a servant, is
  assigned a model of that servant's allowed models, and is assigned a timeout mode that
  is \<open>enforce\<close> or \<open>wait_done\<close>.
\<close>

theorem stage_models_allowed_timeout_modes_known:
  assumes vc: "validate_runtime_config_dict raw cfg_path = Inr c"
      and vm: "validate_manifest_extensions c mv manifest_path = Inr man"
      and r: "resolve_dispatch c man plan_name intent_default = Inr plan"
      and s: "s \<in> set (stage_plan plan)"
  shows "\<exists>tool sv m t.
           stage_tool s = Inr tool \<and> map_of (servants c) tool = Some sv
         \<and> map_of (plan_stage_models plan) s = Some m \<and> m \<in> set (allowed_models sv)
         \<and> map_of (stage_timeout_modes plan) s = Some t \<and> t \<in> set [''enforce'', ''wait_done'']"
proof -
  from r obtain sel where res: "resolve_selected c man sel = Inr plan"
    by (auto simp: resolve_dispatch_def ebind_eq_Inr)
  from resolve_selected_stages [OF res] s obtain cpe wd us m t where
    tm: "resolve_tool_models c man = Inr (tool_models plan)"
    and pm: "resolve_purpose_models c = Inr (plan_purpose_models plan)"
    and us: "check_profile_stage_models c (sel_profile sel) (stage_models (sel_runtime sel)) = Inr us"
    and m: "map_of (plan_stage_models plan) s = Some m"
    and sm: "stage_model_of (plan_ctx man sel plan cpe wd) s m"
    and t: "map_of (stage_timeout_modes plan) s = Some t"
    and st: "stage_timeout_mode_of (plan_ctx man sel plan cpe wd) s t"
    by blast
  let ?cx = "plan_ctx man sel plan cpe wd"
  from sm obtain tool where tool: "stage_tool s = Inr tool"
    and rm: "resolve_stage_model ?cx s tool
               (dispatch_stage_purpose s (cx_pipeline ?cx) (cx_options ?cx)) = Inr m"
    by (auto simp: stage_model_of_def)
  note man_ok = validate_manifest_routing_model [OF vm]
  have "\<exists>sv. map_of (servants c) tool = Some sv \<and> m \<in> set (allowed_models sv)"
  proof (cases "map_of (routing_model man) tool")
    case (Some m')
    with rm have "m' = m" by (simp add: resolve_stage_model_def plan_ctx_def)
    with Some have "(tool, m) \<in> set (routing_model man)" by (auto dest: map_of_SomeD)
    with man_ok show ?thesis by blast
  next
    case None
    show ?thesis
    proof (cases "map_of (stage_models (sel_runtime sel)) s")
      case (Some m')
      with None rm have "m' = m" by (simp add: resolve_stage_model_def plan_ctx_def)
      with Some check_profile_stage_models_ok [OF us, of s m] tool show ?thesis by auto
    next
      case None2: None
      let ?p = "dispatch_stage_purpose s (cx_pipeline ?cx) (cx_options ?cx)"
      show ?thesis
      proof (cases "map_of (get_or_empty (plan_purpose_models plan) tool) ?p")
        case (Some m')
        with None None2 rm have mm: "m' = m"
          by (simp add: resolve_stage_model_def plan_ctx_def)
        from Some obtain tbl where "map_of (plan_purpose_models plan) tool = Some tbl"
          and "map_of tbl ?p = Some m'"
          by (auto simp: get_or_empty_def split: option.splits)
        from resolve_purpose_models_ok [OF pm this] mm show ?thesis by simp
      next
        case None3: None
        with None None2 rm have "map_of (tool_models plan) tool = Some m"
          by (simp add: resolve_stage_model_def plan_ctx_def dict_index_eq_Inr)
        from resolve_tool_models_ok [OF tm this] show ?thesis
        proof
          assume "(tool, m) \<in> set (routing_model man)"
          with man_ok show ?thesis by blast
        next
          assume "\<exists>sv. map_of (servants c) tool = Some sv \<and> m = default_model sv"
          then obtain sv where sv: "map_of (servants c) tool = Some sv" "m = default_model sv"
            by blast
          from validated_servants [OF vc sv(1)] sv show ?thesis by simp
        qed
      qed
    qed
  qed
  moreover from st have "t \<in> set TIMEOUT_MODE_VALUES"
    by (auto simp: stage_timeout_mode_of_def resolve_stage_timeout_mode_def Let_def
             dest: check_member_Inr)
  then have "t \<in> set [''enforce'', ''wait_done'']"
    by (simp add: TIMEOUT_MODE_VALUES_def)
  ultimately show ?thesis using tool m t by blast
qed

theorem stage_models_allowed_timeout_modes_known_witness:
  "validate_runtime_config_dict ex_raw_cfg ''config'' = Inr ex_cfg
   \<and> validate_manifest_extensions ex_cfg ex_raw_man_model ''manifest'' = Inr ex_man_model
   \<and> resolve_dispatch ex_cfg ex_man_model ''auto'' ''one_shot_impl'' = Inr ex_plan_model
   \<and> ''copilot_brief'' \<in> set (stage_plan ex_plan_model)
   \<and> (\<exists>tool sv m t.
         stage_tool ''copilot_brief'' = Inr tool \<and> map_of (servants ex_cfg) tool = Some sv
       \<and> map_of (plan_stage_models ex_plan_model) ''copilot_brief'' = Some m
       \<and> m \<in> set (allowed_models sv)
       \<and> map_of (stage_timeout_modes ex_plan_model) ''copilot_brief'' = Some t
       \<and> t \<in> set [''enforce'', ''wait_done''])"
proof -
  have vc: "validate_runtime_config_dict ex_raw_cfg ''config'' = Inr ex_cfg"
    by code_simp
  have vm: "validate_manifest_extensions ex_cfg ex_raw_man_model ''manifest'' = Inr ex_man_model"
    by code_simp
  have r: "resolve_dispatch ex_cfg ex_man_model ''auto'' ''one_shot_impl'' = Inr ex_plan_model"
    by code_simp
  have s: "''copilot_brief'' \<in> set (stage_plan ex_plan_model)"
    by (simp add: ex_plan_model_def)
  from stage_models_allowed_timeout_modes_known [OF vc vm r s] vc vm r s show ?thesis
    by blast
qed

lemma find_pipeline_impl:
  assumes "map_of (pipelines c) ''impl'' = Some pl" and "n \<in> set (keys (profiles pl))"
  shows "find_pipeline_for_profile_name c n [''impl'', ''review''] = Inr (Some ''impl'')"
  using assms by (simp add: dict_index_def)

section \<open>A profile name defined in both stage pipelines resolves to \<open>impl\<close>\<close>

text \<open>
  Claim C10. When a name is a profile of the \<open>impl\<close> pipeline and of the \<open>review\<close>
  pipeline, the intent lookup finds \<open>impl\<close>, and every plan resolved for that intent has
  the pipeline group \<open>impl\<close>: the \<open>review\<close> profile of that name is never reached through
  the intent. Validation does not refuse such a configuration: one is accepted.
\<close>

theorem duplicate_profile_name_selects_impl:
  assumes pi: "map_of (pipelines c) ''impl'' = Some pl_impl"
      and pr: "map_of (pipelines c) ''review'' = Some pl_review"
      and ni: "n \<in> set (keys (profiles pl_impl))"
      and nr: "n \<in> set (keys (profiles pl_review))"
  shows "base_profile_from_intent c n = Inr (''impl'', n)
       \<and> (resolve_dispatch c man plan_name intent_default = Inr plan \<and> intent plan = n
            \<longrightarrow> pipeline_group plan = ''impl'')
       \<and> (\<exists>raw c' pl_impl' pl_review' n'.
             validate_runtime_config_dict raw ''config'' = Inr c'
           \<and> map_of (pipelines c') ''impl'' = Some pl_impl'
           \<and> map_of (pipelines c') ''review'' = Some pl_review'
           \<and> n' \<in> set (keys (profiles pl_impl')) \<and> n' \<in> set (keys (profiles pl_review')))"
proof -
  have b: "base_profile_from_intent c n = Inr (''impl'', n)"
    unfolding base_profile_from_intent_def
    by (simp add: find_pipeline_impl [OF pi ni] del: find_pipeline_for_profile_name.simps)
  have g: "pipeline_group plan = ''impl''"
    if r: "resolve_dispatch c man plan_name intent_default = Inr plan" and i: "intent plan = n"
  proof -
    from r obtain sel where
      sel: "select_profile c man plan_name intent_default = Inr sel"
      and res: "resolve_selected c man sel = Inr plan"
      by (auto simp: resolve_dispatch_def ebind_eq_Inr)
    from select_profile_Inr [OF sel] have
      "base_profile_from_intent c (sel_intent sel) = Inr (sel_pipeline sel, sel_intent sel)"
      by blast
    with resolve_selected_Inr [OF res] i b show ?thesis by simp
  qed
  have v: "validate_runtime_config_dict ex_raw_cfg ''config'' = Inr ex_cfg"
    by code_simp
  have e: "\<exists>raw c' pl_impl' pl_review' n'.
             validate_runtime_config_dict raw ''config'' = Inr c'
           \<and> map_of (pipelines c') ''impl'' = Some pl_impl'
           \<and> map_of (pipelines c') ''review'' = Some pl_review'
           \<and> n' \<in> set (keys (profiles pl_impl')) \<and> n' \<in> set (keys (profiles pl_review'))"
    apply (rule exI [of _ ex_raw_cfg], rule exI [of _ ex_cfg])
    apply (rule exI [of _ ex_impl_pipeline], rule exI [of _ ex_review_pipeline])
    apply (rule exI [of _ "''shared''"])
    apply (simp add: v)
    apply (simp add: ex_cfg_def ex_impl_pipeline_def ex_review_pipeline_def keys_def)
    done
  from b g e show ?thesis by blast
qed

theorem duplicate_profile_name_selects_impl_witness:
  "validate_runtime_config_dict ex_raw_cfg ''config'' = Inr ex_cfg
   \<and> map_of (pipelines ex_cfg) ''impl'' = Some ex_impl_pipeline
   \<and> map_of (pipelines ex_cfg) ''review'' = Some ex_review_pipeline
   \<and> ''shared'' \<in> set (keys (profiles ex_impl_pipeline))
   \<and> ''shared'' \<in> set (keys (profiles ex_review_pipeline))
   \<and> base_profile_from_intent ex_cfg ''shared'' = Inr (''impl'', ''shared'')
   \<and> resolve_dispatch ex_cfg empty_manifest ''shared'' ''safe_impl'' = Inr ex_plan_shared
   \<and> intent ex_plan_shared = ''shared''
   \<and> pipeline_group ex_plan_shared = ''impl''"
proof -
  have vc: "validate_runtime_config_dict ex_raw_cfg ''config'' = Inr ex_cfg"
    by code_simp
  have h: "map_of (pipelines ex_cfg) ''impl'' = Some ex_impl_pipeline"
    "map_of (pipelines ex_cfg) ''review'' = Some ex_review_pipeline"
    "''shared'' \<in> set (keys (profiles ex_impl_pipeline))"
    "''shared'' \<in> set (keys (profiles ex_review_pipeline))"
    by (simp_all add: ex_cfg_def ex_impl_pipeline_def ex_review_pipeline_def keys_def)
  have r: "resolve_dispatch ex_cfg empty_manifest ''shared'' ''safe_impl'' = Inr ex_plan_shared"
    by code_simp
  have i: "intent ex_plan_shared = ''shared''"
    by (simp add: ex_plan_shared_def)
  from duplicate_profile_name_selects_impl [OF h, of empty_manifest "''shared''"
         "''safe_impl''" ex_plan_shared] r i
  have "base_profile_from_intent ex_cfg ''shared'' = Inr (''impl'', ''shared'')
        \<and> pipeline_group ex_plan_shared = ''impl''"
    by blast
  with vc h r i show ?thesis by blast
qed

section \<open>Proofs: lists of validated items\<close>

lemma emap_list_all2: "emap f xs = Inr ys \<Longrightarrow> list_all2 (\<lambda>x y. f x = Inr y) xs ys"
  by (induction xs arbitrary: ys) (auto simp: ebind_eq_Inr)

lemma emap_idx_list_all2:
  "emap_idx f i xs = Inr ys \<Longrightarrow> list_all2 (\<lambda>x y. \<exists>j. f j x = Inr y) xs ys"
  by (induction xs arbitrary: ys i) (auto simp: ebind_eq_Inr)

lemma expect_non_empty_string_Inr:
  "expect_non_empty_string v p = Inr s \<Longrightarrow> v = YStr s \<and> \<not> strip_empty s"
  by (auto simp: expect_non_empty_string_def as_nonempty_str_def die_def
           split: option.splits yaml.splits if_splits)

lemma list_all2_YStr:
  "list_all2 (\<lambda>x y. x = YStr y \<and> P y) items out \<Longrightarrow> items = map YStr out"
  by (induction items out rule: list_all2_induct) auto

lemma expect_string_list_Inr:
  assumes "expect_string_list v p ne = Inr out"
  shows "v = YList (map YStr out) \<and> (ne \<longrightarrow> out \<noteq> [])"
proof -
  from assms obtain items where v: "v = YList items"
    and e: "emap_idx (\<lambda>idx item.
              expect_non_empty_string item (p @ ''['' @ show_nat idx @ '']'')) 0 items = Inr out"
    and ne: "ne \<longrightarrow> out \<noteq> []"
    by (auto simp: expect_string_list_def expect_list_def ebind_eq_Inr die_def
             split: yaml.splits if_splits)
  from emap_idx_list_all2 [OF e]
  have "list_all2 (\<lambda>x y. x = YStr y \<and> \<not> strip_empty y) items out"
    by (rule list_all2_mono) (auto dest: expect_non_empty_string_Inr)
  then have "items = map YStr out" by (rule list_all2_YStr)
  with v ne show ?thesis by simp
qed

lemma validate_method_Inr:
  assumes "validate_method path (k, v) = Inr (k', mth)"
  shows "k' = k \<and> (\<exists>d. v = YMap d \<and> dict_get d ''steps'' = YList (map YStr (steps mth)))"
  using assms
  unfolding validate_method_def Let_def
  by (auto simp: ebind_eq_Inr expect_dict_def die_def split: yaml.splits if_splits
           dest!: expect_string_list_Inr)

lemma list_all2_keys:
  "list_all2 (\<lambda>x y. fst y = fst x \<and> P x y) xs ys \<Longrightarrow> keys ys = keys xs"
  unfolding keys_def by (induction xs ys rule: list_all2_induct) auto

lemma emap_unit_all:
  "emap f xs = Inr us \<Longrightarrow> x \<in> set xs \<Longrightarrow> \<exists>u. f x = Inr u"
  by (induction xs arbitrary: us) (auto simp: ebind_eq_Inr)

section \<open>Steps and step defaults cover each other\<close>

text \<open>
  Claim C9. For a skill file the validator accepts, the steps of all its methods,
  enabled or not, are exactly the keys of its step defaults; the methods and step
  defaults meant are those of the file: the validated methods carry the keys and the
  \<^verbatim>\<open>steps\<close> lists of the file's \<^verbatim>\<open>methods\<close> mapping, the validated step defaults the keys
  of its \<^verbatim>\<open>step_defaults\<close> mapping. So a file with a method step that has no step
  default, or with a step default no method names, is not accepted.
\<close>

theorem skill_steps_cover_step_defaults:
  assumes "validate_skill_file node skill path = Inr sk"
  shows "set (concat (map (\<lambda>(method_id, mth). steps mth) (methods sk)))
           = set (keys (step_defaults sk))
       \<and> (\<exists>raw_methods raw_step_defaults.
             dict_get node ''methods'' = YMap raw_methods
           \<and> dict_get node ''step_defaults'' = YMap raw_step_defaults
           \<and> keys (step_defaults sk) = keys raw_step_defaults
           \<and> list_all2 (\<lambda>(k, v) (k', mth). k' = k
                 \<and> (\<exists>d. v = YMap d \<and> dict_get d ''steps'' = YList (map YStr (steps mth))))
               raw_methods (methods sk))"
proof -
  from assms obtain rm rsd us1 us2 where
    rm: "dict_get node ''methods'' = YMap rm"
    and ms: "emap (validate_method path) rm = Inr (methods sk)"
    and rsd: "dict_get node ''step_defaults'' = YMap rsd"
    and c1: "emap (check_method_steps path (keys rsd)) (methods sk) = Inr us1"
    and c2: "emap (check_step_referenced path
                (concat (map (\<lambda>(method_id, mth). steps mth) (methods sk)))) (keys rsd) = Inr us2"
    and sds: "emap (\<lambda>(step_id, sv).
              let step_path = path @ ''.step_defaults.'' @ step_id in
              ebind (expect_dict sv step_path) (\<lambda>step_node.
              ebind (validate_step_default step_path step_node) (\<lambda>sd.
              Inr (step_id, sd)))) rsd = Inr (step_defaults sk)"
    unfolding validate_skill_file_def
    by (auto simp: ebind_eq_Inr expect_dict_def die_def split: if_splits yaml.splits)
  have k: "keys (step_defaults sk) = keys rsd"
    by (rule list_all2_keys [where P = "\<lambda>_ _. True"])
       (rule list_all2_mono [OF emap_list_all2 [OF sds]], auto simp: Let_def ebind_eq_Inr)
  have rel: "list_all2 (\<lambda>(k, v) (k', mth). k' = k
                 \<and> (\<exists>d. v = YMap d \<and> dict_get d ''steps'' = YList (map YStr (steps mth))))
               rm (methods sk)"
    by (rule list_all2_mono [OF emap_list_all2 [OF ms]]) (auto dest: validate_method_Inr)
  have sub1: "set (concat (map (\<lambda>(method_id, mth). steps mth) (methods sk))) \<subseteq> set (keys rsd)"
  proof
    fix st assume "st \<in> set (concat (map (\<lambda>(method_id, mth). steps mth) (methods sk)))"
    then obtain mid mth where in_ms: "(mid, mth) \<in> set (methods sk)" and st: "st \<in> set (steps mth)"
      by auto
    from emap_unit_all [OF c1 in_ms] obtain u where
      "emap (\<lambda>step.
           if step \<notin> set (keys rsd) then
             die (path @ ''.methods.'' @ mid @ ''.steps'')
               (''step '' @ quoted step @ '' missing from step_defaults'')
           else Inr ()) (steps mth) = Inr u"
      by (auto simp: check_method_steps_def)
    from emap_unit_all [OF this st] show "st \<in> set (keys rsd)"
      by (auto simp: die_def split: if_splits)
  qed
  have sub2: "set (keys rsd) \<subseteq> set (concat (map (\<lambda>(method_id, mth). steps mth) (methods sk)))"
  proof
    fix sid assume "sid \<in> set (keys rsd)"
    from emap_unit_all [OF c2 this]
    show "sid \<in> set (concat (map (\<lambda>(method_id, mth). steps mth) (methods sk)))"
      by (auto simp: check_step_referenced_def die_def split: if_splits)
  qed
  from sub1 sub2 k rm rsd rel show ?thesis by auto
qed

theorem skill_steps_cover_step_defaults_witness:
  "validate_skill_file (ex_skill_node ''plan'') ''plan''
       ''/cfg2/skills/plan.yaml'' = Inr ex_skill_view
   \<and> set (concat (map (\<lambda>(method_id, mth). steps mth) (methods ex_skill_view)))
       = set (keys (step_defaults ex_skill_view))
   \<and> keys (step_defaults ex_skill_view) = [''draft'', ''check'']"
proof -
  have v: "validate_skill_file (ex_skill_node ''plan'') ''plan''
       ''/cfg2/skills/plan.yaml'' = Inr ex_skill_view"
    by code_simp
  have k: "keys (step_defaults ex_skill_view) = [''draft'', ''check'']"
    by (simp add: ex_skill_view_def keys_def)
  from skill_steps_cover_step_defaults [OF v] v k show ?thesis by blast
qed

lemma str_or_spec:
  "str_or rt (str_or mid first_id) = selected_method_spec (first_id # rest) mid rt"
  by (auto simp: str_or_def selected_method_spec_def supplied_def split: option.splits)

section \<open>The selected method\<close>

text \<open>
  Claim C8. For a phase of the configuration: with no default method id the resolver
  raises; otherwise the selected id is the first default, overridden by the manifest's
  method id when one is supplied, overridden again by the runtime method id when one is
  supplied; when that id is not a key of the phase's methods, or names a method that is
  not enabled, the resolver raises a validation error; otherwise it returns the id.
\<close>

theorem selected_method_precedence:
  assumes "map_of (v2_skills c) phase = Some sk"
  shows "(default_method_ids sk = [] \<longrightarrow>
            resolve_selected_method c phase ov rt
              = Inl (ValidationError (''skills.'' @ phase
                                      @ ''.default_method_ids must not be empty'')))
       \<and> (default_method_ids sk \<noteq> [] \<longrightarrow>
            (let selected = selected_method_spec (default_method_ids sk) (po_method_id ov) rt in
             (selected \<notin> set (keys (methods sk)) \<longrightarrow>
                resolve_selected_method c phase ov rt
                  = Inl (ValidationError (''resolved method_id '' @ quoted selected
                          @ '' is not defined in skills.'' @ phase @ ''.methods'')))
           \<and> (\<forall>mth. map_of (methods sk) selected = Some mth \<and> \<not> enabled mth \<longrightarrow>
                resolve_selected_method c phase ov rt
                  = Inl (ValidationError (''resolved method_id '' @ quoted selected
                          @ '' is disabled'')))
           \<and> (\<forall>mth. map_of (methods sk) selected = Some mth \<and> enabled mth \<longrightarrow>
                resolve_selected_method c phase ov rt = Inr selected)))"
proof (cases "default_method_ids sk")
  case Nil
  with assms show ?thesis
    by (simp add: resolve_selected_method_def dict_index_def raise_error_def)
next
  case (Cons first_id rest)
  have none: "map_of (methods sk) s = None" if "s \<notin> set (keys (methods sk))" for s
    using that by (simp add: keys_def map_of_eq_None_iff)
  from assms Cons show ?thesis
    by (auto simp: resolve_selected_method_def dict_index_def raise_error_def Let_def
          str_or_spec [of _ _ _ rest] none)
qed

theorem selected_method_precedence_witness:
  "map_of (v2_skills ex_v2_cfg) ''plan'' = Some ex_skill_view
   \<and> default_method_ids ex_skill_view \<noteq> []
   \<and> selected_method_spec (default_method_ids ex_skill_view) None None = ''standard''
   \<and> resolve_selected_method ex_v2_cfg ''plan''
        \<lparr>po_method_id = None, po_tool_models = [], po_step_overrides = []\<rparr> None
        = Inr ''standard''
   \<and> selected_method_spec (default_method_ids ex_skill_view) (po_method_id ex_override)
        (Some ''standard'') = ''standard''
   \<and> resolve_selected_method ex_v2_cfg ''plan'' ex_override (Some ''standard'') = Inr ''standard''
   \<and> selected_method_spec (default_method_ids ex_skill_view) (po_method_id ex_override) None
        = ''quick''
   \<and> resolve_selected_method ex_v2_cfg ''plan'' ex_override None
        = Inl (ValidationError (''resolved method_id '' @ quoted ''quick'' @ '' is disabled''))
   \<and> selected_method_spec (default_method_ids ex_skill_view) (po_method_id ex_override)
        (Some ''nope'') = ''nope''
   \<and> resolve_selected_method ex_v2_cfg ''plan'' ex_override (Some ''nope'')
        = Inl (ValidationError (''resolved method_id '' @ quoted ''nope''
                @ '' is not defined in skills.'' @ ''plan'' @ ''.methods''))"
proof -
  have m: "map_of (v2_skills ex_v2_cfg) ''plan'' = Some ex_skill_view"
    by (simp add: ex_v2_cfg_def)
  have ne: "default_method_ids ex_skill_view \<noteq> []"
    by (simp add: ex_skill_view_def)
  let ?none = "\<lparr>po_method_id = None, po_tool_models = [], po_step_overrides = []\<rparr>"
  have s: "selected_method_spec (default_method_ids ex_skill_view) None None = ''standard''"
    "selected_method_spec (default_method_ids ex_skill_view) (po_method_id ex_override)
        (Some ''standard'') = ''standard''"
    "selected_method_spec (default_method_ids ex_skill_view) (po_method_id ex_override) None
        = ''quick''"
    "selected_method_spec (default_method_ids ex_skill_view) (po_method_id ex_override)
        (Some ''nope'') = ''nope''"
    by (simp_all add: selected_method_spec_def supplied_def ex_skill_view_def ex_override_def)
  have l: "map_of (methods ex_skill_view) ''standard''
             = Some \<lparr>enabled = True, steps = [''draft'', ''check''],
                     allowed_tools = [''codex'', ''gemini''], gate_profile = ''standard''\<rparr>"
    "map_of (methods ex_skill_view) ''quick''
             = Some \<lparr>enabled = False, steps = [''draft''], allowed_tools = [''codex''],
                     gate_profile = ''minimal''\<rparr>"
    "''nope'' \<notin> set (keys (methods ex_skill_view))"
    by (simp_all add: ex_skill_view_def keys_def)
  have a: "resolve_selected_method ex_v2_cfg ''plan'' ?none None = Inr ''standard''"
    using selected_method_precedence [OF m, of ?none None] ne s l by (simp add: Let_def)
  have b: "resolve_selected_method ex_v2_cfg ''plan'' ex_override (Some ''standard'') = Inr ''standard''"
    using selected_method_precedence [OF m, of ex_override "Some ''standard''"] ne s l by (simp add: Let_def)
  have c: "resolve_selected_method ex_v2_cfg ''plan'' ex_override None
        = Inl (ValidationError (''resolved method_id '' @ quoted ''quick'' @ '' is disabled''))"
    using selected_method_precedence [OF m, of ex_override None] ne s l by (simp add: Let_def)
  have d: "resolve_selected_method ex_v2_cfg ''plan'' ex_override (Some ''nope'')
        = Inl (ValidationError (''resolved method_id '' @ quoted ''nope''
                @ '' is not defined in skills.'' @ ''plan'' @ ''.methods''))"
    using selected_method_precedence [OF m, of ex_override "Some ''nope''"] ne s l by (simp add: Let_def)
  from m ne s a b c d show ?thesis by blast
qed

section \<open>Proofs: the servant checks\<close>

lemma ensure_keys_Inr_iff:
  "ensure_keys m allowed p = Inr u \<longleftrightarrow> set (keys m) \<subseteq> set allowed"
proof -
  let ?u = "sort (remdups (filter (\<lambda>k. k \<notin> set allowed) (keys m)))"
  have "ensure_keys m allowed p = Inr u \<longleftrightarrow> ?u = []"
    by (simp add: ensure_keys_def Let_def die_def)
  also have "\<dots> \<longleftrightarrow> set ?u = {}" by (simp only: set_empty)
  also have "\<dots> \<longleftrightarrow> set (keys m) \<subseteq> set allowed" by auto
  finally show ?thesis .
qed

lemma ensure_keys_ok: "set (keys m) \<subseteq> set allowed \<Longrightarrow> ensure_keys m allowed p = Inr ()"
  by (simp add: ensure_keys_Inr_iff)

lemma emap_idx_ok:
  "(\<And>x i. x \<in> set xs \<Longrightarrow> f i x = Inr (g x)) \<Longrightarrow> emap_idx f i xs = Inr (map g xs)"
  by (induction xs arbitrary: i) simp_all

lemma as_nonempty_str_YStr: "\<not> strip_empty s \<Longrightarrow> as_nonempty_str (YStr s) = Some s"
  by (simp add: as_nonempty_str_def)

lemma expect_str_set_ok:
  assumes "\<forall>s \<in> set xs. \<not> strip_empty s"
  shows "expect_str_set (YList (map YStr xs)) p = Inr xs"
proof -
  have "emap_idx (\<lambda>i item.
        case as_nonempty_str item of
          Some s \<Rightarrow> Inr s
        | None \<Rightarrow> die (p @ ''['' @ show_nat i @ '']'') ''must be a non-empty string'')
       0 (map YStr xs) = Inr (map (\<lambda>v. case v of YStr s \<Rightarrow> s | _ \<Rightarrow> []) (map YStr xs))"
    by (rule emap_idx_ok) (use assms in \<open>auto simp: as_nonempty_str_YStr\<close>)
  then show ?thesis
    by (simp add: expect_str_set_def expect_list_def comp_def)
qed

lemma expect_string_list_ok:
  assumes "\<forall>s \<in> set xs. \<not> strip_empty s" and "xs \<noteq> []"
  shows "expect_string_list (YList (map YStr xs)) p ne = Inr xs"
proof -
  have "emap_idx (\<lambda>idx item.
              expect_non_empty_string item (p @ ''['' @ show_nat idx @ '']'')) 0 (map YStr xs)
         = Inr (map (\<lambda>v. case v of YStr s \<Rightarrow> s | _ \<Rightarrow> []) (map YStr xs))"
    by (rule emap_idx_ok)
       (use assms in \<open>auto simp: expect_non_empty_string_def as_nonempty_str_YStr\<close>)
  with assms(2) show ?thesis
    by (simp add: expect_string_list_def expect_list_def comp_def)
qed

lemma expect_str_set_Inr:
  assumes "expect_str_set v p = Inr out"
  shows "v = YList (map YStr out)"
proof -
  from assms obtain items where v: "v = YList items"
    and e: "emap_idx (\<lambda>i item.
        case as_nonempty_str item of
          Some s \<Rightarrow> Inr s
        | None \<Rightarrow> die (p @ ''['' @ show_nat i @ '']'') ''must be a non-empty string'')
       0 items = Inr out"
    by (auto simp: expect_str_set_def expect_list_def ebind_eq_Inr die_def split: yaml.splits)
  from emap_idx_list_all2 [OF e]
  have "list_all2 (\<lambda>x y. x = YStr y \<and> True) items out"
    by (rule list_all2_mono)
       (auto simp: die_def split: option.splits dest: as_nonempty_str_Some)
  then have "items = map YStr out" by (rule list_all2_YStr)
  with v show ?thesis by simp
qed

lemma validate_servant_member:
  assumes "validate_servant p sn t = Inr sv"
  shows "\<exists>node. dict_get sn t = YMap node \<and> default_in_allowed node"
proof -
  from assms obtain node dm allowed where
    n: "dict_get sn t = YMap node"
    and d: "as_nonempty_str (dict_get node ''default_model'') = Some dm"
    and a: "expect_str_set (dict_get node ''allowed_models'')
              (p @ ''.servants.'' @ t @ ''.allowed_models'') = Inr allowed"
    and m: "dm \<in> set allowed"
    unfolding validate_servant_def Let_def
    by (auto simp: ebind_eq_Inr expect_dict_def die_def
             split: yaml.splits option.splits if_splits)
  from d have "dict_get node ''default_model'' = YStr dm" by (rule as_nonempty_str_Some)
  moreover from a have "dict_get node ''allowed_models'' = YList (map YStr allowed)"
    by (rule expect_str_set_Inr)
  ultimately have "default_in_allowed node"
    using m by (simp add: default_in_allowed_def)
  with n show ?thesis by blast
qed

lemma validate_servant_file_member:
  assumes "validate_servant_file node tool path = Inr sv"
  shows "default_in_allowed node"
proof -
  from assms obtain dm allowed where
    d: "expect_non_empty_string (dict_get node ''default_model'') (path @ ''.default_model'')
          = Inr dm"
    and a: "expect_string_list (dict_get node ''allowed_models'') (path @ ''.allowed_models'')
              True = Inr allowed"
    and m: "dm \<in> set allowed"
    unfolding validate_servant_file_def
    by (auto simp: ebind_eq_Inr die_def split: if_splits)
  from expect_non_empty_string_Inr [OF d] expect_string_list_Inr [OF a] m
  show ?thesis by (simp add: default_in_allowed_def)
qed

lemma load_yaml_Inr:
  "load_yaml root tree sd fn = Inr raw \<Longrightarrow>
     node_at tree sd fn = Some (File (Document (YMap raw)))"
  by (auto simp: load_yaml_def Let_def die_def
           split: option.splits fsnode.splits fcontent.splits yaml.splits)

lemma dict_index_get: "dict_index d k = Inr v \<Longrightarrow> dict_get d k = v"
  by (auto simp: dict_index_def dict_get_def split: option.splits)

lemma normalize_servant_file_Inr:
  assumes "normalize_servant_file raw t path = Inr node"
  shows "dict_get node ''default_model'' = dict_get raw ''default_model''
       \<and> dict_get node ''allowed_models'' = dict_get raw ''allowed_models''"
  using assms
  unfolding normalize_servant_file_def
  by (auto simp: ebind_eq_Inr die_def dict_get_def split: if_splits dest!: dict_index_get)

lemma normalize_default_in_allowed:
  "normalize_servant_file raw t path = Inr node \<Longrightarrow>
     default_in_allowed node = default_in_allowed raw"
  using normalize_servant_file_Inr [of raw t path node]
  by (auto simp: default_in_allowed_def split: yaml.splits)

lemma load_split_servants:
  assumes "load_and_validate_split_config root tree = Inr c"
      and "t \<in> set SERVANT_NAMES"
  shows "\<exists>raw. node_at tree ''servant'' (t @ ''.yaml'') = Some (File (Document (YMap raw)))
           \<and> default_in_allowed raw"
proof -
  from assms(1) obtain r1 r2 r3 n1 n2 n3 pn where
    l: "load_yaml root tree ''servant'' ''codex.yaml'' = Inr r1"
       "load_yaml root tree ''servant'' ''gemini.yaml'' = Inr r2"
       "load_yaml root tree ''servant'' ''copilot.yaml'' = Inr r3"
    and n: "normalize_servant_file r1 ''codex''
              (path_join (path_join root ''servant'') ''codex.yaml'') = Inr n1"
           "normalize_servant_file r2 ''gemini''
              (path_join (path_join root ''servant'') ''gemini.yaml'') = Inr n2"
           "normalize_servant_file r3 ''copilot''
              (path_join (path_join root ''servant'') ''copilot.yaml'') = Inr n3"
    and v: "validate_runtime_config_dict
              [(''version'', YInt 1),
               (''servants'', YMap [(''codex'', YMap n1), (''gemini'', YMap n2),
                                    (''copilot'', YMap n3)]),
               (''pipelines'', YMap pn)] root = Inr c"
    unfolding load_and_validate_split_config_def SERVANT_FILES_def
    by (auto simp: ebind_eq_Inr)
  let ?sn = "[(''codex'', YMap n1), (''gemini'', YMap n2), (''copilot'', YMap n3)]"
  from v obtain s1 s2 s3 where
    s: "validate_servant root ?sn ''codex'' = Inr s1"
       "validate_servant root ?sn ''gemini'' = Inr s2"
       "validate_servant root ?sn ''copilot'' = Inr s3"
    unfolding validate_runtime_config_dict_def SERVANT_NAMES_def
    by (auto simp: ebind_eq_Inr dict_get_def expect_dict_def eq_int_def die_def
             split: if_splits)
  from s [THEN validate_servant_member]
  have "default_in_allowed n1" "default_in_allowed n2" "default_in_allowed n3"
    by (simp_all add: dict_get_def)
  with n have "default_in_allowed r1" "default_in_allowed r2" "default_in_allowed r3"
    by (simp_all add: normalize_default_in_allowed)
  with l [THEN load_yaml_Inr] assms(2) show ?thesis
    by (auto simp: SERVANT_NAMES_def)
qed

lemma load_v2_servants:
  assumes "load_and_validate_v2_config root tree = Inr c"
      and "t \<in> set TOOLS"
  shows "\<exists>raw. node_at tree ''servants'' (t @ ''.yaml'') = Some (File (Document (YMap raw)))
           \<and> default_in_allowed raw"
proof -
  from assms(1) obtain svs where
    e: "emap (\<lambda>tool.
              ebind (load_yaml root tree ''servants'' (tool @ ''.yaml'')) (\<lambda>node.
              ebind (validate_servant_file node tool
                       (path_join (path_join root ''servants'') (tool @ ''.yaml''))) (\<lambda>sv.
              Inr (tool, sv)))) TOOLS = Inr svs"
    unfolding load_and_validate_v2_config_def
    by (auto simp: ebind_eq_Inr)
  from emap_Inr_all [OF e assms(2)] show ?thesis
    by (auto simp: ebind_eq_Inr dest: load_yaml_Inr validate_servant_file_member)
qed

subsection \<open>The first check that fails\<close>

text \<open>
  A loop raises the error of its first failing element; so a servant that fails the
  membership test decides the error of the whole validation when everything checked
  before it passes.
\<close>

lemma emap_all_Inr: "(\<forall>x \<in> set xs. \<exists>y. f x = Inr y) \<Longrightarrow> \<exists>ys. emap f xs = Inr ys"
  by (induction xs) auto

lemma emap_first_Inl:
  assumes "x \<in> set xs"
      and "\<forall>y \<in> set (takeWhile (\<lambda>y. y \<noteq> x) xs). \<exists>r. f y = Inr r"
      and "f x = Inl e"
  shows "emap f xs = Inl e"
  using assms
proof (induction xs)
  case Nil
  then show ?case by simp
next
  case (Cons a xs)
  show ?case
  proof (cases "a = x")
    case True
    with Cons.prems(3) show ?thesis by (simp add: ebind_def)
  next
    case False
    with Cons.prems obtain r where r: "f a = Inr r" by auto
    from False Cons.prems have "emap f xs = Inl e"
      by (intro Cons.IH) auto
    with r show ?thesis by (simp add: ebind_def)
  qed
qed

lemma validate_servant_outside:
  assumes "dict_get servants_node t = YMap node"
      and "set (keys node) \<subseteq> set [''default_model'', ''allowed_models'', ''wrapper_defaults'',
                                    ''purpose_models'', ''purpose_efforts'']"
      and "dict_get node ''default_model'' = YStr dm" and "\<not> strip_empty dm"
      and "dict_get node ''allowed_models'' = YList (map YStr allowed)"
      and "\<forall>s \<in> set allowed. \<not> strip_empty s"
      and "dm \<notin> set allowed"
  shows "validate_servant cfg_path servants_node t
          = Inl (ValidationError (cfg_path @ ''.servants.'' @ t @ ''.default_model''
                                  @ '': '' @ ''must be included in allowed_models''))"
  using assms unfolding validate_servant_def Let_def
  by (simp add: expect_dict_def ensure_keys_ok as_nonempty_str_YStr expect_str_set_ok die_def)

lemma validate_servant_file_outside:
  assumes "set (keys node) \<subseteq> set [''version'', ''tool'', ''default_model'', ''allowed_models'',
                                ''wrapper_defaults'', ''web_capabilities'', ''purpose_models'',
                                ''purpose_efforts'', ''effort_level_descriptions'']"
      and "eq_int (dict_get node ''version'') 2" and "dict_get node ''tool'' = YStr tool"
      and "dict_get node ''default_model'' = YStr dm" and "\<not> strip_empty dm"
      and "dict_get node ''allowed_models'' = YList (map YStr allowed)" and "allowed \<noteq> []"
      and "\<forall>s \<in> set allowed. \<not> strip_empty s"
      and "dm \<notin> set allowed"
  shows "validate_servant_file node tool path
          = Inl (ValidationError (path @ ''.default_model''
                                  @ '': '' @ ''must be included in allowed_models''))"
  using assms unfolding validate_servant_file_def
  by (simp add: ensure_keys_ok expect_non_empty_string_def as_nonempty_str_YStr
        expect_string_list_ok die_def)

lemma validate_runtime_config_dict_outside:
  assumes c: "set (keys c) \<subseteq> set [''version'', ''servants'', ''pipelines'']"
      "eq_int (dict_get c ''version'') 1" "dict_get c ''servants'' = YMap servants_node"
      "set (keys servants_node) \<subseteq> set SERVANT_NAMES"
    and t: "t \<in> set SERVANT_NAMES"
    and before: "\<forall>t' \<in> set (takeWhile (\<lambda>x. x \<noteq> t) SERVANT_NAMES).
                   \<exists>sv. validate_servant cfg_path servants_node t' = Inr sv"
    and bad: "validate_servant cfg_path servants_node t = Inl e"
  shows "validate_runtime_config_dict c cfg_path = Inl e"
proof -
  let ?f = "\<lambda>servant. ebind (validate_servant cfg_path servants_node servant)
                         (\<lambda>sv. Inr (servant, sv))"
  have "emap ?f SERVANT_NAMES = Inl e"
  proof (rule emap_first_Inl [OF t])
    show "\<forall>y \<in> set (takeWhile (\<lambda>y. y \<noteq> t) SERVANT_NAMES). \<exists>r. ?f y = Inr r"
      using before by fastforce
    show "?f t = Inl e" using bad by (simp add: ebind_def)
  qed
  with c show ?thesis
    unfolding validate_runtime_config_dict_def
    by (simp add: ensure_keys_ok expect_dict_def ebind_def)
qed

lemma load_yaml_document:
  "node_at tree sd fn = Some (File (Document (YMap raw))) \<Longrightarrow> load_yaml root tree sd fn = Inr raw"
  by (simp add: load_yaml_def)

lemma validate_servant_cong:
  "dict_get sn t = dict_get sn' t \<Longrightarrow> validate_servant p sn t = validate_servant p sn' t"
  by (simp add: validate_servant_def)

lemma normalize_servant_file_keys:
  assumes "normalize_servant_file raw t path = Inr node"
  shows "set (keys node) \<subseteq> set [''default_model'', ''allowed_models'', ''wrapper_defaults'',
                                  ''purpose_models'', ''purpose_efforts'']"
proof (cases "''version'' \<in> set (keys raw) \<or> ''tool'' \<in> set (keys raw)")
  case True
  with assms obtain dm am wd pm pe where
    "node = [(''default_model'', dm), (''allowed_models'', am), (''wrapper_defaults'', wd),
             (''purpose_models'', pm), (''purpose_efforts'', pe)]"
    unfolding normalize_servant_file_def
    by (auto simp: ebind_eq_Inr die_def split: if_splits)
  then show ?thesis by (simp add: keys_def)
next
  case False
  from assms have "ebind (ensure_keys raw [''default_model'', ''allowed_models'',
      ''wrapper_defaults'', ''purpose_models'', ''purpose_efforts''] path) (\<lambda>_. Inr raw)
      = Inr node"
    unfolding normalize_servant_file_def if_not_P [OF False] .
  then obtain u where u: "ensure_keys raw [''default_model'', ''allowed_models'',
      ''wrapper_defaults'', ''purpose_models'', ''purpose_efforts''] path = Inr u"
    and eq: "(Inr raw :: (string \<times> yaml) list result) = Inr node"
    unfolding ebind_eq_Inr by blast
  from eq have "raw = node" by simp
  with u show ?thesis
    unfolding ensure_keys_Inr_iff by simp
qed

lemma load_split_outside:
  assumes servants: "\<forall>(s, sd, fn) \<in> set SERVANT_FILES. \<exists>raw nd.
             load_yaml root tree sd fn = Inr raw
           \<and> normalize_servant_file raw s (path_join (path_join root sd) fn) = Inr nd
           \<and> (s \<in> set (takeWhile (\<lambda>x. x \<noteq> t) SERVANT_NAMES)
                \<longrightarrow> (\<exists>sv. validate_servant root [(s, YMap nd)] s = Inr sv))"
    and pipelines: "\<forall>(p, sd, fn) \<in> set PIPELINE_FILES. \<exists>raw pn.
             load_yaml root tree sd fn = Inr raw
           \<and> normalize_pipeline_file raw p (path_join (path_join root sd) fn) = Inr pn"
    and t: "t \<in> set SERVANT_NAMES"
    and doc: "node_at tree ''servant'' (t @ ''.yaml'') = Some (File (Document (YMap raw)))"
    and dm: "dict_get raw ''default_model'' = YStr dm" "\<not> strip_empty dm"
    and al: "dict_get raw ''allowed_models'' = YList (map YStr allowed)"
            "\<forall>s \<in> set allowed. \<not> strip_empty s"
    and out: "dm \<notin> set allowed"
  shows "load_and_validate_split_config root tree
          = Inl (ValidationError (root @ ''.servants.'' @ t @ ''.default_model''
                                  @ '': '' @ ''must be included in allowed_models''))"
proof -
  let ?before = "takeWhile (\<lambda>x. x \<noteq> t) SERVANT_NAMES"
  let ?path = "\<lambda>s. path_join (path_join root ''servant'') (s @ ''.yaml'')"
  from servants obtain r1 r2 r3 n1 n2 n3 where
    l: "load_yaml root tree ''servant'' ''codex.yaml'' = Inr r1"
       "load_yaml root tree ''servant'' ''gemini.yaml'' = Inr r2"
       "load_yaml root tree ''servant'' ''copilot.yaml'' = Inr r3"
    and n: "normalize_servant_file r1 ''codex'' (?path ''codex'') = Inr n1"
           "normalize_servant_file r2 ''gemini'' (?path ''gemini'') = Inr n2"
           "normalize_servant_file r3 ''copilot'' (?path ''copilot'') = Inr n3"
    and v: "''codex'' \<in> set ?before
              \<longrightarrow> (\<exists>sv. validate_servant root [(''codex'', YMap n1)] ''codex'' = Inr sv)"
           "''gemini'' \<in> set ?before
              \<longrightarrow> (\<exists>sv. validate_servant root [(''gemini'', YMap n2)] ''gemini'' = Inr sv)"
           "''copilot'' \<in> set ?before
              \<longrightarrow> (\<exists>sv. validate_servant root [(''copilot'', YMap n3)] ''copilot'' = Inr sv)"
    unfolding SERVANT_FILES_def by auto
  let ?sn = "[(''codex'', YMap n1), (''gemini'', YMap n2), (''copilot'', YMap n3)]"
  have es: "emap (\<lambda>(servant, subdir, filename).
              ebind (load_yaml root tree subdir filename) (\<lambda>raw.
              ebind (normalize_servant_file raw servant
                       (path_join (path_join root subdir) filename)) (\<lambda>node.
              Inr (servant, YMap node)))) SERVANT_FILES = Inr ?sn"
    unfolding SERVANT_FILES_def using l n by simp
  have "\<exists>pn. emap (\<lambda>(pipeline_name, subdir, filename).
              ebind (load_yaml root tree subdir filename) (\<lambda>raw.
              ebind (normalize_pipeline_file raw pipeline_name
                       (path_join (path_join root subdir) filename)) (\<lambda>node.
              Inr (pipeline_name, YMap node)))) PIPELINE_FILES = Inr pn"
    by (rule emap_all_Inr) (use pipelines in fastforce)
  then obtain pn where ep: "emap (\<lambda>(pipeline_name, subdir, filename).
              ebind (load_yaml root tree subdir filename) (\<lambda>raw.
              ebind (normalize_pipeline_file raw pipeline_name
                       (path_join (path_join root subdir) filename)) (\<lambda>node.
              Inr (pipeline_name, YMap node)))) PIPELINE_FILES = Inr pn" ..
  have before: "\<forall>t' \<in> set ?before. \<exists>sv. validate_servant root ?sn t' = Inr sv"
  proof
    fix t' assume b: "t' \<in> set ?before"
    then have "t' \<in> set SERVANT_NAMES" by (rule set_takeWhileD [THEN conjunct1])
    then consider "t' = ''codex''" | "t' = ''gemini''" | "t' = ''copilot''"
      by (auto simp: SERVANT_NAMES_def)
    then show "\<exists>sv. validate_servant root ?sn t' = Inr sv"
    proof cases
      case 1
      have "validate_servant root ?sn ''codex''
              = validate_servant root [(''codex'', YMap n1)] ''codex''"
        by (rule validate_servant_cong) (simp add: dict_get_def)
      with v(1) b 1 show ?thesis by simp
    next
      case 2
      have "validate_servant root ?sn ''gemini''
              = validate_servant root [(''gemini'', YMap n2)] ''gemini''"
        by (rule validate_servant_cong) (simp add: dict_get_def)
      with v(2) b 2 show ?thesis by simp
    next
      case 3
      have "validate_servant root ?sn ''copilot''
              = validate_servant root [(''copilot'', YMap n3)] ''copilot''"
        by (rule validate_servant_cong) (simp add: dict_get_def)
      with v(3) b 3 show ?thesis by simp
    qed
  qed
  from doc have lr: "load_yaml root tree ''servant'' (t @ ''.yaml'') = Inr raw"
    by (rule load_yaml_document)
  from t l n lr obtain nd where
    nd: "normalize_servant_file raw t (?path t) = Inr nd" and g: "dict_get ?sn t = YMap nd"
    by (auto simp: SERVANT_NAMES_def dict_get_def)
  from normalize_servant_file_Inr [OF nd] dm al
  have "dict_get nd ''default_model'' = YStr dm"
    "dict_get nd ''allowed_models'' = YList (map YStr allowed)" by simp_all
  with g normalize_servant_file_keys [OF nd] dm(2) al(2) out
  have bad: "validate_servant root ?sn t
          = Inl (ValidationError (root @ ''.servants.'' @ t @ ''.default_model''
                                  @ '': '' @ ''must be included in allowed_models''))"
    by (intro validate_servant_outside)
  have "validate_runtime_config_dict
          [(''version'', YInt 1), (''servants'', YMap ?sn), (''pipelines'', YMap pn)] root
          = Inl (ValidationError (root @ ''.servants.'' @ t @ ''.default_model''
                                  @ '': '' @ ''must be included in allowed_models''))"
    by (rule validate_runtime_config_dict_outside [OF _ _ _ _ t before bad])
       (simp_all add: keys_def dict_get_def eq_int_def SERVANT_NAMES_def)
  then show ?thesis
    unfolding load_and_validate_split_config_def by (simp add: es ep)
qed

lemma load_v2_outside:
  assumes files: "\<forall>sd \<in> set [''skills'', ''servants'', ''policies''].
                    validate_expected_files root tree sd = Inr ()"
    and skills: "\<forall>phase \<in> set PHASES. \<exists>node sk.
             load_yaml root tree ''skills'' (phase @ ''.yaml'') = Inr node
           \<and> validate_skill_file node phase
               (path_join (path_join root ''skills'') (phase @ ''.yaml'')) = Inr sk"
    and t: "t \<in> set TOOLS"
    and before: "\<forall>t' \<in> set (takeWhile (\<lambda>x. x \<noteq> t) TOOLS). \<exists>node sv.
             load_yaml root tree ''servants'' (t' @ ''.yaml'') = Inr node
           \<and> validate_servant_file node t'
               (path_join (path_join root ''servants'') (t' @ ''.yaml'')) = Inr sv"
    and doc: "node_at tree ''servants'' (t @ ''.yaml'') = Some (File (Document (YMap node)))"
    and bad: "validate_servant_file node t
                (path_join (path_join root ''servants'') (t @ ''.yaml'')) = Inl e"
  shows "load_and_validate_v2_config root tree = Inl e"
proof -
  have "\<exists>us. emap (validate_expected_files root tree) [''skills'', ''servants'', ''policies'']
          = Inr us"
    by (rule emap_all_Inr) (use files in blast)
  then obtain us where
    ef: "emap (validate_expected_files root tree) [''skills'', ''servants'', ''policies'']
          = Inr us" ..
  have "\<exists>sks. emap (\<lambda>phase.
              ebind (load_yaml root tree ''skills'' (phase @ ''.yaml'')) (\<lambda>node.
              ebind (validate_skill_file node phase
                       (path_join (path_join root ''skills'') (phase @ ''.yaml''))) (\<lambda>sk.
              Inr (phase, sk)))) PHASES = Inr sks"
    by (rule emap_all_Inr) (use skills in fastforce)
  then obtain sks where es: "emap (\<lambda>phase.
              ebind (load_yaml root tree ''skills'' (phase @ ''.yaml'')) (\<lambda>node.
              ebind (validate_skill_file node phase
                       (path_join (path_join root ''skills'') (phase @ ''.yaml''))) (\<lambda>sk.
              Inr (phase, sk)))) PHASES = Inr sks" ..
  let ?f = "\<lambda>tool.
              ebind (load_yaml root tree ''servants'' (tool @ ''.yaml'')) (\<lambda>node.
              ebind (validate_servant_file node tool
                       (path_join (path_join root ''servants'') (tool @ ''.yaml''))) (\<lambda>sv.
              Inr (tool, sv)))"
  have et: "emap ?f TOOLS = Inl e"
  proof (rule emap_first_Inl [OF t])
    show "\<forall>y \<in> set (takeWhile (\<lambda>y. y \<noteq> t) TOOLS). \<exists>r. ?f y = Inr r"
      using before by fastforce
    show "?f t = Inl e"
      using load_yaml_document [OF doc, of root] bad by (simp add: ebind_def)
  qed
  show ?thesis
    by (simp only: load_and_validate_v2_config_def ef es et ebind_Inl ebind_Inr)
qed

section \<open>A default model outside the allowed models\<close>

text \<open>
  Claim C7, as amended. A servant whose default model is not in its allowed-models list
  is answered by the validation error whose path ends in \<open>.default_model\<close> and whose
  message is "must be included in allowed_models" whenever every check that runs before
  the membership test passes. In the servant's own mapping these checks are: its key
  set, for V2 the version and tool tags, a default model that is a string not empty and
  not all whitespace, allowed models that are a list, for V2 not empty, of such strings.
  Before the servant is reached they are:

  \<^item> in \<^verbatim>\<open>validate_runtime_config_dict\<close>, the keys and version of the configuration, the
    names of its servants, and the servants that come before this one;

  \<^item> in \<^verbatim>\<open>_validate_servant_file\<close>, none;

  \<^item> in \<^verbatim>\<open>load_and_validate_split_config\<close>, moreover the loading and normalization of
    the three servant files and the three pipeline files;

  \<^item> in \<^verbatim>\<open>load_and_validate_v2_config\<close>, the expected files of the three directories, the
    three skill files, and the servant files that come before this one.

  And whatever else a configuration root holds, a servant file in it whose default
  model is not an element of its allowed-models list keeps it from being loaded: both
  loaders raise, and no configuration is returned.
\<close>

theorem default_model_outside_allowed_models:
  "(set (keys c) \<subseteq> set [''version'', ''servants'', ''pipelines'']
      \<and> eq_int (dict_get c ''version'') 1
      \<and> dict_get c ''servants'' = YMap servants_node
      \<and> set (keys servants_node) \<subseteq> set SERVANT_NAMES
      \<and> t \<in> set SERVANT_NAMES
      \<and> (\<forall>t' \<in> set (takeWhile (\<lambda>x. x \<noteq> t) SERVANT_NAMES).
            \<exists>sv. validate_servant cfg_path servants_node t' = Inr sv)
      \<and> dict_get servants_node t = YMap node
      \<and> set (keys node) \<subseteq> set [''default_model'', ''allowed_models'', ''wrapper_defaults'',
                                ''purpose_models'', ''purpose_efforts'']
      \<and> dict_get node ''default_model'' = YStr dm \<and> \<not> strip_empty dm
      \<and> dict_get node ''allowed_models'' = YList (map YStr allowed)
      \<and> (\<forall>s \<in> set allowed. \<not> strip_empty s)
      \<and> dm \<notin> set allowed
    \<longrightarrow> validate_runtime_config_dict c cfg_path
          = Inl (ValidationError (cfg_path @ ''.servants.'' @ t @ ''.default_model''
                                  @ '': '' @ ''must be included in allowed_models'')))
   \<and> (set (keys node2) \<subseteq> set [''version'', ''tool'', ''default_model'', ''allowed_models'',
                                ''wrapper_defaults'', ''web_capabilities'', ''purpose_models'',
                                ''purpose_efforts'', ''effort_level_descriptions'']
      \<and> eq_int (dict_get node2 ''version'') 2 \<and> dict_get node2 ''tool'' = YStr tool
      \<and> dict_get node2 ''default_model'' = YStr dm2 \<and> \<not> strip_empty dm2
      \<and> dict_get node2 ''allowed_models'' = YList (map YStr allowed2) \<and> allowed2 \<noteq> []
      \<and> (\<forall>s \<in> set allowed2. \<not> strip_empty s)
      \<and> dm2 \<notin> set allowed2
    \<longrightarrow> validate_servant_file node2 tool path
          = Inl (ValidationError (path @ ''.default_model''
                                  @ '': '' @ ''must be included in allowed_models'')))
   \<and> ((\<forall>(s, sd, fn) \<in> set SERVANT_FILES. \<exists>raw nd.
            load_yaml root3 tree3 sd fn = Inr raw
          \<and> normalize_servant_file raw s (path_join (path_join root3 sd) fn) = Inr nd
          \<and> (s \<in> set (takeWhile (\<lambda>x. x \<noteq> t3) SERVANT_NAMES)
               \<longrightarrow> (\<exists>sv. validate_servant root3 [(s, YMap nd)] s = Inr sv)))
      \<and> (\<forall>(p, sd, fn) \<in> set PIPELINE_FILES. \<exists>raw pn.
            load_yaml root3 tree3 sd fn = Inr raw
          \<and> normalize_pipeline_file raw p (path_join (path_join root3 sd) fn) = Inr pn)
      \<and> t3 \<in> set SERVANT_NAMES
      \<and> node_at tree3 ''servant'' (t3 @ ''.yaml'') = Some (File (Document (YMap raw3)))
      \<and> dict_get raw3 ''default_model'' = YStr dm3 \<and> \<not> strip_empty dm3
      \<and> dict_get raw3 ''allowed_models'' = YList (map YStr allowed3)
      \<and> (\<forall>s \<in> set allowed3. \<not> strip_empty s)
      \<and> dm3 \<notin> set allowed3
    \<longrightarrow> load_and_validate_split_config root3 tree3
          = Inl (ValidationError (root3 @ ''.servants.'' @ t3 @ ''.default_model''
                                  @ '': '' @ ''must be included in allowed_models'')))
   \<and> ((\<forall>sd \<in> set [''skills'', ''servants'', ''policies''].
            validate_expected_files root4 tree4 sd = Inr ())
      \<and> (\<forall>phase \<in> set PHASES. \<exists>nd sk.
            load_yaml root4 tree4 ''skills'' (phase @ ''.yaml'') = Inr nd
          \<and> validate_skill_file nd phase
              (path_join (path_join root4 ''skills'') (phase @ ''.yaml'')) = Inr sk)
      \<and> t4 \<in> set TOOLS
      \<and> (\<forall>t' \<in> set (takeWhile (\<lambda>x. x \<noteq> t4) TOOLS). \<exists>nd sv.
            load_yaml root4 tree4 ''servants'' (t' @ ''.yaml'') = Inr nd
          \<and> validate_servant_file nd t'
              (path_join (path_join root4 ''servants'') (t' @ ''.yaml'')) = Inr sv)
      \<and> node_at tree4 ''servants'' (t4 @ ''.yaml'') = Some (File (Document (YMap node4)))
      \<and> set (keys node4) \<subseteq> set [''version'', ''tool'', ''default_model'', ''allowed_models'',
                                 ''wrapper_defaults'', ''web_capabilities'', ''purpose_models'',
                                 ''purpose_efforts'', ''effort_level_descriptions'']
      \<and> eq_int (dict_get node4 ''version'') 2 \<and> dict_get node4 ''tool'' = YStr t4
      \<and> dict_get node4 ''default_model'' = YStr dm4 \<and> \<not> strip_empty dm4
      \<and> dict_get node4 ''allowed_models'' = YList (map YStr allowed4) \<and> allowed4 \<noteq> []
      \<and> (\<forall>s \<in> set allowed4. \<not> strip_empty s)
      \<and> dm4 \<notin> set allowed4
    \<longrightarrow> load_and_validate_v2_config root4 tree4
          = Inl (ValidationError (path_join (path_join root4 ''servants'') (t4 @ ''.yaml'')
                                  @ ''.default_model''
                                  @ '': '' @ ''must be included in allowed_models'')))
   \<and> (t5 \<in> set SERVANT_NAMES
      \<and> node_at tree5 ''servant'' (t5 @ ''.yaml'') = Some (File (Document (YMap raw5)))
      \<and> \<not> default_in_allowed raw5
    \<longrightarrow> (\<exists>e. load_and_validate_split_config root5 tree5 = Inl e))
   \<and> (t6 \<in> set TOOLS
      \<and> node_at tree6 ''servants'' (t6 @ ''.yaml'') = Some (File (Document (YMap raw6)))
      \<and> \<not> default_in_allowed raw6
    \<longrightarrow> (\<exists>e. load_and_validate_v2_config root6 tree6 = Inl e))"
proof (intro conjI impI; elim conjE)
  assume before: "set (keys c) \<subseteq> set [''version'', ''servants'', ''pipelines'']"
    "eq_int (dict_get c ''version'') 1" "dict_get c ''servants'' = YMap servants_node"
    "set (keys servants_node) \<subseteq> set SERVANT_NAMES" "t \<in> set SERVANT_NAMES"
    "\<forall>t' \<in> set (takeWhile (\<lambda>x. x \<noteq> t) SERVANT_NAMES).
       \<exists>sv. validate_servant cfg_path servants_node t' = Inr sv"
  assume "dict_get servants_node t = YMap node"
    "set (keys node) \<subseteq> set [''default_model'', ''allowed_models'', ''wrapper_defaults'',
                              ''purpose_models'', ''purpose_efforts'']"
    "dict_get node ''default_model'' = YStr dm" "\<not> strip_empty dm"
    "dict_get node ''allowed_models'' = YList (map YStr allowed)"
    "\<forall>s \<in> set allowed. \<not> strip_empty s" "dm \<notin> set allowed"
  then have "validate_servant cfg_path servants_node t
          = Inl (ValidationError (cfg_path @ ''.servants.'' @ t @ ''.default_model''
                                  @ '': '' @ ''must be included in allowed_models''))"
    by (rule validate_servant_outside)
  with before show "validate_runtime_config_dict c cfg_path
          = Inl (ValidationError (cfg_path @ ''.servants.'' @ t @ ''.default_model''
                                  @ '': '' @ ''must be included in allowed_models''))"
    by (rule validate_runtime_config_dict_outside)
next
  assume "set (keys node2) \<subseteq> set [''version'', ''tool'', ''default_model'', ''allowed_models'',
                                ''wrapper_defaults'', ''web_capabilities'', ''purpose_models'',
                                ''purpose_efforts'', ''effort_level_descriptions'']"
    "eq_int (dict_get node2 ''version'') 2" "dict_get node2 ''tool'' = YStr tool"
    "dict_get node2 ''default_model'' = YStr dm2" "\<not> strip_empty dm2"
    "dict_get node2 ''allowed_models'' = YList (map YStr allowed2)" "allowed2 \<noteq> []"
    "\<forall>s \<in> set allowed2. \<not> strip_empty s" "dm2 \<notin> set allowed2"
  then show "validate_servant_file node2 tool path
          = Inl (ValidationError (path @ ''.default_model''
                                  @ '': '' @ ''must be included in allowed_models''))"
    by (rule validate_servant_file_outside)
next
  assume "\<forall>(s, sd, fn) \<in> set SERVANT_FILES. \<exists>raw nd.
            load_yaml root3 tree3 sd fn = Inr raw
          \<and> normalize_servant_file raw s (path_join (path_join root3 sd) fn) = Inr nd
          \<and> (s \<in> set (takeWhile (\<lambda>x. x \<noteq> t3) SERVANT_NAMES)
               \<longrightarrow> (\<exists>sv. validate_servant root3 [(s, YMap nd)] s = Inr sv))"
    "\<forall>(p, sd, fn) \<in> set PIPELINE_FILES. \<exists>raw pn.
            load_yaml root3 tree3 sd fn = Inr raw
          \<and> normalize_pipeline_file raw p (path_join (path_join root3 sd) fn) = Inr pn"
    "t3 \<in> set SERVANT_NAMES"
    "node_at tree3 ''servant'' (t3 @ ''.yaml'') = Some (File (Document (YMap raw3)))"
    "dict_get raw3 ''default_model'' = YStr dm3" "\<not> strip_empty dm3"
    "dict_get raw3 ''allowed_models'' = YList (map YStr allowed3)"
    "\<forall>s \<in> set allowed3. \<not> strip_empty s" "dm3 \<notin> set allowed3"
  then show "load_and_validate_split_config root3 tree3
          = Inl (ValidationError (root3 @ ''.servants.'' @ t3 @ ''.default_model''
                                  @ '': '' @ ''must be included in allowed_models''))"
    by (rule load_split_outside)
next
  assume before: "\<forall>sd \<in> set [''skills'', ''servants'', ''policies''].
            validate_expected_files root4 tree4 sd = Inr ()"
    "\<forall>phase \<in> set PHASES. \<exists>nd sk.
            load_yaml root4 tree4 ''skills'' (phase @ ''.yaml'') = Inr nd
          \<and> validate_skill_file nd phase
              (path_join (path_join root4 ''skills'') (phase @ ''.yaml'')) = Inr sk"
    "t4 \<in> set TOOLS"
    "\<forall>t' \<in> set (takeWhile (\<lambda>x. x \<noteq> t4) TOOLS). \<exists>nd sv.
            load_yaml root4 tree4 ''servants'' (t' @ ''.yaml'') = Inr nd
          \<and> validate_servant_file nd t'
              (path_join (path_join root4 ''servants'') (t' @ ''.yaml'')) = Inr sv"
    "node_at tree4 ''servants'' (t4 @ ''.yaml'') = Some (File (Document (YMap node4)))"
  assume "set (keys node4) \<subseteq> set [''version'', ''tool'', ''default_model'', ''allowed_models'',
                                 ''wrapper_defaults'', ''web_capabilities'', ''purpose_models'',
                                 ''purpose_efforts'', ''effort_level_descriptions'']"
    "eq_int (dict_get node4 ''version'') 2" "dict_get node4 ''tool'' = YStr t4"
    "dict_get node4 ''default_model'' = YStr dm4" "\<not> strip_empty dm4"
    "dict_get node4 ''allowed_models'' = YList (map YStr allowed4)" "allowed4 \<noteq> []"
    "\<forall>s \<in> set allowed4. \<not> strip_empty s" "dm4 \<notin> set allowed4"
  then have "validate_servant_file node4 t4
               (path_join (path_join root4 ''servants'') (t4 @ ''.yaml''))
          = Inl (ValidationError (path_join (path_join root4 ''servants'') (t4 @ ''.yaml'')
                                  @ ''.default_model''
                                  @ '': '' @ ''must be included in allowed_models''))"
    by (rule validate_servant_file_outside)
  with before show "load_and_validate_v2_config root4 tree4
          = Inl (ValidationError (path_join (path_join root4 ''servants'') (t4 @ ''.yaml'')
                                  @ ''.default_model''
                                  @ '': '' @ ''must be included in allowed_models''))"
    by (rule load_v2_outside)
next
  assume h: "t5 \<in> set SERVANT_NAMES"
    "node_at tree5 ''servant'' (t5 @ ''.yaml'') = Some (File (Document (YMap raw5)))"
    "\<not> default_in_allowed raw5"
  show "\<exists>e. load_and_validate_split_config root5 tree5 = Inl e"
  proof (cases "load_and_validate_split_config root5 tree5")
    case (Inl e)
    then show ?thesis by blast
  next
    case (Inr c)
    from load_split_servants [OF Inr, of t5] h show ?thesis by auto
  qed
next
  assume h: "t6 \<in> set TOOLS"
    "node_at tree6 ''servants'' (t6 @ ''.yaml'') = Some (File (Document (YMap raw6)))"
    "\<not> default_in_allowed raw6"
  show "\<exists>e. load_and_validate_v2_config root6 tree6 = Inl e"
  proof (cases "load_and_validate_v2_config root6 tree6")
    case (Inl e)
    then show ?thesis by blast
  next
    case (Inr c)
    from load_v2_servants [OF Inr, of t6] h show ?thesis by auto
  qed
qed

text \<open>
  As the claim states it, the message is promised for every servant document whose
  default model is not in the list. A document whose default model is the empty string
  is one, and the error it raises says "must be a non-empty string".
\<close>

theorem default_model_outside_allowed_models_counterexample:
  "\<not> default_in_allowed ex_blank_default
   \<and> validate_servant ''config'' [(''codex'', YMap ex_blank_default)] ''codex''
       = Inl (ValidationError ''config.servants.codex.default_model: must be a non-empty string'')
   \<and> \<not> default_in_allowed ex_blank_default_v2
   \<and> validate_servant_file ex_blank_default_v2 ''codex'' ''/cfg2/servants/codex.yaml''
       = Inl (ValidationError
               ''/cfg2/servants/codex.yaml.default_model: must be a non-empty string'')"
  by code_simp

text \<open>
  Scenario D in the \<open>gemini\<close> servant, after a \<open>codex\<close> servant that validates: the
  configuration, the V2 servant file and both roots raise the error of the membership
  test; and the roots with scenario D in the \<open>codex\<close> servant are not loaded.
\<close>

theorem default_model_outside_allowed_models_witness:
  "validate_servant ''config'' ex_servants_d ''codex''
       = Inr (the (map_of (servants ex_cfg) ''codex''))
   \<and> dict_get ex_servants_d ''gemini'' = YMap ex_scenario_d
   \<and> dict_get ex_scenario_d ''default_model'' = YStr ''x''
   \<and> dict_get ex_scenario_d ''allowed_models'' = YList (map YStr [''y'', ''z''])
   \<and> validate_runtime_config_dict ex_raw_cfg_d ''config''
       = Inl (ValidationError
               ''config.servants.gemini.default_model: must be included in allowed_models'')
   \<and> dict_get ex_scenario_d_v2 ''default_model'' = YStr ''x''
   \<and> dict_get ex_scenario_d_v2 ''allowed_models'' = YList (map YStr [''y'', ''z''])
   \<and> validate_servant_file ex_scenario_d_v2 ''codex'' ''/cfg2/servants/codex.yaml''
       = Inl (ValidationError
               ''/cfg2/servants/codex.yaml.default_model: must be included in allowed_models'')
   \<and> node_at ex_v1_tree_dg ''servant'' (''gemini'' @ ''.yaml'')
       = Some (File (Document (YMap ex_scenario_d)))
   \<and> load_and_validate_split_config ''/cfg'' ex_v1_tree_dg
       = Inl (ValidationError
               ''/cfg.servants.gemini.default_model: must be included in allowed_models'')
   \<and> node_at ex_v2_tree_dg ''servants'' (''gemini'' @ ''.yaml'')
       = Some (File (Document (YMap ex_scenario_d_gemini_v2)))
   \<and> load_and_validate_v2_config ''/cfg2'' ex_v2_tree_dg
       = Inl (ValidationError
               ''/cfg2/servants/gemini.yaml.default_model: must be included in allowed_models'')
   \<and> node_at ex_v1_tree_d ''servant'' (''codex'' @ ''.yaml'')
       = Some (File (Document (YMap ex_scenario_d)))
   \<and> \<not> default_in_allowed ex_scenario_d
   \<and> (\<exists>e. load_and_validate_split_config ''/cfg'' ex_v1_tree_d = Inl e)
   \<and> node_at ex_v2_tree_d ''servants'' (''codex'' @ ''.yaml'')
       = Some (File (Document (YMap ex_scenario_d_v2)))
   \<and> \<not> default_in_allowed ex_scenario_d_v2
   \<and> (\<exists>e. load_and_validate_v2_config ''/cfg2'' ex_v2_tree_d = Inl e)"
proof -
  note inst = default_model_outside_allowed_models
    [where c = ex_raw_cfg_d and servants_node = ex_servants_d and t = "''gemini''"
       and node = ex_scenario_d and dm = "''x''" and allowed = "[''y'', ''z'']"
       and cfg_path = "''config''"
       and ?node2.0 = ex_scenario_d_v2 and tool = "''codex''" and ?dm2.0 = "''x''"
       and ?allowed2.0 = "[''y'', ''z'']" and path = "''/cfg2/servants/codex.yaml''"
       and ?root3.0 = "''/cfg''" and ?tree3.0 = ex_v1_tree_dg and ?t3.0 = "''gemini''"
       and ?raw3.0 = ex_scenario_d and ?dm3.0 = "''x''" and ?allowed3.0 = "[''y'', ''z'']"
       and ?root4.0 = "''/cfg2''" and ?tree4.0 = ex_v2_tree_dg and ?t4.0 = "''gemini''"
       and ?node4.0 = ex_scenario_d_gemini_v2 and ?dm4.0 = "''x''"
       and ?allowed4.0 = "[''y'', ''z'']"
       and ?t5.0 = "''codex''" and ?tree5.0 = ex_v1_tree_d and ?raw5.0 = ex_scenario_d
       and ?root5.0 = "''/cfg''"
       and ?t6.0 = "''codex''" and ?tree6.0 = ex_v2_tree_d and ?raw6.0 = ex_scenario_d_v2
       and ?root6.0 = "''/cfg2''"]
  have strs: "\<not> strip_empty ''x''" "\<forall>s \<in> set [''y'', ''z'']. \<not> strip_empty s"
    "''x'' \<notin> set [''y'', ''z'']" "[''y'', ''z''] \<noteq> ([] :: string list)"
    by (simp_all add: strip_empty_def isspace_def)
  have codex: "validate_servant ''config'' ex_servants_d ''codex''
                 = Inr (the (map_of (servants ex_cfg) ''codex''))"
    by code_simp
  have "\<forall>t' \<in> set (takeWhile (\<lambda>x. x \<noteq> ''gemini'') SERVANT_NAMES).
          validate_servant ''config'' ex_servants_d t' = Inr (the (map_of (servants ex_cfg) t'))"
    by code_simp
  then have a1: "\<forall>t' \<in> set (takeWhile (\<lambda>x. x \<noteq> ''gemini'') SERVANT_NAMES).
          \<exists>sv. validate_servant ''config'' ex_servants_d t' = Inr sv"
    by blast
  have a2: "set (keys ex_raw_cfg_d) \<subseteq> set [''version'', ''servants'', ''pipelines'']"
    "eq_int (dict_get ex_raw_cfg_d ''version'') 1"
    "dict_get ex_raw_cfg_d ''servants'' = YMap ex_servants_d"
    "set (keys ex_servants_d) \<subseteq> set SERVANT_NAMES" "''gemini'' \<in> set SERVANT_NAMES"
    by (simp_all add: keys_def dict_get_def ex_raw_cfg_d_def ex_servants_d_def eq_int_def
          SERVANT_NAMES_def)
  have a3: "dict_get ex_servants_d ''gemini'' = YMap ex_scenario_d"
    "set (keys ex_scenario_d) \<subseteq> set [''default_model'', ''allowed_models'',
        ''wrapper_defaults'', ''purpose_models'', ''purpose_efforts'']"
    "dict_get ex_scenario_d ''default_model'' = YStr ''x''"
    "dict_get ex_scenario_d ''allowed_models'' = YList (map YStr [''y'', ''z''])"
    by (simp_all add: dict_get_def ex_servants_d_def ex_scenario_d_def keys_def)
  have b: "set (keys ex_scenario_d_v2) \<subseteq> set [''version'', ''tool'', ''default_model'',
        ''allowed_models'', ''wrapper_defaults'', ''web_capabilities'', ''purpose_models'',
        ''purpose_efforts'', ''effort_level_descriptions'']"
    "eq_int (dict_get ex_scenario_d_v2 ''version'') 2"
    "dict_get ex_scenario_d_v2 ''tool'' = YStr ''codex''"
    "dict_get ex_scenario_d_v2 ''default_model'' = YStr ''x''"
    "dict_get ex_scenario_d_v2 ''allowed_models'' = YList (map YStr [''y'', ''z''])"
    by (simp_all add: dict_get_def ex_scenario_d_v2_def keys_def eq_int_def)
  have "\<forall>(s, sd, fn) \<in> set SERVANT_FILES.
             load_yaml ''/cfg'' ex_v1_tree_dg sd fn
               = Inr (mapping_of (the (map_of ex_servants_d s)))
           \<and> normalize_servant_file (mapping_of (the (map_of ex_servants_d s))) s
                (path_join (path_join ''/cfg'' sd) fn)
               = Inr (mapping_of (the (map_of ex_servants_d s)))
           \<and> (s \<in> set (takeWhile (\<lambda>x. x \<noteq> ''gemini'') SERVANT_NAMES)
                \<longrightarrow> validate_servant ''/cfg''
                       [(s, YMap (mapping_of (the (map_of ex_servants_d s))))] s
                      = Inr (the (map_of (servants ex_cfg) s)))"
    by code_simp
  then have c1: "\<forall>(s, sd, fn) \<in> set SERVANT_FILES. \<exists>raw nd.
            load_yaml ''/cfg'' ex_v1_tree_dg sd fn = Inr raw
          \<and> normalize_servant_file raw s (path_join (path_join ''/cfg'' sd) fn) = Inr nd
          \<and> (s \<in> set (takeWhile (\<lambda>x. x \<noteq> ''gemini'') SERVANT_NAMES)
               \<longrightarrow> (\<exists>sv. validate_servant ''/cfg'' [(s, YMap nd)] s = Inr sv))"
    by fast
  have "\<forall>(p, sd, fn) \<in> set PIPELINE_FILES.
             load_yaml ''/cfg'' ex_v1_tree_dg sd fn
               = Inr (mapping_of (the (map_of (mapping_of (dict_get ex_raw_cfg_d ''pipelines'')) p)))
           \<and> normalize_pipeline_file
                (mapping_of (the (map_of (mapping_of (dict_get ex_raw_cfg_d ''pipelines'')) p))) p
                (path_join (path_join ''/cfg'' sd) fn)
               = Inr (mapping_of (the (map_of (mapping_of (dict_get ex_raw_cfg_d ''pipelines'')) p)))"
    by code_simp
  then have c2: "\<forall>(p, sd, fn) \<in> set PIPELINE_FILES. \<exists>raw pn.
            load_yaml ''/cfg'' ex_v1_tree_dg sd fn = Inr raw
          \<and> normalize_pipeline_file raw p (path_join (path_join ''/cfg'' sd) fn) = Inr pn"
    by fast
  have c3: "node_at ex_v1_tree_dg ''servant'' (''gemini'' @ ''.yaml'')
              = Some (File (Document (YMap ex_scenario_d)))"
    by (simp add: node_at_def ex_v1_tree_dg_def)
  have d1: "\<forall>sd \<in> set [''skills'', ''servants'', ''policies''].
              validate_expected_files ''/cfg2'' ex_v2_tree_dg sd = Inr ()"
    by code_simp
  have "\<forall>phase \<in> set PHASES.
             load_yaml ''/cfg2'' ex_v2_tree_dg ''skills'' (phase @ ''.yaml'')
               = Inr (ex_skill_node phase)
           \<and> validate_skill_file (ex_skill_node phase) phase
               (path_join (path_join ''/cfg2'' ''skills'') (phase @ ''.yaml'')) = Inr ex_skill_view"
    by code_simp
  then have d2: "\<forall>phase \<in> set PHASES. \<exists>nd sk.
            load_yaml ''/cfg2'' ex_v2_tree_dg ''skills'' (phase @ ''.yaml'') = Inr nd
          \<and> validate_skill_file nd phase
              (path_join (path_join ''/cfg2'' ''skills'') (phase @ ''.yaml'')) = Inr sk"
    by fast
  have "\<forall>t' \<in> set (takeWhile (\<lambda>x. x \<noteq> ''gemini'') TOOLS).
             load_yaml ''/cfg2'' ex_v2_tree_dg ''servants'' (t' @ ''.yaml'')
               = Inr (mapping_of (ex_v2_servant ''codex'' ''gpt-a''))
           \<and> validate_servant_file (mapping_of (ex_v2_servant ''codex'' ''gpt-a'')) t'
               (path_join (path_join ''/cfg2'' ''servants'') (t' @ ''.yaml''))
               = Inr ex_v2_codex_view"
    by code_simp
  then have d3: "\<forall>t' \<in> set (takeWhile (\<lambda>x. x \<noteq> ''gemini'') TOOLS). \<exists>nd sv.
            load_yaml ''/cfg2'' ex_v2_tree_dg ''servants'' (t' @ ''.yaml'') = Inr nd
          \<and> validate_servant_file nd t'
              (path_join (path_join ''/cfg2'' ''servants'') (t' @ ''.yaml'')) = Inr sv"
    by fast
  have d4: "''gemini'' \<in> set TOOLS"
    "node_at ex_v2_tree_dg ''servants'' (''gemini'' @ ''.yaml'')
       = Some (File (Document (YMap ex_scenario_d_gemini_v2)))"
    "set (keys ex_scenario_d_gemini_v2) \<subseteq> set [''version'', ''tool'', ''default_model'',
        ''allowed_models'', ''wrapper_defaults'', ''web_capabilities'', ''purpose_models'',
        ''purpose_efforts'', ''effort_level_descriptions'']"
    "eq_int (dict_get ex_scenario_d_gemini_v2 ''version'') 2"
    "dict_get ex_scenario_d_gemini_v2 ''tool'' = YStr ''gemini''"
    "dict_get ex_scenario_d_gemini_v2 ''default_model'' = YStr ''x''"
    "dict_get ex_scenario_d_gemini_v2 ''allowed_models'' = YList (map YStr [''y'', ''z''])"
    by (simp_all add: TOOLS_def node_at_def ex_v2_tree_dg_def dict_get_def
          ex_scenario_d_gemini_v2_def keys_def eq_int_def)
  have e: "''codex'' \<in> set SERVANT_NAMES"
    "node_at ex_v1_tree_d ''servant'' (''codex'' @ ''.yaml'')
       = Some (File (Document (YMap ex_scenario_d)))"
    "\<not> default_in_allowed ex_scenario_d"
    by (simp_all add: SERVANT_NAMES_def node_at_def ex_v1_tree_d_def default_in_allowed_def
          dict_get_def ex_scenario_d_def)
  have f: "''codex'' \<in> set TOOLS"
    "node_at ex_v2_tree_d ''servants'' (''codex'' @ ''.yaml'')
       = Some (File (Document (YMap ex_scenario_d_v2)))"
    "\<not> default_in_allowed ex_scenario_d_v2"
    by (simp_all add: TOOLS_def node_at_def ex_v2_tree_d_def default_in_allowed_def
          dict_get_def ex_scenario_d_v2_def)
  note part_a = inst [THEN conjunct1, THEN mp]
  note part_b = inst [THEN conjunct2, THEN conjunct1, THEN mp]
  note part_c = inst [THEN conjunct2, THEN conjunct2, THEN conjunct1, THEN mp]
  note part_d = inst [THEN conjunct2, THEN conjunct2, THEN conjunct2, THEN conjunct1, THEN mp]
  note part_e = inst [THEN conjunct2, THEN conjunct2, THEN conjunct2, THEN conjunct2,
                      THEN conjunct1, THEN mp]
  note part_f = inst [THEN conjunct2, THEN conjunct2, THEN conjunct2, THEN conjunct2,
                      THEN conjunct2, THEN mp]
  have ra: "validate_runtime_config_dict ex_raw_cfg_d ''config''
       = Inl (ValidationError (''config'' @ ''.servants.'' @ ''gemini'' @ ''.default_model''
                                  @ '': '' @ ''must be included in allowed_models''))"
    by (rule part_a) (intro conjI strs a1 a2 a3)
  have rb: "validate_servant_file ex_scenario_d_v2 ''codex'' ''/cfg2/servants/codex.yaml''
       = Inl (ValidationError (''/cfg2/servants/codex.yaml'' @ ''.default_model''
                                  @ '': '' @ ''must be included in allowed_models''))"
    by (rule part_b) (intro conjI strs b)
  have rc: "load_and_validate_split_config ''/cfg'' ex_v1_tree_dg
       = Inl (ValidationError (''/cfg'' @ ''.servants.'' @ ''gemini'' @ ''.default_model''
                                  @ '': '' @ ''must be included in allowed_models''))"
    by (rule part_c) (intro conjI strs c1 c2 c3 a2(5) a3(3,4))
  have rd: "load_and_validate_v2_config ''/cfg2'' ex_v2_tree_dg
       = Inl (ValidationError (path_join (path_join ''/cfg2'' ''servants'') (''gemini'' @ ''.yaml'')
                                  @ ''.default_model''
                                  @ '': '' @ ''must be included in allowed_models''))"
    by (rule part_d) (intro conjI strs d1 d2 d3 d4)
  have re: "\<exists>e. load_and_validate_split_config ''/cfg'' ex_v1_tree_d = Inl e"
    by (rule part_e) (intro conjI e)
  have rf: "\<exists>e. load_and_validate_v2_config ''/cfg2'' ex_v2_tree_d = Inl e"
    by (rule part_f) (intro conjI f)
  have p: "path_join (path_join ''/cfg2'' ''servants'') (''gemini'' @ ''.yaml'')
             = ''/cfg2/servants/gemini.yaml''"
    by (simp add: path_join_def)
  note concl = ra rb rc rd [unfolded p]
  have strings: "''config'' @ ''.servants.'' @ ''gemini'' @ ''.default_model''
        @ '': '' @ ''must be included in allowed_models''
      = ''config.servants.gemini.default_model: must be included in allowed_models''"
    "''/cfg2/servants/codex.yaml'' @ ''.default_model''
        @ '': '' @ ''must be included in allowed_models''
      = ''/cfg2/servants/codex.yaml.default_model: must be included in allowed_models''"
    "''/cfg'' @ ''.servants.'' @ ''gemini'' @ ''.default_model''
        @ '': '' @ ''must be included in allowed_models''
      = ''/cfg.servants.gemini.default_model: must be included in allowed_models''"
    "''/cfg2/servants/gemini.yaml'' @ ''.default_model''
        @ '': '' @ ''must be included in allowed_models''
      = ''/cfg2/servants/gemini.yaml.default_model: must be included in allowed_models''"
    by simp_all
  show ?thesis
    by (intro conjI codex a3(1,3,4) concl [unfolded strings] b(4,5) c3 d4(2) e(2,3) re f(2,3) rf)
qed

end
